theory Spec2Isabelle
  imports Complex_Main "HOL-Library.Word" "HOL-Library.Log_Nat"
begin

unbundle bit_operations_syntax

section \<open>Machine types of the firmware\<close>

type_synonym u8 = "8 word"
type_synonym u32 = "32 word"

text \<open>\<^verbatim>\<open>UINT_MAX\<close> of \<^verbatim>\<open><limits.h>\<close>: \<^verbatim>\<open>unsigned int\<close> has 32 bits on the ESP8266.\<close>

definition UINT_MAX :: u32 where
  "UINT_MAX = 4294967295"

subsection \<open>Single-precision floating point\<close>

text \<open>
  The C type \<^verbatim>\<open>float\<close> is IEEE 754 binary32. A finite value is
  \<open>(-1)\<^sup>s * m * 2\<^sup>e\<close> with a 24-bit significand \<open>m\<close> and \<open>-149 \<le> e \<le> 104\<close>;
  the representation is kept normalised (\<open>2\<^sup>2\<^sup>3 \<le> m\<close> unless \<open>e = -149\<close>), so that equal
  finite values of the same sign are equal terms.
\<close>

datatype float32 = Finite bool nat int | Infinity bool | NaN

fun is_float32 :: "float32 \<Rightarrow> bool" where
  "is_float32 (Finite sg m e) = (m < 2 ^ 24 \<and> -149 \<le> e \<and> e \<le> 104 \<and> (m < 2 ^ 23 \<longrightarrow> e = -149))"
| "is_float32 (Infinity sg) = True"
| "is_float32 NaN = True"

fun is_finite :: "float32 \<Rightarrow> bool" where
  "is_finite (Finite sg m e) = True"
| "is_finite (Infinity sg) = False"
| "is_finite NaN = False"

text \<open>The exact value of a finite float, as a real number.\<close>

definition pow2 :: "int \<Rightarrow> real" where
  "pow2 e = (if 0 \<le> e then 2 ^ nat e else 1 / 2 ^ nat (- e))"

fun valof :: "float32 \<Rightarrow> real" where
  "valof (Finite sg m e) = (if sg then - 1 else 1) * real m * pow2 e"
| "valof (Infinity sg) = 0"
| "valof NaN = 0"

text \<open>
  Rounding of the exact result \<open>(-1)\<^sup>s * m * 2\<^sup>e\<close> of an operation to binary32, to nearest
  with ties to even (the default rounding mode); overflow gives an infinity.
\<close>

definition round_float :: "bool \<Rightarrow> nat \<Rightarrow> int \<Rightarrow> float32" where
  "round_float sg m e =
    (if m = 0 then Finite sg 0 (-149)
     else
       let e' = max (e + bitlen (int m) - 24) (-149);
           q = (if e' \<le> e then m * 2 ^ nat (e - e')
                else let sh = nat (e' - e);
                         d = m div 2 ^ sh;
                         r = m mod 2 ^ sh;
                         h = 2 ^ (sh - 1)
                     in if h < r \<or> (r = h \<and> odd d) then d + 1 else d)
       in if q = 2 ^ 24
          then (if 104 < e' + 1 then Infinity sg else Finite sg (2 ^ 23) (e' + 1))
          else (if 104 < e' then Infinity sg else Finite sg q e'))"

text \<open>Conversion \<^verbatim>\<open>uint32_t\<close> to \<^verbatim>\<open>float\<close> (rounds above \<open>2\<^sup>2\<^sup>4\<close>).\<close>

definition u32_to_float :: "u32 \<Rightarrow> float32" where
  "u32_to_float w = round_float False (unat w) 0"

definition sval :: "bool \<Rightarrow> nat \<Rightarrow> int" where
  "sval sg m = (if sg then - int m else int m)"

text \<open>Comparisons: every comparison with a NaN is false; \<open>-0 = +0\<close>.\<close>

fun flt :: "float32 \<Rightarrow> float32 \<Rightarrow> bool" where
  "flt (Finite s1 m1 e1) (Finite s2 m2 e2) =
     (sval s1 m1 * 2 ^ nat (e1 - min e1 e2) < sval s2 m2 * 2 ^ nat (e2 - min e1 e2))"
| "flt (Finite s1 m1 e1) (Infinity s2) = (\<not> s2)"
| "flt (Infinity s1) (Finite s2 m2 e2) = s1"
| "flt (Infinity s1) (Infinity s2) = (s1 \<and> \<not> s2)"
| "flt NaN y = False"
| "flt x NaN = False"

fun fle :: "float32 \<Rightarrow> float32 \<Rightarrow> bool" where
  "fle (Finite s1 m1 e1) (Finite s2 m2 e2) =
     (sval s1 m1 * 2 ^ nat (e1 - min e1 e2) \<le> sval s2 m2 * 2 ^ nat (e2 - min e1 e2))"
| "fle (Finite s1 m1 e1) (Infinity s2) = (\<not> s2)"
| "fle (Infinity s1) (Finite s2 m2 e2) = s1"
| "fle (Infinity s1) (Infinity s2) = (s1 \<or> \<not> s2)"
| "fle NaN y = False"
| "fle x NaN = False"

definition fgt :: "float32 \<Rightarrow> float32 \<Rightarrow> bool" where
  "fgt x y = flt y x"

definition fge :: "float32 \<Rightarrow> float32 \<Rightarrow> bool" where
  "fge x y = fle y x"

definition feq :: "float32 \<Rightarrow> float32 \<Rightarrow> bool" where
  "feq x y = (fle x y \<and> fle y x)"

text \<open>Multiplication and subtraction: the exact result, rounded once.\<close>

fun fmul :: "float32 \<Rightarrow> float32 \<Rightarrow> float32" where
  "fmul (Finite s1 m1 e1) (Finite s2 m2 e2) = round_float (s1 \<noteq> s2) (m1 * m2) (e1 + e2)"
| "fmul (Finite s1 m1 e1) (Infinity s2) = (if m1 = 0 then NaN else Infinity (s1 \<noteq> s2))"
| "fmul (Infinity s1) (Finite s2 m2 e2) = (if m2 = 0 then NaN else Infinity (s1 \<noteq> s2))"
| "fmul (Infinity s1) (Infinity s2) = Infinity (s1 \<noteq> s2)"
| "fmul NaN y = NaN"
| "fmul x NaN = NaN"

fun fsub :: "float32 \<Rightarrow> float32 \<Rightarrow> float32" where
  "fsub (Finite s1 m1 e1) (Finite s2 m2 e2) =
     (let e = min e1 e2;
          d = sval s1 m1 * 2 ^ nat (e1 - e) - sval s2 m2 * 2 ^ nat (e2 - e)
      in if d = 0 then Finite (s1 \<and> \<not> s2) 0 (-149)
         else round_float (d < 0) (nat \<bar>d\<bar>) e)"
| "fsub (Finite s1 m1 e1) (Infinity s2) = Infinity (\<not> s2)"
| "fsub (Infinity s1) (Finite s2 m2 e2) = Infinity s1"
| "fsub (Infinity s1) (Infinity s2) = (if s1 = s2 then NaN else Infinity s1)"
| "fsub NaN y = NaN"
| "fsub x NaN = NaN"

text \<open>\<^verbatim>\<open>fabs\<close> of \<^verbatim>\<open><math.h>\<close> clears the sign.\<close>

fun fabs :: "float32 \<Rightarrow> float32" where
  "fabs (Finite sg m e) = Finite False m e"
| "fabs (Infinity sg) = Infinity False"
| "fabs NaN = NaN"

text \<open>The float literals of the sources.\<close>

definition FLT_MAX :: float32 where
  "FLT_MAX = Finite False (2 ^ 24 - 1) 104"

definition float_zero :: float32 where
  "float_zero = Finite False 0 (-149)"

definition float_twelve :: float32 where
  "float_twelve = Finite False 12582912 (-20)"

section \<open>samplerGlobals.h and sampler.h: constants\<close>

definition N_START_COND :: nat where "N_START_COND = 3"
definition N_END_COND :: nat where "N_END_COND = 3"
definition NUM_FLOW_LOGS :: nat where "NUM_FLOW_LOGS = 5"

definition PUMP_OFF :: u8 where "PUMP_OFF = 7"
definition PUMP_ON :: u8 where "PUMP_ON = 8"

text \<open>\<^verbatim>\<open>ABS_ZERO_C -273.15f\<close>: the binary32 nearest to \<open>-273.15\<close> is \<open>-8950579 / 2\<^sup>1\<^sup>5\<close>.\<close>

definition ABS_ZERO_C :: float32 where
  "ABS_ZERO_C = Finite True 8950579 (-15)"

text \<open>\<^verbatim>\<open>MAX_DEPTH 300.f\<close> (\<^verbatim>\<open>IS_MS5837\<close> is defined), \<^verbatim>\<open>MIN_DEPTH 1.f\<close>,
  \<^verbatim>\<open>MAX_TEMPERATURE 125.0f\<close>.\<close>

definition MAX_DEPTH :: float32 where
  "MAX_DEPTH = Finite False 9830400 (-15)"

definition MIN_DEPTH :: float32 where
  "MIN_DEPTH = Finite False 8388608 (-23)"

definition MAX_TEMPERATURE :: float32 where
  "MAX_TEMPERATURE = Finite False 16384000 (-17)"

text \<open>\<^verbatim>\<open>MIN_FLOWRATE 0.2f\<close>: the binary32 nearest to \<open>0.2\<close> is \<open>13421773 / 2\<^sup>2\<^sup>6\<close>.\<close>

definition MIN_FLOWRATE :: float32 where
  "MIN_FLOWRATE = Finite False 13421773 (-26)"

section \<open>sampler.h: the state of a Sampler object\<close>

text \<open>
  The private members of \<^verbatim>\<open>class Sampler\<close>; the member \<^verbatim>\<open>_x\<close> of the source is the
  field \<open>m_x\<close>. Arrays are lists; \<open>sampler_inv\<close> fixes their lengths and keeps the
  index into the flow log inside the array.
\<close>

record sampler =
  m_minFlowrate :: float32
  m_waitPumpEnd :: u32
  m_targetFlowVol :: u32
  m_waitPumpStart :: u32
  m_temperatureBand :: float32
  m_targetTemperature :: float32
  m_depthBand :: float32
  m_targetDepth :: float32
  m_ticksPerLiter :: u32
  m_maxFlowrate :: float32
  m_startConditions :: "u8 list"
  m_endConditions :: "u8 list"
  m_startConditionMask :: "u8 list"
  m_endConditionMask :: "u8 list"
  m_diveStartTime :: u32
  m_pumpStartTime :: u32
  m_flowLog :: "u32 list"
  m_curFlowIdx :: u8
  m_curFlowrate :: float32

definition sampler_inv :: "sampler \<Rightarrow> bool" where
  "sampler_inv s =
    (length (m_startConditions s) = N_START_COND \<and>
     length (m_endConditions s) = N_END_COND \<and>
     length (m_startConditionMask s) = N_END_COND \<and>
     length (m_endConditionMask s) = N_START_COND \<and>
     length (m_flowLog s) = NUM_FLOW_LOGS \<and>
     unat (m_curFlowIdx s) < NUM_FLOW_LOGS)"

text \<open>
  \<^verbatim>\<open>Sampler::Sampler()\<close> is empty: a member with a default member initialiser in sampler.h
  gets that value, and the four condition arrays, which have none, keep what the storage of
  the object held (zeros for an object with static storage, anything for a local one). The
  arguments of \<open>Sampler\<close> are these contents, three cells for each of \<^verbatim>\<open>_startConditions\<close>,
  \<^verbatim>\<open>_endConditions\<close>, \<^verbatim>\<open>_startConditionMask\<close> and \<^verbatim>\<open>_endConditionMask\<close>.
\<close>

fun array3 :: "u8 \<times> u8 \<times> u8 \<Rightarrow> u8 list" where
  "array3 (a, b, c) = [a, b, c]"

definition Sampler :: "u8 \<times> u8 \<times> u8 \<Rightarrow> u8 \<times> u8 \<times> u8 \<Rightarrow> u8 \<times> u8 \<times> u8 \<Rightarrow> u8 \<times> u8 \<times> u8 \<Rightarrow> sampler" where
  "Sampler sc ec sm em =
    \<lparr> m_minFlowrate = MIN_FLOWRATE,
      m_waitPumpEnd = UINT_MAX,
      m_targetFlowVol = UINT_MAX,
      m_waitPumpStart = UINT_MAX,
      m_temperatureBand = float_zero,
      m_targetTemperature = ABS_ZERO_C,
      m_depthBand = float_zero,
      m_targetDepth = FLT_MAX,
      m_ticksPerLiter = 0,
      m_maxFlowrate = float_zero,
      m_startConditions = array3 sc,
      m_endConditions = array3 ec,
      m_startConditionMask = array3 sm,
      m_endConditionMask = array3 em,
      m_diveStartTime = UINT_MAX,
      m_pumpStartTime = UINT_MAX,
      m_flowLog = [0, 0, 0, 0, 0],
      m_curFlowIdx = 0,
      m_curFlowrate = float_zero \<rparr>"

section \<open>sampler.cpp\<close>

subsection \<open>setDeploymentConfig\<close>

definition setDeploymentConfig ::
  "float32 \<Rightarrow> float32 \<Rightarrow> float32 \<Rightarrow> float32 \<Rightarrow> float32 \<Rightarrow> u32 \<Rightarrow> u32 \<Rightarrow> u32 \<Rightarrow> u32 \<Rightarrow>
   sampler \<Rightarrow> sampler" where
  "setDeploymentConfig minFlowrate targetDepth depthBand targetTemperature temperatureBand
     waitPumpEnd waitPumpStart targetFlowVol ticksPerLiter s =
   s \<lparr> m_ticksPerLiter := ticksPerLiter,
       m_targetDepth := (if fgt targetDepth float_zero then targetDepth else FLT_MAX),
       m_depthBand := depthBand,
       m_targetTemperature :=
         (if fgt targetTemperature ABS_ZERO_C then targetTemperature else ABS_ZERO_C),
       m_temperatureBand := temperatureBand,
       m_waitPumpStart := waitPumpStart * 60,
       m_minFlowrate := fmul minFlowrate (u32_to_float ticksPerLiter),
       m_waitPumpEnd := (if 0 < waitPumpEnd then waitPumpEnd * 60 else UINT_MAX),
       m_targetFlowVol := (if 0 < targetFlowVol then targetFlowVol * ticksPerLiter else UINT_MAX) \<rparr>"

subsection \<open>isValidUserConfig\<close>

text \<open>
  \<open>recomputeMasks\<close> is the first part of \<^verbatim>\<open>isValidUserConfig\<close>, the six assignments to
  the masks. The masks are \<^verbatim>\<open>uint8_t\<close> cells that receive the value of a C++ \<^verbatim>\<open>bool\<close>,
  0 or 1.
\<close>

definition recomputeMasks :: "sampler \<Rightarrow> sampler" where
  "recomputeMasks s =
    (let s0 = s \<lparr> m_startConditionMask := (m_startConditionMask s)
                 [0 := of_bool (fge (m_targetDepth s) MIN_DEPTH
                                \<and> flt (m_targetDepth s) MAX_DEPTH
                                \<and> fgt (m_depthBand s) float_zero)] \<rparr>;
         s1 = s0 \<lparr> m_startConditionMask := (m_startConditionMask s0)
                 [1 := of_bool (fgt (m_targetTemperature s0) ABS_ZERO_C
                                \<and> flt (m_targetTemperature s0) MAX_TEMPERATURE
                                \<and> fgt (m_temperatureBand s0) float_zero)] \<rparr>;
         s2 = s1 \<lparr> m_startConditionMask := (m_startConditionMask s1)
                 [2 := of_bool (0 < m_waitPumpStart s1 \<and> m_waitPumpStart s1 < UINT_MAX)] \<rparr>;
         s3 = s2 \<lparr> m_endConditionMask := (m_endConditionMask s2)
                 [0 := of_bool (0 < m_targetFlowVol s2 \<and> m_targetFlowVol s2 < UINT_MAX)] \<rparr>;
         s4 = s3 \<lparr> m_endConditionMask := (m_endConditionMask s3)
                 [1 := of_bool (0 < m_waitPumpEnd s3 \<and> m_waitPumpEnd s3 < UINT_MAX)] \<rparr>
     in s4 \<lparr> m_endConditionMask := (m_endConditionMask s4)
                 [2 := of_bool (fge (m_minFlowrate s4)
                                    (fmul MIN_FLOWRATE (u32_to_float (m_ticksPerLiter s4))))] \<rparr>)"

text \<open>The loop \<^verbatim>\<open>for (i = 0; i < N_START_COND; i++)\<close> that ORs the mask entries together.\<close>

fun orMasks :: "u8 list \<Rightarrow> u8 list \<Rightarrow> nat list \<Rightarrow> u8 \<times> u8 \<Rightarrow> u8 \<times> u8" where
  "orMasks sm em [] (isPumpTrigger, isPumpStop) = (isPumpTrigger, isPumpStop)"
| "orMasks sm em (i # is) (isPumpTrigger, isPumpStop) =
     orMasks sm em is (isPumpTrigger OR sm ! i, isPumpStop OR em ! i)"

definition isValidUserConfig :: "sampler \<Rightarrow> u8 \<times> sampler" where
  "isValidUserConfig s =
    (let s' = recomputeMasks s;
         isValidFlowmeter = (of_bool (0 < m_ticksPerLiter s') :: u8);
         (isPumpTrigger, isPumpStop) =
            orMasks (m_startConditionMask s') (m_endConditionMask s') [0..<N_START_COND] (0, 0)
     in (isValidFlowmeter AND isPumpTrigger AND isPumpStop, s'))"

subsection \<open>checkPumpTrigger\<close>

text \<open>
  The right operand of \<^verbatim>\<open>&&\<close> is evaluated only when the left one is true:
  \<open>elapsedSinceDive\<close> is the subtraction \<^verbatim>\<open>time_now - _diveStartTime\<close> of the third start
  condition, \<open>None\<close> when it is not evaluated. \<open>evalConditions\<close> is the first part of
  \<^verbatim>\<open>checkPumpTrigger\<close>, the six assignments to the cached conditions; \<open>startLoop\<close> and
  \<open>endLoop\<close> are its two loops.
\<close>

definition elapsedSinceDive :: "u32 \<Rightarrow> sampler \<Rightarrow> u32 option" where
  "elapsedSinceDive time_now s =
    (if m_diveStartTime s \<le> time_now then Some (time_now - m_diveStartTime s) else None)"

definition evalConditions :: "float32 \<Rightarrow> float32 \<Rightarrow> u32 \<Rightarrow> u32 \<Rightarrow> u32 \<Rightarrow> sampler \<Rightarrow> sampler" where
  "evalConditions depth temperature time_now ticks pumpDuration s =
    (let s0 = s \<lparr> m_startConditions := (m_startConditions s)
                 [0 := of_bool (fle (fabs (fsub depth (m_targetDepth s))) (m_depthBand s))] \<rparr>;
         s1 = s0 \<lparr> m_startConditions := (m_startConditions s0)
                 [1 := of_bool (fle (fabs (fsub temperature (m_targetTemperature s0)))
                                    (m_temperatureBand s0))] \<rparr>;
         s2 = s1 \<lparr> m_startConditions := (m_startConditions s1)
                 [2 := of_bool (case elapsedSinceDive time_now s1 of
                                  None \<Rightarrow> False
                                | Some d \<Rightarrow> m_waitPumpStart s1 \<le> d)] \<rparr>;
         s3 = s2 \<lparr> m_endConditions := (m_endConditions s2)
                 [0 := of_bool (m_targetFlowVol s2 \<le> ticks)] \<rparr>;
         s4 = s3 \<lparr> m_endConditions := (m_endConditions s3)
                 [1 := of_bool (m_pumpStartTime s3 \<le> time_now \<and> m_waitPumpEnd s3 \<le> pumpDuration)] \<rparr>
     in s4 \<lparr> m_endConditions := (m_endConditions s4)
                 [2 := of_bool (fgt (m_maxFlowrate s4) float_zero
                                \<and> fle (m_curFlowrate s4) (m_minFlowrate s4))] \<rparr>)"

text \<open>
  \<^verbatim>\<open>pumpOn |= _startConditionMask[j] * _startConditions[j]\<close>: the product is computed in
  \<^verbatim>\<open>int\<close> and the result of \<^verbatim>\<open>|=\<close> is truncated to \<^verbatim>\<open>uint8_t\<close>.
\<close>

fun startLoop :: "sampler \<Rightarrow> nat list \<Rightarrow> u8 \<Rightarrow> u8" where
  "startLoop s [] pumpOn = pumpOn"
| "startLoop s (j # js) pumpOn =
     startLoop s js (pumpOn OR (m_startConditionMask s ! j * m_startConditions s ! j))"

text \<open>
  \<^verbatim>\<open>pumpOn &= !(_endConditionMask[k] * _endConditions[k])\<close>: \<^verbatim>\<open>!\<close> tests the \<^verbatim>\<open>int\<close>
  product against zero.
\<close>

fun endLoop :: "sampler \<Rightarrow> nat list \<Rightarrow> u8 \<Rightarrow> u8" where
  "endLoop s [] pumpOn = pumpOn"
| "endLoop s (k # ks) pumpOn =
     endLoop s ks
       (pumpOn AND of_bool (unat (m_endConditionMask s ! k) * unat (m_endConditions s ! k) = 0))"

definition checkPumpTrigger ::
  "float32 \<Rightarrow> float32 \<Rightarrow> u32 \<Rightarrow> u32 \<Rightarrow> u32 \<Rightarrow> sampler \<Rightarrow> u8 \<times> sampler" where
  "checkPumpTrigger depth temperature time_now ticks pumpDuration s =
    (let s' = evalConditions depth temperature time_now ticks pumpDuration s;
         pumpOn = startLoop s' [0..<N_START_COND] 0;
         pumpOn = endLoop s' [0..<N_END_COND] pumpOn
     in (if pumpOn = 0 then PUMP_OFF else PUMP_ON, s'))"

text \<open>
  The second part of \<^verbatim>\<open>checkPumpTrigger\<close> on its own: the command that the two loops and
  the final test compute from the masks and the cached conditions of a state.
\<close>

definition pumpCommand :: "sampler \<Rightarrow> u8" where
  "pumpCommand s =
    (let pumpOn = startLoop s [0..<N_START_COND] 0;
         pumpOn = endLoop s [0..<N_END_COND] pumpOn
     in if pumpOn = 0 then PUMP_OFF else PUMP_ON)"

subsection \<open>Flow rate\<close>

definition updateCurrentFlowrate :: "u32 \<Rightarrow> sampler \<Rightarrow> sampler" where
  "updateCurrentFlowrate flowData s =
    (let s0 = s \<lparr> m_flowLog := (m_flowLog s)[unat (m_curFlowIdx s) := flowData] \<rparr>;
         s1 = s0 \<lparr> m_curFlowIdx := word_of_nat ((unat (m_curFlowIdx s0) + 1) mod NUM_FLOW_LOGS) \<rparr>
     in s1 \<lparr> m_curFlowrate :=
               fmul (u32_to_float (flowData - m_flowLog s1 ! unat (m_curFlowIdx s1))) float_twelve \<rparr>)"

definition getCurFlowrate :: "sampler \<Rightarrow> float32" where
  "getCurFlowrate s = m_curFlowrate s"

text \<open>
  \<^verbatim>\<open>(flowData - _flowLog[_curFlowIdx]) * 12\<close> is a \<^verbatim>\<open>uint32_t\<close> product, converted to
  \<^verbatim>\<open>float\<close> by the assignment.
\<close>

definition computeMaxFlowrate :: "u32 \<Rightarrow> sampler \<Rightarrow> sampler" where
  "computeMaxFlowrate flowData s =
    s \<lparr> m_maxFlowrate := u32_to_float ((flowData - m_flowLog s ! unat (m_curFlowIdx s)) * 12) \<rparr>"

definition setDiveStartTime :: "u32 \<Rightarrow> sampler \<Rightarrow> sampler" where
  "setDiveStartTime diveStartTime s = s \<lparr> m_diveStartTime := diveStartTime \<rparr>"

definition setPumpStartTime :: "u32 \<Rightarrow> sampler \<Rightarrow> sampler" where
  "setPumpStartTime pumpStartTime s = s \<lparr> m_pumpStartTime := pumpStartTime \<rparr>"

text \<open>A sequence of consecutive calls of \<^verbatim>\<open>updateCurrentFlowrate\<close>, one per sample.\<close>

fun updateMany :: "u32 list \<Rightarrow> sampler \<Rightarrow> sampler" where
  "updateMany [] s = s"
| "updateMany (x # xs) s = updateMany xs (updateCurrentFlowrate x s)"

section \<open>samplerTest.cpp: the scenario of testVolume1\<close>

definition START_TIME :: u32 where
  "START_TIME = 0"

definition TICKS_PER_L :: u32 where
  "TICKS_PER_L = 4600"

text \<open>
  \<^verbatim>\<open>main\<close> declares \<^verbatim>\<open>Sampler sampler;\<close>, a local object, and hands a copy of it to each
  test. In the scenarios below every cell of its four condition arrays holds \<^verbatim>\<open>0xFF\<close>
  before the first call.
\<close>

definition test_sampler :: sampler where
  "test_sampler = Sampler (255, 255, 255) (255, 255, 255) (255, 255, 255) (255, 255, 255)"

text \<open>
  The sampler of \<^verbatim>\<open>testVolume1\<close> after \<^verbatim>\<open>setDiveStartTime(START_TIME)\<close> and
  \<^verbatim>\<open>setDeploymentConfig(0.f, 200.f, 5.f, ABS_ZERO_C, 0.f, 0, 1, 20, TICKS_PER_L)\<close>: start at
  a depth of \<open>200 \<plusminus> 5\<close> m or one minute after the dive, stop after 20 litres.
\<close>

definition testVolume1_deployment :: sampler where
  "testVolume1_deployment =
     setDeploymentConfig float_zero (Finite False 13107200 (-16)) (Finite False 10485760 (-21))
       ABS_ZERO_C float_zero 0 1 20 TICKS_PER_L (setDiveStartTime START_TIME test_sampler)"

text \<open>The same sampler after \<^verbatim>\<open>isValidUserConfig()\<close>, and then after \<^verbatim>\<open>setPumpStartTime(45)\<close>.\<close>

definition testVolume1_config :: sampler where
  "testVolume1_config = snd (isValidUserConfig testVolume1_deployment)"

definition testVolume1 :: sampler where
  "testVolume1 = setPumpStartTime 45 testVolume1_config"

section \<open>Auxiliary facts\<close>

subsection \<open>Single-precision arithmetic\<close>

lemma pow2_powr: "pow2 e = 2 powr (real_of_int e)"
proof (cases "0 \<le> e")
  case True
  then have "real_of_int e = real (nat e)" by simp
  then have "2 powr (real_of_int e) = 2 ^ nat e"
    by (simp only: powr_realpow [of 2 "nat e", simplified])
  with True show ?thesis by (simp add: pow2_def)
next
  case False
  then have "real_of_int e = - real (nat (- e))" by simp
  then have "2 powr (real_of_int e) = 1 / 2 ^ nat (- e)"
    by (simp only: powr_minus_divide powr_realpow [of 2 "nat (- e)", simplified])
  with False show ?thesis by (simp add: pow2_def)
qed

lemma pow2_pos: "0 < pow2 e"
  by (simp add: pow2_powr)

lemma pow2_add: "pow2 (a + b) = pow2 a * pow2 b"
  by (simp add: pow2_powr powr_add)

lemma pow2_nat: "0 \<le> e \<Longrightarrow> pow2 e = 2 ^ nat e"
  by (simp add: pow2_def)

lemma pow2_split: "e0 \<le> e \<Longrightarrow> pow2 e = pow2 e0 * 2 ^ nat (e - e0)"
  using pow2_add [of e0 "e - e0"] by (simp add: pow2_nat)

lemma scaled_nat_eq:
  assumes "real n * pow2 e0 = real m * pow2 e" "e0 \<le> e"
  shows "n = m * 2 ^ nat (e - e0)"
proof -
  have "real n * pow2 e0 = real (m * 2 ^ nat (e - e0)) * pow2 e0"
    using assms by (simp add: pow2_split [OF assms(2)])
  then have "real n = real (m * 2 ^ nat (e - e0))"
    using pow2_pos [of e0] by simp
  then show ?thesis by (simp only: of_nat_eq_iff)
qed

lemma two_power_lessD: "(2::int) ^ a < 2 ^ b \<Longrightarrow> a < b"
  using power_strict_increasing_iff [of "2::int" a b] by simp

lemma bitlen_significand:
  assumes "is_float32 (Finite sg m e)" "0 < m"
  shows "max (e + bitlen (int m) - 24) (-149) = e"
proof -
  from assms have m: "m < 2 ^ 24" and e: "-149 \<le> e" and sub: "m < 2 ^ 23 \<longrightarrow> e = -149"
    by simp_all
  have pos: "0 < int m" using assms(2) by simp
  from bitlen_bounds [OF pos]
  have lo: "2 ^ nat (bitlen (int m) - 1) \<le> int m" and hi: "int m < 2 ^ nat (bitlen (int m))"
    by simp_all
  have mi: "int m < 2 ^ 24"
    using m by simp
  have "(2::int) ^ nat (bitlen (int m) - 1) < 2 ^ 24"
    using lo mi by (rule order_le_less_trans)
  then have "nat (bitlen (int m) - 1) < 24"
    by (rule two_power_lessD)
  then have le24: "bitlen (int m) \<le> 24" by simp
  show ?thesis
  proof (cases "m < 2 ^ 23")
    case True
    then have "int m < 2 ^ 23"
      by simp
    with lo have "(2::int) ^ nat (bitlen (int m) - 1) < 2 ^ 23"
      by (rule order_le_less_trans)
    then have "nat (bitlen (int m) - 1) < 23"
      by (rule two_power_lessD)
    then have "bitlen (int m) \<le> 23" by simp
    with True sub show ?thesis by simp
  next
    case False
    then have "(2::int) ^ 23 \<le> int m"
      by simp
    then have "(2::int) ^ 23 < 2 ^ nat (bitlen (int m))"
      using hi by (rule order_le_less_trans)
    then have "23 < nat (bitlen (int m))"
      by (rule two_power_lessD)
    with le24 have "bitlen (int m) = 24" by simp
    with e show ?thesis by simp
  qed
qed

lemma round_float_exact:
  assumes fl: "is_float32 (Finite sg' m e)" and m: "0 < m"
    and eq: "real n * pow2 e0 = real m * pow2 e"
  shows "round_float sg n e0 = Finite sg m e"
proof -
  have n: "0 < n"
  proof (rule ccontr)
    assume "\<not> 0 < n"
    then have "real m * pow2 e = 0" using eq by simp
    with m pow2_pos [of e] show False by simp
  qed
  from fl have m24: "m < 2 ^ 24" and e104: "e \<le> 104" by simp_all
  have fl': "is_float32 (Finite sg m e)" using fl by simp
  show ?thesis
  proof (cases "e0 \<le> e")
    case True
    then have nm: "n = m * 2 ^ nat (e - e0)"
      using eq by (rule scaled_nat_eq [rotated])
    then have "int n = int m * 2 ^ nat (e - e0)" by simp
    then have "bitlen (int n) = bitlen (int m) + (e - e0)"
      using m True by (simp add: bitlen_pow2)
    then have e': "max (e0 + bitlen (int n) - 24) (-149) = e"
      using bitlen_significand [OF fl' m] by (simp add: algebra_simps)
    show ?thesis
    proof (cases "e0 = e")
      case True
      with nm e' n m24 e104 show ?thesis
        by (simp add: round_float_def Let_def)
    next
      case False
      with True have lt: "e0 < e" by simp
      then have sh: "0 < nat (e - e0)" by simp
      have "(1::nat) \<le> 2 ^ (nat (e - e0) - 1)" by simp
      then have h: "(0::nat) < 2 ^ (nat (e - e0) - 1)" by simp
      from nm have d: "n div 2 ^ nat (e - e0) = m" and r: "n mod 2 ^ nat (e - e0) = 0"
        by simp_all
      from lt e' n m24 e104 d r h show ?thesis
        by (simp add: round_float_def Let_def)
    qed
  next
    case False
    then have le: "e \<le> e0" by simp
    have "m = n * 2 ^ nat (e0 - e)"
      using eq [symmetric] le by (rule scaled_nat_eq)
    then have mn: "m = n * 2 ^ nat (e0 - e)" .
    then have "int m = int n * 2 ^ nat (e0 - e)" by simp
    then have "bitlen (int m) = bitlen (int n) + (e0 - e)"
      using n le by (simp add: bitlen_pow2)
    then have e': "max (e0 + bitlen (int n) - 24) (-149) = e"
      using bitlen_significand [OF fl' m] by (simp add: algebra_simps)
    from False e' n m24 e104 mn show ?thesis
      by (simp add: round_float_def Let_def)
  qed
qed

lemma valof_sval: "valof (Finite sg m e) = real_of_int (sval sg m) * pow2 e"
  by (simp add: sval_def)

lemma valof_align:
  assumes "e0 \<le> e"
  shows "valof (Finite sg m e) = real_of_int (sval sg m * 2 ^ nat (e - e0)) * pow2 e0"
  unfolding valof_sval by (simp add: pow2_split [OF assms])

lemma fle_valof:
  "fle (Finite s1 m1 e1) (Finite s2 m2 e2) = (valof (Finite s1 m1 e1) \<le> valof (Finite s2 m2 e2))"
proof -
  let ?e = "min e1 e2"
  let ?a = "sval s1 m1 * 2 ^ nat (e1 - ?e)"
  let ?b = "sval s2 m2 * 2 ^ nat (e2 - ?e)"
  have a: "valof (Finite s1 m1 e1) = real_of_int ?a * pow2 ?e"
    by (rule valof_align) simp
  have b: "valof (Finite s2 m2 e2) = real_of_int ?b * pow2 ?e"
    by (rule valof_align) simp
  have "(real_of_int ?a * pow2 ?e \<le> real_of_int ?b * pow2 ?e) = (real_of_int ?a \<le> real_of_int ?b)"
    using pow2_pos [of ?e] by simp
  also have "\<dots> = (?a \<le> ?b)"
    by (simp only: of_int_le_iff)
  finally show ?thesis
    by (simp only: a b fle.simps)
qed

lemma flt_valof:
  "flt (Finite s1 m1 e1) (Finite s2 m2 e2) = (valof (Finite s1 m1 e1) < valof (Finite s2 m2 e2))"
proof -
  let ?e = "min e1 e2"
  let ?a = "sval s1 m1 * 2 ^ nat (e1 - ?e)"
  let ?b = "sval s2 m2 * 2 ^ nat (e2 - ?e)"
  have a: "valof (Finite s1 m1 e1) = real_of_int ?a * pow2 ?e"
    by (rule valof_align) simp
  have b: "valof (Finite s2 m2 e2) = real_of_int ?b * pow2 ?e"
    by (rule valof_align) simp
  have "(real_of_int ?a * pow2 ?e < real_of_int ?b * pow2 ?e) = (real_of_int ?a < real_of_int ?b)"
    using pow2_pos [of ?e] by simp
  also have "\<dots> = (?a < ?b)"
    by (simp only: of_int_less_iff)
  finally show ?thesis
    by (simp only: a b flt.simps)
qed

lemma fle_not_flt: "fle x y \<Longrightarrow> \<not> flt y x"
  by (cases x; cases y) (auto simp: min.commute)

lemma flt_not_fle: "flt x y \<Longrightarrow> \<not> fle y x"
  using fle_not_flt by blast

lemma fsub_exact:
  "valof (Finite s1 m1 e1) - valof (Finite s2 m2 e2) =
     real_of_int (sval s1 m1 * 2 ^ nat (e1 - min e1 e2) - sval s2 m2 * 2 ^ nat (e2 - min e1 e2))
       * pow2 (min e1 e2)"
proof -
  have a: "valof (Finite s1 m1 e1) = real_of_int (sval s1 m1 * 2 ^ nat (e1 - min e1 e2)) * pow2 (min e1 e2)"
    by (rule valof_align) simp
  have b: "valof (Finite s2 m2 e2) = real_of_int (sval s2 m2 * 2 ^ nat (e2 - min e1 e2)) * pow2 (min e1 e2)"
    by (rule valof_align) simp
  show ?thesis
    by (simp only: a b of_int_diff left_diff_distrib)
qed

text \<open>When the exact difference is a float, the subtraction does not round.\<close>

lemma fabs_fsub_exact:
  assumes f: "is_float32 (Finite sf mf ef)"
    and eq: "valof (Finite sf mf ef) = valof (Finite s1 m1 e1) - valof (Finite s2 m2 e2)"
  shows "valof (fabs (fsub (Finite s1 m1 e1) (Finite s2 m2 e2))) =
           \<bar>valof (Finite s1 m1 e1) - valof (Finite s2 m2 e2)\<bar>
         \<and> is_finite (fabs (fsub (Finite s1 m1 e1) (Finite s2 m2 e2)))"
proof -
  define e where "e = min e1 e2"
  define d where "d = sval s1 m1 * 2 ^ nat (e1 - e) - sval s2 m2 * 2 ^ nat (e2 - e)"
  have ex: "valof (Finite s1 m1 e1) - valof (Finite s2 m2 e2) = real_of_int d * pow2 e"
    unfolding d_def e_def by (rule fsub_exact)
  have sub: "fsub (Finite s1 m1 e1) (Finite s2 m2 e2) =
      (if d = 0 then Finite (s1 \<and> \<not> s2) 0 (-149) else round_float (d < 0) (nat \<bar>d\<bar>) e)"
    by (simp add: Let_def d_def e_def)
  show ?thesis
  proof (cases "d = 0")
    case True
    then show ?thesis
      unfolding ex sub by simp
  next
    case False
    have "\<bar>valof (Finite sf mf ef)\<bar> = real mf * pow2 ef"
      using pow2_pos [of ef] by (simp add: abs_mult)
    moreover have "\<bar>real_of_int d * pow2 e\<bar> = real (nat \<bar>d\<bar>) * pow2 e"
      using pow2_pos [of e] by (simp add: abs_mult)
    ultimately have eq': "real (nat \<bar>d\<bar>) * pow2 e = real mf * pow2 ef"
      using eq ex by simp
    have "mf \<noteq> 0"
    proof
      assume "mf = 0"
      with eq' have "real (nat \<bar>d\<bar>) * pow2 e = 0" by simp
      with pow2_pos [of e] have "nat \<bar>d\<bar> = 0" by simp
      with False show False by simp
    qed
    then have mf: "0 < mf" by simp
    have "round_float (d < 0) (nat \<bar>d\<bar>) e = Finite (d < 0) mf ef"
      using f mf eq' by (rule round_float_exact)
    with False have "fabs (fsub (Finite s1 m1 e1) (Finite s2 m2 e2)) = Finite False mf ef"
      unfolding sub by simp
    then show ?thesis
      unfolding ex using eq' pow2_pos [of e] by (simp add: abs_mult)
  qed
qed

lemma band_test_exact:
  assumes "is_finite v" "is_finite t" "is_finite b"
    and "is_finite f" "is_float32 f" "valof f = valof v - valof t"
  shows "fle (fabs (fsub v t)) b = (\<bar>valof v - valof t\<bar> \<le> valof b)"
proof -
  from assms(1-4) obtain s1 m1 e1 s2 m2 e2 sb mb eb sf mf ef
    where v: "v = Finite s1 m1 e1" and t: "t = Finite s2 m2 e2"
      and b: "b = Finite sb mb eb" and f: "f = Finite sf mf ef"
    by (cases v; cases t; cases b; cases f) simp_all
  have "valof (fabs (fsub v t)) = \<bar>valof v - valof t\<bar> \<and> is_finite (fabs (fsub v t))"
    using assms(5,6) unfolding v t f by (rule fabs_fsub_exact)
  then obtain sd md ed where d: "fabs (fsub v t) = Finite sd md ed"
    and val: "valof (Finite sd md ed) = \<bar>valof v - valof t\<bar>"
    by (cases "fabs (fsub v t)") simp_all
  show ?thesis
    by (simp only: d b fle_valof val)
qed

lemma band_test_beyond:
  assumes "is_finite v" "is_finite t" "is_finite b"
    and "\<exists>f. is_finite f \<and> is_float32 f \<and> valof f = valof v - valof t"
    and "valof b < \<bar>valof v - valof t\<bar>"
  shows "\<not> fle (fabs (fsub v t)) b"
proof -
  from assms(4) obtain f where "is_finite f" "is_float32 f" "valof f = valof v - valof t"
    by blast
  with assms(1-3) have "fle (fabs (fsub v t)) b = (\<bar>valof v - valof t\<bar> \<le> valof b)"
    by (rule band_test_exact)
  with assms(5) show ?thesis by simp
qed

lemma round_float_cases:
  assumes n: "0 < n"
  obtains q e' where
    "e' = max (e0 + bitlen (int n) - 24) (-149)"
    "round_float sg n e0 =
      (if q = 2 ^ 24
       then (if 104 < e' + 1 then Infinity sg else Finite sg (2 ^ 23) (e' + 1))
       else (if 104 < e' then Infinity sg else Finite sg q e'))"
    "e' \<le> e0 \<longrightarrow> real q * pow2 e' = real n * pow2 e0"
    "e0 < e' \<longrightarrow> (\<exists>d. (q = d \<or> q = d + 1) \<and> real d * pow2 e' \<le> real n * pow2 e0
        \<and> real n * pow2 e0 < real (d + 1) * pow2 e'
        \<and> (real n * pow2 e0 = real d * pow2 e' \<longrightarrow> q = d))"
    "-149 < e' \<longrightarrow> pow2 (e' + 23) \<le> real n * pow2 e0"
proof -
  define k where "k = bitlen (int n)"
  define e' where "e' = max (e0 + k - 24) (-149)"
  define sh where "sh = nat (e' - e0)"
  define d where "d = n div 2 ^ sh"
  define r where "r = n mod 2 ^ sh"
  define q where "q = (if e' \<le> e0 then n * 2 ^ nat (e0 - e')
              else if 2 ^ (sh - 1) < r \<or> (r = 2 ^ (sh - 1) \<and> odd d) then d + 1 else d)"
  have rf: "round_float sg n e0 =
      (if q = 2 ^ 24
       then (if 104 < e' + 1 then Infinity sg else Finite sg (2 ^ 23) (e' + 1))
       else (if 104 < e' then Infinity sg else Finite sg q e'))"
  proof -
    from n have nz: "(n = 0) = False" by simp
    show ?thesis
      unfolding round_float_def Let_def q_def d_def r_def sh_def e'_def k_def nz if_False ..
  qed
  have c1: "e' \<le> e0 \<longrightarrow> real q * pow2 e' = real n * pow2 e0"
  proof
    assume le: "e' \<le> e0"
    then have "q = n * 2 ^ nat (e0 - e')" by (simp add: q_def)
    then show "real q * pow2 e' = real n * pow2 e0"
      by (simp add: pow2_split [OF le])
  qed
  have c2: "e0 < e' \<longrightarrow> (\<exists>d. (q = d \<or> q = d + 1) \<and> real d * pow2 e' \<le> real n * pow2 e0
        \<and> real n * pow2 e0 < real (d + 1) * pow2 e'
        \<and> (real n * pow2 e0 = real d * pow2 e' \<longrightarrow> q = d))"
  proof
    assume lt: "e0 < e'"
    then have le: "e0 \<le> e'" by simp
    have p: "pow2 e' = pow2 e0 * 2 ^ sh"
      unfolding sh_def by (rule pow2_split [OF le])
    have sc: "real (m * 2 ^ sh) * pow2 e0 = real m * pow2 e'" for m
      by (simp add: p mult_ac)
    have nd: "n = d * 2 ^ sh + r"
      unfolding d_def r_def by (rule div_mult_mod_eq [symmetric])
    have rlt: "r < 2 ^ sh"
      by (simp add: r_def)
    have q: "q = d \<or> q = d + 1"
      using lt by (simp add: q_def)
    have lo: "real d * pow2 e' \<le> real n * pow2 e0"
    proof -
      have "d * 2 ^ sh \<le> n" using nd by simp
      then have "real (d * 2 ^ sh) \<le> real n" by (simp only: of_nat_le_iff)
      then have "real (d * 2 ^ sh) * pow2 e0 \<le> real n * pow2 e0"
        using pow2_pos [of e0] by simp
      then show ?thesis by (simp only: sc)
    qed
    have hi: "real n * pow2 e0 < real (d + 1) * pow2 e'"
    proof -
      have "n < (d + 1) * 2 ^ sh" using nd rlt by simp
      then have "real n < real ((d + 1) * 2 ^ sh)" by (simp only: of_nat_less_iff)
      then have "real n * pow2 e0 < real ((d + 1) * 2 ^ sh) * pow2 e0"
        using pow2_pos [of e0] by simp
      then show ?thesis by (simp only: sc)
    qed
    have eq: "real n * pow2 e0 = real d * pow2 e' \<longrightarrow> q = d"
    proof
      assume "real n * pow2 e0 = real d * pow2 e'"
      then have "real n * pow2 e0 = real (d * 2 ^ sh) * pow2 e0"
        by (simp only: sc)
      then have "real n = real (d * 2 ^ sh)"
        using pow2_pos [of e0] by simp
      then have "n = d * 2 ^ sh" by (simp only: of_nat_eq_iff)
      with nd have r0: "r = 0" by simp
      have "(0::nat) < 2 ^ (sh - 1)" by simp
      with r0 lt show "q = d" by (simp add: q_def)
    qed
    from q lo hi eq show "\<exists>d. (q = d \<or> q = d + 1) \<and> real d * pow2 e' \<le> real n * pow2 e0
        \<and> real n * pow2 e0 < real (d + 1) * pow2 e'
        \<and> (real n * pow2 e0 = real d * pow2 e' \<longrightarrow> q = d)"
      by blast
  qed
  have c3: "-149 < e' \<longrightarrow> pow2 (e' + 23) \<le> real n * pow2 e0"
  proof
    assume "-149 < e'"
    then have e'eq: "e' = e0 + k - 24"
      by (simp add: e'_def max_def split: if_splits)
    have pos: "0 < int n" using n by simp
    from bitlen_bounds [OF pos] have lo: "2 ^ nat (k - 1) \<le> int n"
      by (simp add: k_def)
    have k1: "1 \<le> k"
      using pos by (simp add: k_def bitlen_alt_def)
    have "int (2 ^ nat (k - 1)) \<le> int n" using lo by simp
    then have "(2::nat) ^ nat (k - 1) \<le> n" by (simp only: of_nat_le_iff)
    then have "real ((2::nat) ^ nat (k - 1)) \<le> real n" by (simp only: of_nat_le_iff)
    then have "2 ^ nat (k - 1) \<le> real n" by simp
    then have "pow2 (k - 1) \<le> real n"
      using k1 by (simp add: pow2_nat)
    then have "pow2 e0 * pow2 (k - 1) \<le> pow2 e0 * real n"
      using pow2_pos [of e0] by simp
    moreover have "e' + 23 = e0 + (k - 1)"
      by (simp add: e'eq)
    then have "pow2 (e' + 23) = pow2 e0 * pow2 (k - 1)"
      by (simp only: pow2_add)
    ultimately show "pow2 (e' + 23) \<le> real n * pow2 e0"
      by (simp add: mult.commute)
  qed
  from that [OF _ rf c1 c2 c3] show thesis
    by (simp add: e'_def k_def)
qed


lemma pow2_mono: "a \<le> b \<Longrightarrow> pow2 a \<le> pow2 b"
  by (simp add: pow2_powr)

lemma pow2_suc: "pow2 (e + 1) = 2 * pow2 e"
  using pow2_add [of e 1] by (simp add: pow2_def)

lemma significand_below:
  assumes "m < 2 ^ 24" "e + 24 \<le> e' + 23"
  shows "real m * pow2 e < pow2 (e' + 23)"
proof -
  have "real m < real ((2::nat) ^ 24)"
    using assms(1) by (simp only: of_nat_less_iff)
  then have "real m < 2 ^ 24" by simp
  then have "real m * pow2 e < 2 ^ 24 * pow2 e"
    using pow2_pos [of e] by simp
  also have "2 ^ 24 * pow2 e = pow2 (e + 24)"
    using pow2_add [of e 24] by (simp add: pow2_def)
  also have "\<dots> \<le> pow2 (e' + 23)"
    using assms(2) by (rule pow2_mono)
  finally show ?thesis .
qed

lemma scaled_le: "real a * pow2 e \<le> real b * pow2 e \<longleftrightarrow> a \<le> b"
  using pow2_pos [of e] by simp

lemma scaled_less: "real a * pow2 e < real b * pow2 e \<longleftrightarrow> a < b"
  using pow2_pos [of e] by simp

lemma scaled_eq: "real a * pow2 e = real b * pow2 e \<longleftrightarrow> a = b"
  using pow2_pos [of e] by simp

text \<open>Rounding to nearest is monotone and leaves floats fixed: it does not cross a float.\<close>

lemma round_float_le:
  assumes n: "0 < n" and fb: "is_float32 (Finite sb mb eb)"
    and le: "real n * pow2 e0 \<le> real mb * pow2 eb"
  shows "\<exists>q e. round_float sg n e0 = Finite sg q e \<and> real q * pow2 e \<le> real mb * pow2 eb"
proof -
  from fb have mb: "mb < 2 ^ 24" and eblo: "-149 \<le> eb" and ebhi: "eb \<le> 104"
    by simp_all
  from round_float_cases [OF n, of e0 sg] obtain q e' where
    rf: "round_float sg n e0 =
      (if q = 2 ^ 24
       then (if 104 < e' + 1 then Infinity sg else Finite sg (2 ^ 23) (e' + 1))
       else (if 104 < e' then Infinity sg else Finite sg q e'))"
    and c1: "e' \<le> e0 \<longrightarrow> real q * pow2 e' = real n * pow2 e0"
    and c2: "e0 < e' \<longrightarrow> (\<exists>d. (q = d \<or> q = d + 1) \<and> real d * pow2 e' \<le> real n * pow2 e0
        \<and> real n * pow2 e0 < real (d + 1) * pow2 e'
        \<and> (real n * pow2 e0 = real d * pow2 e' \<longrightarrow> q = d))"
    and c3: "-149 < e' \<longrightarrow> pow2 (e' + 23) \<le> real n * pow2 e0"
    by blast
  have ee: "e' \<le> eb"
  proof (rule ccontr)
    assume "\<not> e' \<le> eb"
    then have lt: "eb < e'" by simp
    with eblo c3 have "pow2 (e' + 23) \<le> real n * pow2 e0" by simp
    moreover have "real mb * pow2 eb < pow2 (e' + 23)"
      using mb lt by (intro significand_below) simp_all
    ultimately show False using le by simp
  qed
  define M where "M = mb * 2 ^ nat (eb - e')"
  have B: "real mb * pow2 eb = real M * pow2 e'"
    by (simp add: M_def pow2_split [OF ee] mult_ac)
  have qM: "q \<le> M"
  proof (cases "e' \<le> e0")
    case True
    with c1 le have "real q * pow2 e' \<le> real M * pow2 e'"
      by (simp add: B)
    then show ?thesis by (simp only: scaled_le)
  next
    case False
    with c2 obtain d where q: "q = d \<or> q = d + 1"
      and lo: "real d * pow2 e' \<le> real n * pow2 e0"
      and eq: "real n * pow2 e0 = real d * pow2 e' \<longrightarrow> q = d"
      by auto
    from lo le have "real d * pow2 e' \<le> real M * pow2 e'"
      by (simp add: B)
    then have dM: "d \<le> M" by (simp only: scaled_le)
    show ?thesis
    proof (cases "d = M")
      case True
      with lo le have "real n * pow2 e0 = real d * pow2 e'"
        by (simp add: B)
      with eq True show ?thesis by simp
    next
      case False
      with dM q show ?thesis by auto
    qed
  qed
  then have val: "real q * pow2 e' \<le> real mb * pow2 eb"
    unfolding B by (simp only: scaled_le)
  show ?thesis
  proof (cases "q = 2 ^ 24")
    case True
    have "\<not> 104 < e' + 1"
    proof
      assume "104 < e' + 1"
      with ee ebhi have "eb = e'" by simp
      then have "M = mb" by (simp add: M_def)
      with qM mb True show False by simp
    qed
    with True have r: "round_float sg n e0 = Finite sg (2 ^ 23) (e' + 1)"
      by (simp add: rf)
    have "real ((2::nat) ^ 23) * pow2 (e' + 1) = real q * pow2 e'"
      by (simp add: True pow2_suc)
    with val r show ?thesis by auto
  next
    case False
    from ee ebhi have "\<not> 104 < e'" by simp
    with False have "round_float sg n e0 = Finite sg q e'"
      by (simp add: rf)
    with val show ?thesis by auto
  qed
qed

lemma round_float_ge:
  assumes n: "0 < n" and ff: "is_float32 (Finite sf mf ef)"
    and ge: "real mf * pow2 ef \<le> real n * pow2 e0"
  shows "round_float sg n e0 = Infinity sg
    \<or> (\<exists>q e. round_float sg n e0 = Finite sg q e \<and> real mf * pow2 ef \<le> real q * pow2 e)"
proof -
  from ff have mf: "mf < 2 ^ 24" and eflo: "-149 \<le> ef"
    by simp_all
  from round_float_cases [OF n, of e0 sg] obtain q e' where
    rf: "round_float sg n e0 =
      (if q = 2 ^ 24
       then (if 104 < e' + 1 then Infinity sg else Finite sg (2 ^ 23) (e' + 1))
       else (if 104 < e' then Infinity sg else Finite sg q e'))"
    and c1: "e' \<le> e0 \<longrightarrow> real q * pow2 e' = real n * pow2 e0"
    and c2: "e0 < e' \<longrightarrow> (\<exists>d. (q = d \<or> q = d + 1) \<and> real d * pow2 e' \<le> real n * pow2 e0
        \<and> real n * pow2 e0 < real (d + 1) * pow2 e'
        \<and> (real n * pow2 e0 = real d * pow2 e' \<longrightarrow> q = d))"
    and c3: "-149 < e' \<longrightarrow> pow2 (e' + 23) \<le> real n * pow2 e0"
    by blast
  have above: "real M * pow2 e' \<le> real q * pow2 e'" if "real M * pow2 e' \<le> real n * pow2 e0" for M
  proof (cases "e' \<le> e0")
    case True
    with c1 that show ?thesis by simp
  next
    case False
    with c2 obtain d where q: "q = d \<or> q = d + 1"
      and hi: "real n * pow2 e0 < real (d + 1) * pow2 e'"
      by auto
    from that hi have "real M * pow2 e' < real (d + 1) * pow2 e'"
      by simp
    then have "M < d + 1" by (simp only: scaled_less)
    with q have "M \<le> q" by auto
    then show ?thesis by (simp only: scaled_le)
  qed
  have val: "real mf * pow2 ef \<le> real q * pow2 e'"
  proof (cases "e' \<le> ef")
    case True
    define M where "M = mf * 2 ^ nat (ef - e')"
    have F: "real mf * pow2 ef = real M * pow2 e'"
      by (simp add: M_def pow2_split [OF True] mult_ac)
    from ge show ?thesis
      unfolding F by (rule above)
  next
    case False
    then have lt: "ef < e'" by simp
    with eflo c3 have x: "pow2 (e' + 23) \<le> real n * pow2 e0" by simp
    have p: "pow2 (e' + 23) = real ((2::nat) ^ 23) * pow2 e'"
      using pow2_add [of e' 23] by (simp add: pow2_def)
    have "real mf * pow2 ef < pow2 (e' + 23)"
      using mf lt by (intro significand_below) simp_all
    also have "\<dots> \<le> real q * pow2 e'"
      using x unfolding p by (rule above)
    finally show ?thesis by simp
  qed
  show ?thesis
  proof (cases "q = 2 ^ 24")
    case True
    have "real ((2::nat) ^ 23) * pow2 (e' + 1) = real q * pow2 e'"
      by (simp add: True pow2_suc)
    with val have "real mf * pow2 ef \<le> real ((2::nat) ^ 23) * pow2 (e' + 1)"
      by simp
    with True show ?thesis
      unfolding rf by (cases "104 < e' + 1") auto
  next
    case False
    with val show ?thesis
      unfolding rf by (cases "104 < e'") auto
  qed
qed


lemma fabs_fsub_cases:
  assumes "is_finite v" "is_finite t"
  obtains (zero) "valof v - valof t = 0" "fabs (fsub v t) = Finite False 0 (-149)"
  | (round) n e sg where "0 < n" "\<bar>valof v - valof t\<bar> = real n * pow2 e"
      "fabs (fsub v t) = fabs (round_float sg n e)"
proof -
  from assms obtain s1 m1 e1 s2 m2 e2
    where v: "v = Finite s1 m1 e1" and t: "t = Finite s2 m2 e2"
    by (cases v; cases t) simp_all
  define e where "e = min e1 e2"
  define d where "d = sval s1 m1 * 2 ^ nat (e1 - e) - sval s2 m2 * 2 ^ nat (e2 - e)"
  have ex: "valof v - valof t = real_of_int d * pow2 e"
    unfolding v t d_def e_def by (rule fsub_exact)
  have sub: "fsub v t =
      (if d = 0 then Finite (s1 \<and> \<not> s2) 0 (-149) else round_float (d < 0) (nat \<bar>d\<bar>) e)"
    by (simp add: v t Let_def d_def e_def)
  show thesis
  proof (cases "d = 0")
    case True
    show ?thesis
    proof (rule zero)
      show "valof v - valof t = 0"
        unfolding ex True by simp
      show "fabs (fsub v t) = Finite False 0 (-149)"
        unfolding sub True by simp
    qed
  next
    case False
    show ?thesis
    proof (rule round [of "nat \<bar>d\<bar>" e "d < 0"])
      show "0 < nat \<bar>d\<bar>"
        using False by simp
      show "\<bar>valof v - valof t\<bar> = real (nat \<bar>d\<bar>) * pow2 e"
        unfolding ex using pow2_pos [of e] by (simp add: abs_mult)
      show "fabs (fsub v t) = fabs (round_float (d < 0) (nat \<bar>d\<bar>) e)"
        unfolding sub using False by simp
    qed
  qed
qed

lemma fle_magnitude:
  assumes "is_finite b"
  shows "fle (Finite False q e) b = (real q * pow2 e \<le> valof b)"
proof -
  from assms obtain sb mb eb where b: "b = Finite sb mb eb"
    by (cases b) simp_all
  have "valof (Finite False q e) = real q * pow2 e"
    by simp
  then show ?thesis
    unfolding b by (simp only: fle_valof)
qed

lemma positive_float:
  assumes "is_finite f" "is_float32 f" "0 < valof f"
  obtains m e where "is_float32 (Finite False m e)" "valof f = real m * pow2 e"
proof -
  from assms(1) obtain sf mf ef where f: "f = Finite sf mf ef"
    by (cases f) simp_all
  have "\<not> sf"
  proof
    assume sf
    then have "valof f \<le> 0"
      using pow2_pos [of ef] by (simp add: f mult_le_0_iff)
    with assms(3) show False by simp
  qed
  with assms(2) show thesis
    by (intro that [of mf ef]) (simp_all add: f)
qed

text \<open>
  A distance within the band is in band, and a distance at or beyond a float above the band
  is out of band, whatever the rounding of the subtraction.
\<close>

lemma band_test_within:
  assumes "is_finite v" "is_finite t" "is_finite b" "is_float32 b"
    and "\<bar>valof v - valof t\<bar> \<le> valof b"
  shows "fle (fabs (fsub v t)) b"
  using assms(1,2)
proof (cases rule: fabs_fsub_cases)
  case zero
  from assms(5) have "real 0 * pow2 (-149) \<le> valof b"
    unfolding zero(1) by simp
  then show ?thesis
    unfolding zero(2) fle_magnitude [OF assms(3)] .
next
  case (round n e sg)
  from round(1) have "0 < real n * pow2 e"
    using pow2_pos [of e] by simp
  with assms(5) have "0 < valof b"
    unfolding round(2) by simp
  with assms(3,4) obtain mb eb where fb: "is_float32 (Finite False mb eb)"
    and vb: "valof b = real mb * pow2 eb"
    by (rule positive_float)
  from assms(5) have "real n * pow2 e \<le> real mb * pow2 eb"
    unfolding round(2) vb .
  with round(1) fb obtain q e'
    where r: "round_float sg n e = Finite sg q e'"
      and le: "real q * pow2 e' \<le> real mb * pow2 eb"
    using round_float_le by blast
  from le show ?thesis
    unfolding round(3) r fabs.simps fle_magnitude [OF assms(3)] vb .
qed

lemma band_test_above:
  assumes "is_finite v" "is_finite t" "is_finite b"
    and "is_finite f" "is_float32 f" "valof b < valof f" "valof f \<le> \<bar>valof v - valof t\<bar>"
  shows "\<not> fle (fabs (fsub v t)) b"
  using assms(1,2)
proof (cases rule: fabs_fsub_cases)
  case zero
  from assms(6,7) have "\<not> real 0 * pow2 (-149) \<le> valof b"
    unfolding zero(1) by simp
  then show ?thesis
    unfolding zero(2) fle_magnitude [OF assms(3)] .
next
  case (round n e sg)
  have "\<exists>mf ef. is_float32 (Finite False mf ef) \<and> valof b < real mf * pow2 ef
      \<and> real mf * pow2 ef \<le> real n * pow2 e"
  proof (cases "0 < valof f")
    case True
    with assms(4,5) obtain mf ef where "is_float32 (Finite False mf ef)"
      and "valof f = real mf * pow2 ef"
      by (rule positive_float)
    with assms(6,7) show ?thesis
      unfolding round(2) by auto
  next
    case False
    with assms(6) have "valof b < real 0 * pow2 (-149)"
      by simp
    moreover have "real 0 * pow2 (-149) \<le> real n * pow2 e"
      using pow2_pos [of e] by simp
    moreover have "is_float32 (Finite False 0 (-149))"
      by simp
    ultimately show ?thesis by blast
  qed
  then obtain mf ef where ff: "is_float32 (Finite False mf ef)"
    and lt: "valof b < real mf * pow2 ef"
    and le: "real mf * pow2 ef \<le> real n * pow2 e"
    by blast
  from round_float_ge [OF round(1) ff le, of sg]
  show ?thesis
  proof (elim disjE exE conjE)
    assume "round_float sg n e = Infinity sg"
    with assms(3) show ?thesis
      unfolding round(3) by (cases b) simp_all
  next
    fix q e'
    assume r: "round_float sg n e = Finite sg q e'"
      and ge: "real mf * pow2 ef \<le> real q * pow2 e'"
    from lt ge have "\<not> real q * pow2 e' \<le> valof b"
      by simp
    then show ?thesis
      unfolding round(3) r fabs.simps fle_magnitude [OF assms(3)] .
  qed
qed

text \<open>A positive value at or above the smallest subnormal does not round to zero.\<close>

lemma round_float_pos:
  assumes n: "0 < n" and e0: "-149 \<le> e0"
  shows "(round_float sg n e0 = Infinity sg \<and> 103 < max (e0 + bitlen (int n) - 24) (-149))
       \<or> (\<exists>q e. round_float sg n e0 = Finite sg q e \<and> 0 < q \<and> e0 - 23 \<le> e)"
proof -
  define k where "k = bitlen (int n)"
  define e' where "e' = max (e0 + k - 24) (-149)"
  define q where "q = (if e' \<le> e0 then n * 2 ^ nat (e0 - e')
              else if 2 ^ (nat (e' - e0) - 1) < n mod 2 ^ nat (e' - e0)
                      \<or> (n mod 2 ^ nat (e' - e0) = 2 ^ (nat (e' - e0) - 1)
                          \<and> odd (n div 2 ^ nat (e' - e0)))
                   then n div 2 ^ nat (e' - e0) + 1 else n div 2 ^ nat (e' - e0))"
  have rf: "round_float sg n e0 =
      (if q = 2 ^ 24
       then (if 104 < e' + 1 then Infinity sg else Finite sg (2 ^ 23) (e' + 1))
       else (if 104 < e' then Infinity sg else Finite sg q e'))"
  proof -
    from n have nz: "(n = 0) = False" by simp
    show ?thesis
      unfolding round_float_def Let_def q_def e'_def k_def nz if_False ..
  qed
  have pos: "0 < int n" using n by simp
  from bitlen_bounds [OF pos] have lo: "2 ^ nat (k - 1) \<le> int n"
    by (simp add: k_def)
  have k1: "1 \<le> k"
    using pos by (simp add: k_def bitlen_alt_def)
  have e'lo: "e0 - 23 \<le> e'"
    using k1 by (simp add: e'_def)
  have qpos: "0 < q"
  proof (cases "e' \<le> e0")
    case True
    then show ?thesis using n by (simp add: q_def)
  next
    case False
    with e0 have e'eq: "e' = e0 + k - 24"
      by (simp add: e'_def max_def split: if_splits)
    with False have k24: "24 < k" by simp
    have "nat (k - 1) = nat (e' - e0) + 23"
      using k24 e'eq by simp
    then have "(2::int) ^ nat (e' - e0) * 2 ^ 23 \<le> int n"
      using lo by (simp add: power_add)
    then have "int (2 ^ nat (e' - e0) * 2 ^ 23) \<le> int n"
      by simp
    then have "2 ^ nat (e' - e0) * 2 ^ 23 \<le> n"
      by (simp only: of_nat_le_iff)
    then have "2 ^ 23 \<le> n div 2 ^ nat (e' - e0)"
      by (simp add: less_eq_div_iff_mult_less_eq mult.commute)
    then have "0 < n div 2 ^ nat (e' - e0)"
      by simp
    with False show ?thesis by (simp add: q_def)
  qed
  show ?thesis
  proof (cases "round_float sg n e0 = Infinity sg")
    case True
    then have "103 < e'"
      unfolding rf by (simp split: if_splits)
    with True show ?thesis
      by (simp add: e'_def k_def)
  next
    case False
    then have "round_float sg n e0 = Finite sg (2 ^ 23) (e' + 1)
        \<or> round_float sg n e0 = Finite sg q e'"
      unfolding rf by (simp split: if_splits)
    with qpos e'lo show ?thesis by auto
  qed
qed

lemma bitlen_u32: "bitlen (int (unat (w :: u32))) \<le> 32"
proof (cases "w = 0")
  case True
  then show ?thesis by simp
next
  case False
  then have "0 < unat w"
    by (simp add: unat_gt_0)
  then have pos: "0 < int (unat w)"
    by (simp only: of_nat_0_less_iff)
  have "int (unat w) < 2 ^ 32"
    using unsigned_less [of w, where ?'a = int] by simp
  with bitlen_bounds [OF pos] have "(2::int) ^ nat (bitlen (int (unat w)) - 1) < 2 ^ 32"
    by linarith
  then have "nat (bitlen (int (unat w)) - 1) < 32"
    by (rule two_power_lessD)
  then show ?thesis by simp
qed

lemma u32_to_float_pos:
  assumes "0 < w"
  shows "\<exists>q e. u32_to_float w = Finite False q e \<and> 0 < q \<and> - 23 \<le> e"
proof -
  have n: "0 < unat w"
    using assms by (simp add: unat_gt_0 word_neq_0_conv)
  have "\<not> 103 < max (0 + bitlen (int (unat w)) - 24) (-149)"
    using bitlen_u32 [of w] by simp
  with round_float_pos [OF n, of 0 False] show ?thesis
    by (auto simp: u32_to_float_def)
qed

lemma u32_to_float_finite: "is_finite (u32_to_float w)"
proof (cases "w = 0")
  case True
  then show ?thesis by (simp add: u32_to_float_def round_float_def)
next
  case False
  then have "0 < w" by (simp add: word_neq_0_conv)
  from u32_to_float_pos [OF this] show ?thesis by auto
qed

lemma fle_pos_zero: "0 < q \<Longrightarrow> \<not> fle (Finite False q e) (Finite sg 0 e0)"
proof -
  assume "0 < q"
  then have "0 < int q * 2 ^ nat (e - min e e0)"
    by simp
  then show ?thesis
    by (simp add: sval_def not_le)
qed

lemma min_flowrate_threshold_pos:
  assumes "0 < tpl"
  shows "\<not> fge (Finite sg 0 (-149)) (fmul MIN_FLOWRATE (u32_to_float tpl))"
proof -
  from u32_to_float_pos [OF assms] obtain q e
    where u: "u32_to_float tpl = Finite False q e" and q: "0 < q" and e: "- 23 \<le> e"
    by blast
  have n: "0 < 13421773 * q" using q by simp
  have e0: "-149 \<le> - 26 + e" using e by simp
  from round_float_pos [OF n e0, of False]
  have "fmul MIN_FLOWRATE (u32_to_float tpl) = Infinity False
      \<or> (\<exists>q' e'. fmul MIN_FLOWRATE (u32_to_float tpl) = Finite False q' e' \<and> 0 < q')"
    by (auto simp: MIN_FLOWRATE_def u)
  then show ?thesis
  proof (elim disjE exE conjE)
    assume "fmul MIN_FLOWRATE (u32_to_float tpl) = Infinity False"
    then show ?thesis by (simp add: fge_def)
  next
    fix q' e'
    assume r: "fmul MIN_FLOWRATE (u32_to_float tpl) = Finite False q' e'" and q': "0 < q'"
    from q' show ?thesis
      unfolding fge_def r by (rule fle_pos_zero)
  qed
qed

text \<open>The bit length of a binary numeral, for the evaluation of \<open>round_float\<close>.\<close>

lemma bitlen_numeral_simps:
  "bitlen 1 = 1"
  "bitlen (numeral (Num.Bit0 n)) = bitlen (numeral n) + 1"
  "bitlen (numeral (Num.Bit1 n)) = bitlen (numeral n) + 1"
proof -
  show "bitlen 1 = 1"
    using compute_bitlen [of 1] by simp
  have "(numeral (Num.Bit0 n) :: int) div 2 = numeral n"
    by simp
  then show "bitlen (numeral (Num.Bit0 n)) = bitlen (numeral n) + 1"
    using compute_bitlen [of "numeral (Num.Bit0 n)"] by simp
  have "(numeral (Num.Bit1 n) :: int) div 2 = numeral n"
    by simp
  then show "bitlen (numeral (Num.Bit1 n)) = bitlen (numeral n) + 1"
    using compute_bitlen [of "numeral (Num.Bit1 n)"] by simp
qed

lemma valof_48: "valof (Finite False 12582912 (-18)) = 48"
  by (simp add: pow2_def)

lemma FLT_MAX_not_below_MAX_DEPTH: "\<not> flt FLT_MAX MAX_DEPTH"
  by (simp add: FLT_MAX_def MAX_DEPTH_def sval_def)

lemma ABS_ZERO_C_not_above: "\<not> fgt ABS_ZERO_C ABS_ZERO_C"
  by (simp add: ABS_ZERO_C_def fgt_def)

text \<open>
  The literals: the integral ones are exact, the two decimal ones are within half a unit in
  the last place of the decimal value, and all are normalised.
\<close>

lemma float_literals:
  "float_zero = round_float False 0 0"
  "float_twelve = round_float False 12 0"
  "MIN_DEPTH = round_float False 1 0"
  "MAX_DEPTH = round_float False 300 0"
  "MAX_TEMPERATURE = round_float False 125 0"
  "\<bar>valof ABS_ZERO_C - (- 273.15)\<bar> \<le> pow2 (- 15) / 2"
  "\<bar>valof MIN_FLOWRATE - 0.2\<bar> \<le> pow2 (- 26) / 2"
  "valof FLT_MAX = 2 ^ 128 - 2 ^ 104"
  "is_float32 float_zero \<and> is_float32 float_twelve \<and> is_float32 MIN_DEPTH \<and> is_float32 MAX_DEPTH
   \<and> is_float32 MAX_TEMPERATURE \<and> is_float32 ABS_ZERO_C \<and> is_float32 MIN_FLOWRATE
   \<and> is_float32 FLT_MAX"
  by (simp_all add: float_zero_def float_twelve_def MIN_DEPTH_def MAX_DEPTH_def MAX_TEMPERATURE_def
      ABS_ZERO_C_def MIN_FLOWRATE_def FLT_MAX_def round_float_def bitlen_numeral_simps pow2_def)

subsection \<open>The conditions and the loops over them\<close>

lemma upt_three: "[0..<3] = [0, 1, 2]"
  by (simp add: upt_rec)

lemma upt_N_START_COND: "[0..<N_START_COND] = [0, 1, 2]"
  by (simp add: N_START_COND_def upt_three)

lemma upt_N_END_COND: "[0..<N_END_COND] = [0, 1, 2]"
  by (simp add: N_END_COND_def upt_three)

lemma less_three: "(i::nat) < 3 \<longleftrightarrow> i = 0 \<or> i = 1 \<or> i = 2"
  by auto

lemma ex_less_three: "(\<exists>i<3. P i) = (P 0 \<or> P 1 \<or> P (2::nat))"
  by (auto simp: less_three)

lemma length_three:
  assumes "length xs = 3"
  obtains x y z where "xs = [x, y, z]"
  using assms by (auto simp: length_Suc_conv numeral_3_eq_3)

lemma evalConditions_start:
  assumes "sampler_inv s"
  shows "m_startConditions (evalConditions depth temperature time_now ticks pumpDuration s) =
    [of_bool (fle (fabs (fsub depth (m_targetDepth s))) (m_depthBand s)),
     of_bool (fle (fabs (fsub temperature (m_targetTemperature s))) (m_temperatureBand s)),
     of_bool (case elapsedSinceDive time_now s of None \<Rightarrow> False
              | Some d \<Rightarrow> m_waitPumpStart s \<le> d)]"
proof -
  have "length (m_startConditions s) = 3"
    using assms by (simp add: sampler_inv_def N_START_COND_def)
  then obtain x y z where "m_startConditions s = [x, y, z]"
    by (rule length_three)
  then show ?thesis
    by (simp add: evalConditions_def Let_def elapsedSinceDive_def)
qed

lemma evalConditions_end:
  assumes "sampler_inv s"
  shows "m_endConditions (evalConditions depth temperature time_now ticks pumpDuration s) =
    [of_bool (m_targetFlowVol s \<le> ticks),
     of_bool (m_pumpStartTime s \<le> time_now \<and> m_waitPumpEnd s \<le> pumpDuration),
     of_bool (fgt (m_maxFlowrate s) float_zero \<and> fle (m_curFlowrate s) (m_minFlowrate s))]"
proof -
  have "length (m_endConditions s) = 3"
    using assms by (simp add: sampler_inv_def N_END_COND_def)
  then obtain x y z where "m_endConditions s = [x, y, z]"
    by (rule length_three)
  then show ?thesis
    by (simp add: evalConditions_def Let_def)
qed

lemma evalConditions_frame:
  "evalConditions depth temperature time_now ticks pumpDuration s =
     s \<lparr> m_startConditions :=
           m_startConditions (evalConditions depth temperature time_now ticks pumpDuration s),
         m_endConditions :=
           m_endConditions (evalConditions depth temperature time_now ticks pumpDuration s) \<rparr>"
  by (simp add: evalConditions_def Let_def)

lemma evalConditions_masks:
  "m_startConditionMask (evalConditions depth temperature time_now ticks pumpDuration s) =
     m_startConditionMask s"
  "m_endConditionMask (evalConditions depth temperature time_now ticks pumpDuration s) =
     m_endConditionMask s"
  by (simp_all add: evalConditions_def Let_def)

lemma evalConditions_eq:
  assumes "sampler_inv s"
  shows "evalConditions depth temperature time_now ticks pumpDuration s =
    s \<lparr> m_startConditions :=
          [of_bool (fle (fabs (fsub depth (m_targetDepth s))) (m_depthBand s)),
           of_bool (fle (fabs (fsub temperature (m_targetTemperature s))) (m_temperatureBand s)),
           of_bool (case elapsedSinceDive time_now s of None \<Rightarrow> False
                    | Some d \<Rightarrow> m_waitPumpStart s \<le> d)],
        m_endConditions :=
          [of_bool (m_targetFlowVol s \<le> ticks),
           of_bool (m_pumpStartTime s \<le> time_now \<and> m_waitPumpEnd s \<le> pumpDuration),
           of_bool (fgt (m_maxFlowrate s) float_zero \<and> fle (m_curFlowrate s) (m_minFlowrate s))] \<rparr>"
  using evalConditions_frame [of depth temperature time_now ticks pumpDuration s]
  by (simp only: evalConditions_start [OF assms] evalConditions_end [OF assms])

lemma checkPumpTrigger_start:
  assumes "sampler_inv s"
  shows "m_startConditions (snd (checkPumpTrigger depth temperature time_now ticks pumpDuration s)) =
    [of_bool (fle (fabs (fsub depth (m_targetDepth s))) (m_depthBand s)),
     of_bool (fle (fabs (fsub temperature (m_targetTemperature s))) (m_temperatureBand s)),
     of_bool (case elapsedSinceDive time_now s of None \<Rightarrow> False
              | Some d \<Rightarrow> m_waitPumpStart s \<le> d)]"
  by (simp add: checkPumpTrigger_def Let_def evalConditions_start [OF assms])

lemma checkPumpTrigger_result:
  assumes "sampler_inv s"
  shows "fst (checkPumpTrigger depth temperature time_now ticks pumpDuration s) =
    (let s' = s \<lparr> m_startConditions :=
          [of_bool (fle (fabs (fsub depth (m_targetDepth s))) (m_depthBand s)),
           of_bool (fle (fabs (fsub temperature (m_targetTemperature s))) (m_temperatureBand s)),
           of_bool (case elapsedSinceDive time_now s of None \<Rightarrow> False
                    | Some d \<Rightarrow> m_waitPumpStart s \<le> d)],
        m_endConditions :=
          [of_bool (m_targetFlowVol s \<le> ticks),
           of_bool (m_pumpStartTime s \<le> time_now \<and> m_waitPumpEnd s \<le> pumpDuration),
           of_bool (fgt (m_maxFlowrate s) float_zero \<and> fle (m_curFlowrate s) (m_minFlowrate s))] \<rparr>
     in if endLoop s' [0, 1, 2] (startLoop s' [0, 1, 2] 0) = 0 then PUMP_OFF else PUMP_ON)"
  by (simp add: checkPumpTrigger_def Let_def evalConditions_eq [OF assms] upt_N_START_COND
      upt_N_END_COND)

lemma endLoop_zero: "endLoop s ks 0 = 0"
  by (induction ks) simp_all

lemma endLoop_stop:
  assumes "k \<in> set ks" "m_endConditionMask s ! k \<noteq> 0" "m_endConditions s ! k \<noteq> 0"
  shows "endLoop s ks pumpOn = 0"
  using assms
proof (induction ks arbitrary: pumpOn)
  case Nil
  then show ?case by simp
next
  case (Cons a ks)
  show ?case
  proof (cases "a = k")
    case True
    with Cons.prems have "unat (m_endConditionMask s ! a) * unat (m_endConditions s ! a) \<noteq> 0"
      by (simp add: unat_eq_0)
    then show ?thesis by (simp add: endLoop_zero)
  next
    case False
    with Cons.prems have "k \<in> set ks" by simp
    then show ?thesis using Cons.IH Cons.prems by simp
  qed
qed

lemma startLoop_no_mask:
  assumes "\<forall>j \<in> set js. m_startConditionMask s ! j = 0"
  shows "startLoop s js pumpOn = pumpOn"
  using assms by (induction js arbitrary: pumpOn) simp_all

lemma UINT_MAX_le: "(UINT_MAX \<le> x) = (x = UINT_MAX)"
proof -
  have "unat x < 4294967296"
    using unsigned_less [of x, where ?'a = nat] by simp
  then have "(4294967295 \<le> unat x) = (unat x = 4294967295)"
    by arith
  then show ?thesis
    by (simp add: UINT_MAX_def word_le_nat_alt word_unat_eq_iff)
qed

lemma recomputeMasks_start:
  assumes "sampler_inv s"
  shows "m_startConditionMask (recomputeMasks s) =
    [of_bool (fge (m_targetDepth s) MIN_DEPTH \<and> flt (m_targetDepth s) MAX_DEPTH
              \<and> fgt (m_depthBand s) float_zero),
     of_bool (fgt (m_targetTemperature s) ABS_ZERO_C \<and> flt (m_targetTemperature s) MAX_TEMPERATURE
              \<and> fgt (m_temperatureBand s) float_zero),
     of_bool (0 < m_waitPumpStart s \<and> m_waitPumpStart s < UINT_MAX)]"
proof -
  have "length (m_startConditionMask s) = 3"
    using assms by (simp add: sampler_inv_def N_END_COND_def)
  then obtain x y z where "m_startConditionMask s = [x, y, z]"
    by (rule length_three)
  then show ?thesis
    by (simp add: recomputeMasks_def Let_def)
qed

lemma recomputeMasks_end:
  assumes "sampler_inv s"
  shows "m_endConditionMask (recomputeMasks s) =
    [of_bool (0 < m_targetFlowVol s \<and> m_targetFlowVol s < UINT_MAX),
     of_bool (0 < m_waitPumpEnd s \<and> m_waitPumpEnd s < UINT_MAX),
     of_bool (fge (m_minFlowrate s) (fmul MIN_FLOWRATE (u32_to_float (m_ticksPerLiter s))))]"
proof -
  have "length (m_endConditionMask s) = 3"
    using assms by (simp add: sampler_inv_def N_START_COND_def)
  then obtain x y z where "m_endConditionMask s = [x, y, z]"
    by (rule length_three)
  then show ?thesis
    by (simp add: recomputeMasks_def Let_def)
qed

lemma recomputeMasks_ticksPerLiter: "m_ticksPerLiter (recomputeMasks s) = m_ticksPerLiter s"
  by (simp add: recomputeMasks_def Let_def)

lemma isValidUserConfig_snd: "snd (isValidUserConfig s) = recomputeMasks s"
  by (simp add: isValidUserConfig_def Let_def split_beta)

lemma isValidUserConfig_fst:
  "fst (isValidUserConfig s) =
     of_bool (0 < m_ticksPerLiter s)
     AND ((m_startConditionMask (recomputeMasks s) ! 0 OR m_startConditionMask (recomputeMasks s) ! 1)
          OR m_startConditionMask (recomputeMasks s) ! 2)
     AND ((m_endConditionMask (recomputeMasks s) ! 0 OR m_endConditionMask (recomputeMasks s) ! 1)
          OR m_endConditionMask (recomputeMasks s) ! 2)"
  by (simp add: isValidUserConfig_def Let_def upt_N_START_COND recomputeMasks_ticksPerLiter)

lemma valid_bits:
  "((of_bool t :: u8) AND ((of_bool a OR of_bool b) OR of_bool c)
      AND ((of_bool d OR of_bool e) OR of_bool f) \<noteq> 0)
     = (t \<and> (a \<or> b \<or> c) \<and> (d \<or> e \<or> f))"
  "(of_bool t :: u8) AND ((of_bool a OR of_bool b) OR of_bool c)
      AND ((of_bool d OR of_bool e) OR of_bool f) = 0
   \<or> (of_bool t :: u8) AND ((of_bool a OR of_bool b) OR of_bool c)
      AND ((of_bool d OR of_bool e) OR of_bool f) = 1"
  by (cases t; cases a; cases b; cases c; cases d; cases e; cases f; simp)+

lemma feq_zero: "feq x float_zero \<longleftrightarrow> (\<exists>sg e. x = Finite sg 0 e)"
  by (cases x)
    (auto simp: feq_def float_zero_def sval_def zero_le_mult_iff mult_le_0_iff split: if_splits)

text \<open>A condition whose mask entry is 0 has no influence on the command.\<close>

lemma checkPumpTrigger_pumpCommand:
  "checkPumpTrigger depth temperature time_now ticks pumpDuration s =
     (pumpCommand (evalConditions depth temperature time_now ticks pumpDuration s),
      evalConditions depth temperature time_now ticks pumpDuration s)"
  by (simp add: checkPumpTrigger_def pumpCommand_def Let_def)

lemma pumpCommand_start_inert:
  assumes "sampler_inv s" "k < N_START_COND" "m_startConditionMask s ! k = 0"
  shows "pumpCommand (s \<lparr> m_startConditions := (m_startConditions s)[k := c] \<rparr>) = pumpCommand s"
proof -
  from assms(1) have "length (m_startConditions s) = 3" "length (m_startConditionMask s) = 3"
    by (simp_all add: sampler_inv_def N_START_COND_def N_END_COND_def)
  then obtain x y z m0 m1 m2 where c: "m_startConditions s = [x, y, z]"
    and m: "m_startConditionMask s = [m0, m1, m2]"
    by (metis length_three)
  from assms(2) have "k = 0 \<or> k = 1 \<or> k = 2"
    by (simp add: N_START_COND_def less_three)
  then show ?thesis
    using assms(3)
    by (elim disjE) (simp_all add: pumpCommand_def upt_N_START_COND upt_N_END_COND c m)
qed

lemma pumpCommand_end_inert:
  assumes "sampler_inv s" "k < N_END_COND" "m_endConditionMask s ! k = 0"
  shows "pumpCommand (s \<lparr> m_endConditions := (m_endConditions s)[k := c] \<rparr>) = pumpCommand s"
proof -
  from assms(1) have "length (m_endConditions s) = 3" "length (m_endConditionMask s) = 3"
    by (simp_all add: sampler_inv_def N_START_COND_def N_END_COND_def)
  then obtain x y z m0 m1 m2 where c: "m_endConditions s = [x, y, z]"
    and m: "m_endConditionMask s = [m0, m1, m2]"
    by (metis length_three)
  from assms(2) have "k = 0 \<or> k = 1 \<or> k = 2"
    by (simp add: N_END_COND_def less_three)
  then show ?thesis
    using assms(3)
    by (elim disjE) (simp_all add: pumpCommand_def upt_N_START_COND upt_N_END_COND c m)
qed

subsection \<open>The object invariant\<close>

lemma sampler_inv_Sampler: "sampler_inv (Sampler sc ec sm em)"
  by (cases sc; cases ec; cases sm; cases em)
    (simp add: sampler_inv_def test_sampler_def Sampler_def N_START_COND_def N_END_COND_def NUM_FLOW_LOGS_def)

lemma sampler_inv_test_sampler: "sampler_inv test_sampler"
  unfolding test_sampler_def by (rule sampler_inv_Sampler)

lemma sampler_inv_setDiveStartTime: "sampler_inv (setDiveStartTime t s) = sampler_inv s"
  by (simp add: sampler_inv_def setDiveStartTime_def)

lemma sampler_inv_setPumpStartTime: "sampler_inv (setPumpStartTime t s) = sampler_inv s"
  by (simp add: sampler_inv_def setPumpStartTime_def)

lemma sampler_inv_setDeploymentConfig:
  "sampler_inv (setDeploymentConfig mf td db tt tb we ws tv tpl s) = sampler_inv s"
  by (simp add: sampler_inv_def setDeploymentConfig_def)

lemma setDeploymentConfig_inv:
  "sampler_inv s \<Longrightarrow> sampler_inv (setDeploymentConfig mf td db tt tb we ws tv tpl s)"
  by (simp add: sampler_inv_setDeploymentConfig)

lemma sampler_inv_recomputeMasks: "sampler_inv (recomputeMasks s) = sampler_inv s"
  by (simp add: sampler_inv_def recomputeMasks_def Let_def)

lemma sampler_inv_evalConditions:
  "sampler_inv (evalConditions depth temperature time_now ticks pumpDuration s) = sampler_inv s"
  by (simp add: sampler_inv_def evalConditions_def Let_def)

lemma sampler_inv_caches:
  assumes "sampler_inv s" "length a = N_START_COND" "length b = N_END_COND"
  shows "sampler_inv (s \<lparr> m_startConditions := a, m_endConditions := b \<rparr>)"
  using assms by (simp add: sampler_inv_def)

lemma sampler_inv_computeMaxFlowrate: "sampler_inv (computeMaxFlowrate x s) = sampler_inv s"
  by (simp add: sampler_inv_def computeMaxFlowrate_def)

lemma idx_unat: "n < 5 \<Longrightarrow> unat (word_of_nat n :: u8) = n"
  by (simp add: unat_of_nat take_bit_nat_eq_self)

lemma sampler_inv_updateCurrentFlowrate:
  assumes "sampler_inv s"
  shows "sampler_inv (updateCurrentFlowrate flowData s)"
proof -
  have "(unat (m_curFlowIdx s) + 1) mod 5 < 5" by simp
  then have "unat (word_of_nat ((unat (m_curFlowIdx s) + 1) mod 5) :: u8) < 5"
    by (simp only: idx_unat)
  with assms show ?thesis
    by (simp add: sampler_inv_def updateCurrentFlowrate_def Let_def NUM_FLOW_LOGS_def)
qed

lemma sampler_inv_updateMany:
  "sampler_inv s \<Longrightarrow> sampler_inv (updateMany xs s)"
  by (induction xs arbitrary: s) (simp_all add: sampler_inv_updateCurrentFlowrate)

subsection \<open>The flow window\<close>

lemma updateCurrentFlowrate_maxFlowrate:
  "updateCurrentFlowrate x (s \<lparr> m_maxFlowrate := v \<rparr>) =
     (updateCurrentFlowrate x s) \<lparr> m_maxFlowrate := v \<rparr>"
  by (simp add: updateCurrentFlowrate_def Let_def)

lemma updateMany_maxFlowrate:
  "updateMany xs (s \<lparr> m_maxFlowrate := v \<rparr>) = (updateMany xs s) \<lparr> m_maxFlowrate := v \<rparr>"
  by (induction xs arbitrary: s) (simp_all add: updateCurrentFlowrate_maxFlowrate)

lemma updateMany_append: "updateMany (xs @ ys) s = updateMany ys (updateMany xs s)"
  by (induction xs arbitrary: s) simp_all

lemma length_five:
  assumes "length xs = 5"
  obtains a b c d e where "xs = [a, b, c, d, e]"
  using assms by (auto simp: length_Suc_conv eval_nat_numeral)

lemma idx_cases:
  assumes "unat (i :: u8) < 5"
  shows "i = 0 \<or> i = 1 \<or> i = 2 \<or> i = 3 \<or> i = 4"
proof -
  from assms have "unat i = 0 \<or> unat i = 1 \<or> unat i = 2 \<or> unat i = 3 \<or> unat i = 4"
    by arith
  then show ?thesis
    by (auto simp: word_unat_eq_iff)
qed

lemma updateCurrentFlowrate_window:
  assumes "sampler_inv s"
  shows "m_curFlowrate (updateMany [x1, x2, x3, x4, x5] s) =
           fmul (u32_to_float (x5 - x1)) float_twelve"
proof -
  from assms have "length (m_flowLog s) = 5" and "unat (m_curFlowIdx s) < 5"
    by (simp_all add: sampler_inv_def NUM_FLOW_LOGS_def)
  then obtain a b c d e where log: "m_flowLog s = [a, b, c, d, e]"
    and idx: "m_curFlowIdx s = 0 \<or> m_curFlowIdx s = 1 \<or> m_curFlowIdx s = 2
              \<or> m_curFlowIdx s = 3 \<or> m_curFlowIdx s = 4"
    using length_five idx_cases by metis
  from idx show ?thesis
    by (elim disjE) (simp_all add: updateCurrentFlowrate_def Let_def NUM_FLOW_LOGS_def log)
qed

lemma constant_rate_list:
  "map (\<lambda>i. x0 + word_of_nat i * r) [1..<Suc (M + 5)] =
     map (\<lambda>i. x0 + word_of_nat i * r) [1..<Suc M]
     @ [x0 + word_of_nat (M + 1) * r, x0 + word_of_nat (M + 2) * r, x0 + word_of_nat (M + 3) * r,
        x0 + word_of_nat (M + 4) * r, x0 + word_of_nat (M + 5) * (r :: u32)]"
proof -
  have "[1..<Suc (M + 5)] = [1..<Suc M] @ [M + 1, M + 2, M + 3, M + 4, M + 5]"
    by (simp add: eval_nat_numeral upt_rec [of "Suc M"] upt_rec [of "Suc (Suc M)"]
        upt_rec [of "Suc (Suc (Suc M))"] upt_rec [of "Suc (Suc (Suc (Suc M)))"]
        upt_rec [of "Suc (Suc (Suc (Suc (Suc M))))"] upt_add_eq_append [of 1 "Suc M" 5, simplified])
  then show ?thesis by (simp only: map_append list.map)
qed

text \<open>What the code computes at a constant rate: four steps of the rate, times twelve.\<close>

lemma flow_estimate_constant_rate:
  assumes "sampler_inv s" "5 \<le> N"
  shows "m_curFlowrate (updateMany (map (\<lambda>i. x0 + word_of_nat i * r) [1..<Suc N]) s) =
           fmul (u32_to_float (4 * r)) float_twelve"
proof -
  from assms(2) obtain M where N: "N = M + 5"
    using le_Suc_ex [of 5 N] by (auto simp: add.commute)
  let ?s = "updateMany (map (\<lambda>i. x0 + word_of_nat i * r) [1..<Suc M]) s"
  have inv: "sampler_inv ?s"
    using assms(1) by (rule sampler_inv_updateMany)
  have "(x0 + word_of_nat (M + 5) * r) - (x0 + word_of_nat (M + 1) * r) = 4 * r"
    by (simp add: algebra_simps)
  then show ?thesis
    unfolding N constant_rate_list updateMany_append
    by (simp only: updateCurrentFlowrate_window [OF inv])
qed

subsection \<open>The scenario of testVolume1\<close>

lemma u32_to_float_4600: "u32_to_float 4600 = Finite False 9420800 (-11)"
  by (simp add: u32_to_float_def round_float_def bitlen_numeral_simps)

lemma min_flow_ticks: "fmul MIN_FLOWRATE (Finite False 9420800 (-11)) = Finite False 15073280 (-14)"
  by (simp add: MIN_FLOWRATE_def round_float_def bitlen_numeral_simps)

lemma sampler_inv_testVolume1_deployment: "sampler_inv testVolume1_deployment"
  by (simp add: testVolume1_deployment_def sampler_inv_setDeploymentConfig
      sampler_inv_setDiveStartTime sampler_inv_test_sampler)

lemma sampler_inv_testVolume1_config: "sampler_inv testVolume1_config"
  by (simp add: testVolume1_config_def isValidUserConfig_snd sampler_inv_recomputeMasks
      sampler_inv_testVolume1_deployment)

lemma sampler_inv_testVolume1: "sampler_inv testVolume1"
  by (simp add: testVolume1_def sampler_inv_setPumpStartTime sampler_inv_testVolume1_config)

lemma testVolume1_deployment_fields:
  "m_ticksPerLiter testVolume1_deployment = 4600"
  "m_targetDepth testVolume1_deployment = Finite False 13107200 (-16)"
  "m_depthBand testVolume1_deployment = Finite False 10485760 (-21)"
  "m_targetTemperature testVolume1_deployment = ABS_ZERO_C"
  "m_temperatureBand testVolume1_deployment = float_zero"
  "m_waitPumpStart testVolume1_deployment = 60"
  "m_minFlowrate testVolume1_deployment = float_zero"
  "m_waitPumpEnd testVolume1_deployment = UINT_MAX"
  "m_targetFlowVol testVolume1_deployment = 92000"
  "m_diveStartTime testVolume1_deployment = 0"
  "m_pumpStartTime testVolume1_deployment = UINT_MAX"
  "m_maxFlowrate testVolume1_deployment = float_zero"
  "m_curFlowrate testVolume1_deployment = float_zero"
  by (simp_all add: testVolume1_deployment_def setDeploymentConfig_def setDiveStartTime_def
      START_TIME_def test_sampler_def Sampler_def TICKS_PER_L_def fgt_def float_zero_def ABS_ZERO_C_def sval_def
      u32_to_float_4600 round_float_def)

lemma testVolume1_config_masks:
  "m_startConditionMask testVolume1_config = [1, 0, 1]"
  "m_endConditionMask testVolume1_config = [1, 0, 0]"
  unfolding testVolume1_config_def isValidUserConfig_snd
    recomputeMasks_start [OF sampler_inv_testVolume1_deployment]
    recomputeMasks_end [OF sampler_inv_testVolume1_deployment]
    testVolume1_deployment_fields
  by (simp_all add: fge_def fgt_def float_zero_def MIN_DEPTH_def MAX_DEPTH_def ABS_ZERO_C_def
      sval_def UINT_MAX_def u32_to_float_4600 min_flow_ticks)

lemma testVolume1_config_fields:
  "m_ticksPerLiter testVolume1_config = 4600"
  "m_targetDepth testVolume1_config = Finite False 13107200 (-16)"
  "m_depthBand testVolume1_config = Finite False 10485760 (-21)"
  "m_targetTemperature testVolume1_config = ABS_ZERO_C"
  "m_temperatureBand testVolume1_config = float_zero"
  "m_waitPumpStart testVolume1_config = 60"
  "m_minFlowrate testVolume1_config = float_zero"
  "m_waitPumpEnd testVolume1_config = UINT_MAX"
  "m_targetFlowVol testVolume1_config = 92000"
  "m_diveStartTime testVolume1_config = 0"
  "m_pumpStartTime testVolume1_config = UINT_MAX"
  "m_maxFlowrate testVolume1_config = float_zero"
  "m_curFlowrate testVolume1_config = float_zero"
  by (simp_all add: testVolume1_config_def isValidUserConfig_snd recomputeMasks_def Let_def
      testVolume1_deployment_fields)

lemma testVolume1_fields:
  "m_startConditionMask testVolume1 = [1, 0, 1]"
  "m_endConditionMask testVolume1 = [1, 0, 0]"
  "m_targetDepth testVolume1 = Finite False 13107200 (-16)"
  "m_depthBand testVolume1 = Finite False 10485760 (-21)"
  "m_targetTemperature testVolume1 = ABS_ZERO_C"
  "m_temperatureBand testVolume1 = float_zero"
  "m_waitPumpStart testVolume1 = 60"
  "m_minFlowrate testVolume1 = float_zero"
  "m_waitPumpEnd testVolume1 = UINT_MAX"
  "m_targetFlowVol testVolume1 = 92000"
  "m_diveStartTime testVolume1 = 0"
  "m_pumpStartTime testVolume1 = 45"
  "m_maxFlowrate testVolume1 = float_zero"
  "m_curFlowrate testVolume1 = float_zero"
  by (simp_all add: testVolume1_def setPumpStartTime_def testVolume1_config_masks
      testVolume1_config_fields)

text \<open>
  The model passes the six assertions of \<^verbatim>\<open>testVolume1\<close> (depths 13, 200, 202 and
  199.5 m at 13 \<degree>C). The test threads one object through the calls; by
  \<open>evalConditions_eq\<close> the cached arrays that each call leaves behind do not influence
  the next one.
\<close>

lemma testVolume1_passes:
  "fst (isValidUserConfig testVolume1_deployment) = 1"
  "fst (checkPumpTrigger (Finite False 13631488 (-20)) (Finite False 13631488 (-20)) 20 0 0
          testVolume1_config) = PUMP_OFF"
  "fst (checkPumpTrigger (Finite False 13107200 (-16)) (Finite False 13631488 (-20)) 45 0 0
          testVolume1_config) = PUMP_ON"
  "fst (checkPumpTrigger (Finite False 13238272 (-16)) (Finite False 13631488 (-20)) 60 4600 15
          testVolume1) = PUMP_ON"
  "fst (checkPumpTrigger (Finite False 13074432 (-16)) (Finite False 13631488 (-20)) 80 92000 20
          testVolume1) = PUMP_OFF"
  "fst (checkPumpTrigger (Finite False 13074432 (-16)) (Finite False 13631488 (-20)) 200 92000 20
          testVolume1) = PUMP_OFF"
proof -
  show "fst (isValidUserConfig testVolume1_deployment) = 1"
    unfolding isValidUserConfig_fst
    by (simp add: testVolume1_config_masks [unfolded testVolume1_config_def isValidUserConfig_snd]
        testVolume1_deployment_fields)
  note ev = checkPumpTrigger_result elapsedSinceDive_def Let_def PUMP_ON_def PUMP_OFF_def
    ABS_ZERO_C_def float_zero_def fgt_def sval_def round_float_def UINT_MAX_def
    bitlen_numeral_simps
  show "fst (checkPumpTrigger (Finite False 13631488 (-20)) (Finite False 13631488 (-20)) 20 0 0
          testVolume1_config) = PUMP_OFF"
    by (simp add: ev sampler_inv_testVolume1_config testVolume1_config_masks
        testVolume1_config_fields)
  show "fst (checkPumpTrigger (Finite False 13107200 (-16)) (Finite False 13631488 (-20)) 45 0 0
          testVolume1_config) = PUMP_ON"
    by (simp add: ev sampler_inv_testVolume1_config testVolume1_config_masks
        testVolume1_config_fields)
  show "fst (checkPumpTrigger (Finite False 13238272 (-16)) (Finite False 13631488 (-20)) 60 4600 15
          testVolume1) = PUMP_ON"
    by (simp add: ev sampler_inv_testVolume1 testVolume1_fields)
  show "fst (checkPumpTrigger (Finite False 13074432 (-16)) (Finite False 13631488 (-20)) 80 92000 20
          testVolume1) = PUMP_OFF"
    by (simp add: ev sampler_inv_testVolume1 testVolume1_fields)
  show "fst (checkPumpTrigger (Finite False 13074432 (-16)) (Finite False 13631488 (-20)) 200 92000 20
          testVolume1) = PUMP_OFF"
    by (simp add: ev sampler_inv_testVolume1 testVolume1_fields)
qed

section \<open>The claims\<close>

text \<open>
  C1 (not met by the code). After five calls with the cumulative counts 1, 2, 3, 4, 5 (one
  tick per sample) on a fresh sampler the claim expects the estimate \<open>1 * 60\<close>; the code
  yields 48. After the write and the increment of the index, \<^verbatim>\<open>_flowLog[_curFlowIdx]\<close> is
  the sample written four calls earlier, not five, so the difference spans four seconds
  and the factor \<open>60 / 5\<close> gives \<open>4r * 12\<close> (lemma \<open>flow_estimate_constant_rate\<close>).
\<close>

theorem flow_estimate_constant_rate_five:
  "m_curFlowrate (updateMany [1, 2, 3, 4, 5] (Sampler sc ec sm em)) = Finite False 12582912 (-18)
   \<and> valof (m_curFlowrate (updateMany [1, 2, 3, 4, 5] (Sampler sc ec sm em))) = 48
   \<and> valof (m_curFlowrate (updateMany [1, 2, 3, 4, 5] (Sampler sc ec sm em))) \<noteq> 1 * 60"
proof -
  have "m_curFlowrate (updateMany [1, 2, 3, 4, 5] (Sampler sc ec sm em)) = fmul (u32_to_float (5 - 1)) float_twelve"
    using sampler_inv_Sampler by (rule updateCurrentFlowrate_window)
  also have "\<dots> = Finite False 12582912 (-18)"
    by (simp add: u32_to_float_def float_twelve_def round_float_def bitlen_numeral_simps)
  finally have "m_curFlowrate (updateMany [1, 2, 3, 4, 5] (Sampler sc ec sm em)) = Finite False 12582912 (-18)" .
  then show ?thesis
    by (simp only: valof_48) simp
qed

text \<open>
  C2, as amended. \<^verbatim>\<open>setDeploymentConfig\<close> stores \<^verbatim>\<open>UINT_MAX\<close> for a zero pump duration
  and for a zero target volume, \<^verbatim>\<open>FLT_MAX\<close> for a non-positive depth target and
  \<^verbatim>\<open>ABS_ZERO_C\<close> for a temperature target at or below it. A zero minimum flow rate (of
  either sign) is stored as a zero threshold, not as a maximal one. For a zero pump duration,
  a zero target volume, a zero wait time, a non-positive depth target and a temperature
  target at or below \<^verbatim>\<open>ABS_ZERO_C\<close>, the \<^verbatim>\<open>isValidUserConfig\<close> that follows sets the mask
  entry of the condition to 0, and the condition is then inert: as long as the masks are
  those, the command that \<^verbatim>\<open>checkPumpTrigger\<close> returns is the same whatever value the
  condition evaluates to. For a zero minimum flow rate the mask entry is 0 exactly when
  \<^verbatim>\<open>ticksPerLiter\<close> is positive, and the condition is then inert in the same sense.

  Below, \<open>s'\<close> is the state after \<^verbatim>\<open>setDeploymentConfig\<close>, \<open>v\<close> the state after
  \<^verbatim>\<open>isValidUserConfig\<close>, \<open>w\<close> any later state with the masks of \<open>v\<close>, and \<open>cmd\<close> and \<open>w'\<close> the
  result of \<^verbatim>\<open>checkPumpTrigger\<close> in \<open>w\<close>; "whatever value the condition evaluates to" is
  the command recomputed from \<open>w'\<close> with the cached value of the condition replaced by any
  \<open>c\<close>.
\<close>

theorem setDeploymentConfig_sentinels:
  assumes "sampler_inv s"
    and "s' = setDeploymentConfig minFlowrate targetDepth depthBand targetTemperature
               temperatureBand waitPumpEnd waitPumpStart targetFlowVol ticksPerLiter s"
    and "isValidUserConfig s' = (valid, v)"
    and "sampler_inv w"
    and "m_startConditionMask w = m_startConditionMask v"
    and "m_endConditionMask w = m_endConditionMask v"
    and "checkPumpTrigger depth temperature time_now ticks pumpDuration w = (cmd, w')"
  shows "(waitPumpEnd = 0 \<longrightarrow>
            m_waitPumpEnd s' = UINT_MAX \<and> m_endConditionMask v ! 1 = 0
            \<and> (\<forall>c. pumpCommand (w' \<lparr> m_endConditions := (m_endConditions w')[1 := c] \<rparr>) = cmd))
     \<and> (targetFlowVol = 0 \<longrightarrow>
            m_targetFlowVol s' = UINT_MAX \<and> m_endConditionMask v ! 0 = 0
            \<and> (\<forall>c. pumpCommand (w' \<lparr> m_endConditions := (m_endConditions w')[0 := c] \<rparr>) = cmd))
     \<and> (fle targetDepth float_zero \<longrightarrow>
            m_targetDepth s' = FLT_MAX \<and> m_startConditionMask v ! 0 = 0
            \<and> (\<forall>c. pumpCommand (w' \<lparr> m_startConditions := (m_startConditions w')[0 := c] \<rparr>) = cmd))
     \<and> (fle targetTemperature ABS_ZERO_C \<longrightarrow>
            m_targetTemperature s' = ABS_ZERO_C \<and> m_startConditionMask v ! 1 = 0
            \<and> (\<forall>c. pumpCommand (w' \<lparr> m_startConditions := (m_startConditions w')[1 := c] \<rparr>) = cmd))
     \<and> (waitPumpStart = 0 \<longrightarrow>
            m_startConditionMask v ! 2 = 0
            \<and> (\<forall>c. pumpCommand (w' \<lparr> m_startConditions := (m_startConditions w')[2 := c] \<rparr>) = cmd))
     \<and> (feq minFlowrate float_zero \<longrightarrow>
            feq (m_minFlowrate s') float_zero
            \<and> m_endConditionMask v ! 2 = of_bool (ticksPerLiter = 0)
            \<and> (0 < ticksPerLiter \<longrightarrow>
                 (\<forall>c. pumpCommand (w' \<lparr> m_endConditions := (m_endConditions w')[2 := c] \<rparr>) = cmd)))"
proof -
  have inv: "sampler_inv s'"
    unfolding assms(2) using assms(1) by (rule setDeploymentConfig_inv)
  have v: "v = recomputeMasks s'"
    using assms(3) isValidUserConfig_snd [of s'] by simp
  note masks = v recomputeMasks_start [OF inv] recomputeMasks_end [OF inv]
  have sm0: "m_startConditionMask v ! 0 =
      of_bool (fge (m_targetDepth s') MIN_DEPTH \<and> flt (m_targetDepth s') MAX_DEPTH
               \<and> fgt (m_depthBand s') float_zero)"
    by (simp add: masks)
  have sm1: "m_startConditionMask v ! 1 =
      of_bool (fgt (m_targetTemperature s') ABS_ZERO_C
               \<and> flt (m_targetTemperature s') MAX_TEMPERATURE
               \<and> fgt (m_temperatureBand s') float_zero)"
    by (simp add: masks)
  have sm2: "m_startConditionMask v ! 2 =
      of_bool (0 < m_waitPumpStart s' \<and> m_waitPumpStart s' < UINT_MAX)"
    by (simp add: masks)
  have em0: "m_endConditionMask v ! 0 =
      of_bool (0 < m_targetFlowVol s' \<and> m_targetFlowVol s' < UINT_MAX)"
    by (simp add: masks)
  have em1: "m_endConditionMask v ! 1 =
      of_bool (0 < m_waitPumpEnd s' \<and> m_waitPumpEnd s' < UINT_MAX)"
    by (simp add: masks)
  have em2: "m_endConditionMask v ! 2 =
      of_bool (fge (m_minFlowrate s') (fmul MIN_FLOWRATE (u32_to_float (m_ticksPerLiter s'))))"
    by (simp add: masks)
  from assms(7) have cmd: "cmd = pumpCommand w'"
    and w': "w' = evalConditions depth temperature time_now ticks pumpDuration w"
    by (auto simp: checkPumpTrigger_pumpCommand)
  have invw': "sampler_inv w'"
    unfolding w' using assms(4) by (simp add: sampler_inv_evalConditions)
  have smw: "m_startConditionMask w' = m_startConditionMask v"
    and emw: "m_endConditionMask w' = m_endConditionMask v"
    unfolding w' by (simp_all add: evalConditions_masks assms(5,6))
  have start_inert:
    "\<forall>c. pumpCommand (w' \<lparr> m_startConditions := (m_startConditions w')[k := c] \<rparr>) = cmd"
    if "k < N_START_COND" "m_startConditionMask v ! k = 0" for k
  proof
    fix c
    from that(2) have "m_startConditionMask w' ! k = 0"
      by (simp add: smw)
    with invw' that(1) show
      "pumpCommand (w' \<lparr> m_startConditions := (m_startConditions w')[k := c] \<rparr>) = cmd"
      unfolding cmd by (rule pumpCommand_start_inert)
  qed
  have end_inert:
    "\<forall>c. pumpCommand (w' \<lparr> m_endConditions := (m_endConditions w')[k := c] \<rparr>) = cmd"
    if "k < N_END_COND" "m_endConditionMask v ! k = 0" for k
  proof
    fix c
    from that(2) have "m_endConditionMask w' ! k = 0"
      by (simp add: emw)
    with invw' that(1) show
      "pumpCommand (w' \<lparr> m_endConditions := (m_endConditions w')[k := c] \<rparr>) = cmd"
      unfolding cmd by (rule pumpCommand_end_inert)
  qed
  have k: "0 < N_START_COND" "1 < N_START_COND" "2 < N_START_COND"
    "0 < N_END_COND" "1 < N_END_COND" "2 < N_END_COND"
    by (simp_all add: N_START_COND_def N_END_COND_def)
  have we: "waitPumpEnd = 0 \<longrightarrow>
      m_waitPumpEnd s' = UINT_MAX \<and> m_endConditionMask v ! 1 = 0
      \<and> (\<forall>c. pumpCommand (w' \<lparr> m_endConditions := (m_endConditions w')[1 := c] \<rparr>) = cmd)"
  proof
    assume "waitPumpEnd = 0"
    then have a: "m_waitPumpEnd s' = UINT_MAX"
      by (simp add: assms(2) setDeploymentConfig_def)
    have m: "m_endConditionMask v ! 1 = 0"
      unfolding em1 a by simp
    from a m end_inert [OF k(5) m] show "m_waitPumpEnd s' = UINT_MAX \<and> m_endConditionMask v ! 1 = 0
      \<and> (\<forall>c. pumpCommand (w' \<lparr> m_endConditions := (m_endConditions w')[1 := c] \<rparr>) = cmd)"
      by (intro conjI)
  qed
  have tv: "targetFlowVol = 0 \<longrightarrow>
      m_targetFlowVol s' = UINT_MAX \<and> m_endConditionMask v ! 0 = 0
      \<and> (\<forall>c. pumpCommand (w' \<lparr> m_endConditions := (m_endConditions w')[0 := c] \<rparr>) = cmd)"
  proof
    assume "targetFlowVol = 0"
    then have a: "m_targetFlowVol s' = UINT_MAX"
      by (simp add: assms(2) setDeploymentConfig_def)
    have m: "m_endConditionMask v ! 0 = 0"
      unfolding em0 a by simp
    from a m end_inert [OF k(4) m] show "m_targetFlowVol s' = UINT_MAX \<and> m_endConditionMask v ! 0 = 0
      \<and> (\<forall>c. pumpCommand (w' \<lparr> m_endConditions := (m_endConditions w')[0 := c] \<rparr>) = cmd)"
      by (intro conjI)
  qed
  have td: "fle targetDepth float_zero \<longrightarrow>
      m_targetDepth s' = FLT_MAX \<and> m_startConditionMask v ! 0 = 0
      \<and> (\<forall>c. pumpCommand (w' \<lparr> m_startConditions := (m_startConditions w')[0 := c] \<rparr>) = cmd)"
  proof
    assume "fle targetDepth float_zero"
    then have "\<not> fgt targetDepth float_zero"
      unfolding fgt_def by (rule fle_not_flt)
    then have a: "m_targetDepth s' = FLT_MAX"
      by (simp add: assms(2) setDeploymentConfig_def)
    have m: "m_startConditionMask v ! 0 = 0"
      unfolding sm0 a by (simp add: FLT_MAX_not_below_MAX_DEPTH)
    from a m start_inert [OF k(1) m] show "m_targetDepth s' = FLT_MAX \<and> m_startConditionMask v ! 0 = 0
      \<and> (\<forall>c. pumpCommand (w' \<lparr> m_startConditions := (m_startConditions w')[0 := c] \<rparr>) = cmd)"
      by (intro conjI)
  qed
  have tt: "fle targetTemperature ABS_ZERO_C \<longrightarrow>
      m_targetTemperature s' = ABS_ZERO_C \<and> m_startConditionMask v ! 1 = 0
      \<and> (\<forall>c. pumpCommand (w' \<lparr> m_startConditions := (m_startConditions w')[1 := c] \<rparr>) = cmd)"
  proof
    assume "fle targetTemperature ABS_ZERO_C"
    then have "\<not> fgt targetTemperature ABS_ZERO_C"
      unfolding fgt_def by (rule fle_not_flt)
    then have a: "m_targetTemperature s' = ABS_ZERO_C"
      by (simp add: assms(2) setDeploymentConfig_def)
    have m: "m_startConditionMask v ! 1 = 0"
      unfolding sm1 a by (simp add: ABS_ZERO_C_not_above)
    from a m start_inert [OF k(2) m] show
      "m_targetTemperature s' = ABS_ZERO_C \<and> m_startConditionMask v ! 1 = 0
      \<and> (\<forall>c. pumpCommand (w' \<lparr> m_startConditions := (m_startConditions w')[1 := c] \<rparr>) = cmd)"
      by (intro conjI)
  qed
  have ws: "waitPumpStart = 0 \<longrightarrow>
      m_startConditionMask v ! 2 = 0
      \<and> (\<forall>c. pumpCommand (w' \<lparr> m_startConditions := (m_startConditions w')[2 := c] \<rparr>) = cmd)"
  proof
    assume "waitPumpStart = 0"
    then have a: "m_waitPumpStart s' = 0"
      by (simp add: assms(2) setDeploymentConfig_def)
    have m: "m_startConditionMask v ! 2 = 0"
      unfolding sm2 a by simp
    from m start_inert [OF k(3) m] show "m_startConditionMask v ! 2 = 0
      \<and> (\<forall>c. pumpCommand (w' \<lparr> m_startConditions := (m_startConditions w')[2 := c] \<rparr>) = cmd)"
      by (intro conjI)
  qed
  have mf: "feq minFlowrate float_zero \<longrightarrow>
      feq (m_minFlowrate s') float_zero
      \<and> m_endConditionMask v ! 2 = of_bool (ticksPerLiter = 0)
      \<and> (0 < ticksPerLiter \<longrightarrow>
           (\<forall>c. pumpCommand (w' \<lparr> m_endConditions := (m_endConditions w')[2 := c] \<rparr>) = cmd))"
  proof
    assume "feq minFlowrate float_zero"
    then obtain sg e0 where z: "minFlowrate = Finite sg 0 e0"
      unfolding feq_zero by blast
    have tpl: "m_ticksPerLiter s' = ticksPerLiter"
      by (simp add: assms(2) setDeploymentConfig_def)
    have u0: "u32_to_float 0 = Finite False 0 (-149)"
      by (simp add: u32_to_float_def round_float_def)
    obtain q e where u: "u32_to_float ticksPerLiter = Finite False q e"
    proof (cases "ticksPerLiter = 0")
      case True
      with u0 show ?thesis using that by simp
    next
      case False
      then have "0 < ticksPerLiter" by (simp add: word_neq_0_conv)
      from u32_to_float_pos [OF this] show ?thesis using that by blast
    qed
    have "fmul (Finite sg 0 e0) (Finite False q e) = Finite sg 0 (-149)"
      by (simp add: round_float_def)
    then have a: "m_minFlowrate s' = Finite sg 0 (-149)"
      by (simp add: assms(2) setDeploymentConfig_def z u)
    have st: "feq (m_minFlowrate s') float_zero"
      unfolding feq_zero a by blast
    have m: "m_endConditionMask v ! 2 = of_bool (ticksPerLiter = 0)"
    proof (cases "ticksPerLiter = 0")
      case True
      have "fge (Finite sg 0 (-149)) (fmul MIN_FLOWRATE (Finite False 0 (-149)))"
        by (simp add: fge_def MIN_FLOWRATE_def round_float_def sval_def)
      then show ?thesis
        unfolding em2 a tpl by (simp add: True u0)
    next
      case False
      then have "0 < ticksPerLiter" by (simp add: word_neq_0_conv)
      from min_flowrate_threshold_pos [OF this, of sg] False show ?thesis
        unfolding em2 a tpl by simp
    qed
    have i: "0 < ticksPerLiter \<longrightarrow>
        (\<forall>c. pumpCommand (w' \<lparr> m_endConditions := (m_endConditions w')[2 := c] \<rparr>) = cmd)"
    proof
      assume "0 < ticksPerLiter"
      then have "ticksPerLiter \<noteq> 0" by (simp add: word_neq_0_conv)
      with m have "m_endConditionMask v ! 2 = 0" by simp
      with k(6) show
        "\<forall>c. pumpCommand (w' \<lparr> m_endConditions := (m_endConditions w')[2 := c] \<rparr>) = cmd"
        by (rule end_inert)
    qed
    from st m i show "feq (m_minFlowrate s') float_zero
      \<and> m_endConditionMask v ! 2 = of_bool (ticksPerLiter = 0)
      \<and> (0 < ticksPerLiter \<longrightarrow>
           (\<forall>c. pumpCommand (w' \<lparr> m_endConditions := (m_endConditions w')[2 := c] \<rparr>) = cmd))"
      by (intro conjI)
  qed
  from we tv td tt ws mf show ?thesis
    by (intro conjI)
qed

text \<open>
  Two deployments with a minimum flow rate of \<open>-0\<close> and the flow meter of the tests, after
  \<^verbatim>\<open>setDiveStartTime(START_TIME)\<close>. In the first every input is switched off: the sentinels
  are stored and all six mask entries are 0; at the depth \<^verbatim>\<open>FLT_MAX\<close> and the temperature
  \<^verbatim>\<open>ABS_ZERO_C\<close> all three start conditions evaluate true, and the command is \<^verbatim>\<open>PUMP_OFF\<close>,
  as it is with any of them false. The second starts at \<open>20 \<plusminus> 5\<close> m with every stop condition
  switched off: after \<^verbatim>\<open>setPumpStartTime(0)\<close> and \<^verbatim>\<open>computeMaxFlowrate(5)\<close>, at 20 m with
  \<^verbatim>\<open>UINT_MAX\<close> ticks and \<^verbatim>\<open>UINT_MAX\<close> seconds of pumping, all three stop conditions evaluate
  true, and the command is \<^verbatim>\<open>PUMP_ON\<close>, as it is with any of them false.
\<close>

theorem setDeploymentConfig_sentinels_witness:
  "feq (Finite True 0 (-149)) float_zero
   \<and> fle float_zero float_zero
   \<and> fle ABS_ZERO_C ABS_ZERO_C
   \<and> 0 < TICKS_PER_L
   \<and> m_waitPumpEnd (setDeploymentConfig (Finite True 0 (-149)) float_zero float_zero ABS_ZERO_C
       float_zero 0 0 0 TICKS_PER_L (setDiveStartTime START_TIME test_sampler)) = UINT_MAX
   \<and> m_targetFlowVol (setDeploymentConfig (Finite True 0 (-149)) float_zero float_zero ABS_ZERO_C
       float_zero 0 0 0 TICKS_PER_L (setDiveStartTime START_TIME test_sampler)) = UINT_MAX
   \<and> m_targetDepth (setDeploymentConfig (Finite True 0 (-149)) float_zero float_zero ABS_ZERO_C
       float_zero 0 0 0 TICKS_PER_L (setDiveStartTime START_TIME test_sampler)) = FLT_MAX
   \<and> m_targetTemperature (setDeploymentConfig (Finite True 0 (-149)) float_zero float_zero
       ABS_ZERO_C float_zero 0 0 0 TICKS_PER_L (setDiveStartTime START_TIME test_sampler)) =
       ABS_ZERO_C
   \<and> feq (m_minFlowrate (setDeploymentConfig (Finite True 0 (-149)) float_zero float_zero
       ABS_ZERO_C float_zero 0 0 0 TICKS_PER_L (setDiveStartTime START_TIME test_sampler)))
       float_zero
   \<and> m_startConditionMask (snd (isValidUserConfig (setDeploymentConfig (Finite True 0 (-149))
       float_zero float_zero ABS_ZERO_C float_zero 0 0 0 TICKS_PER_L (setDiveStartTime START_TIME
       test_sampler)))) = [0, 0, 0]
   \<and> m_endConditionMask (snd (isValidUserConfig (setDeploymentConfig (Finite True 0 (-149))
       float_zero float_zero ABS_ZERO_C float_zero 0 0 0 TICKS_PER_L (setDiveStartTime START_TIME
       test_sampler)))) = [0, 0, 0]
   \<and> m_startConditions (snd (checkPumpTrigger FLT_MAX ABS_ZERO_C 30 0 0 (snd (isValidUserConfig
       (setDeploymentConfig (Finite True 0 (-149)) float_zero float_zero ABS_ZERO_C float_zero 0 0
       0 TICKS_PER_L (setDiveStartTime START_TIME test_sampler)))))) = [1, 1, 1]
   \<and> fst (checkPumpTrigger FLT_MAX ABS_ZERO_C 30 0 0 (snd (isValidUserConfig (setDeploymentConfig
       (Finite True 0 (-149)) float_zero float_zero ABS_ZERO_C float_zero 0 0 0 TICKS_PER_L
       (setDiveStartTime START_TIME test_sampler))))) = PUMP_OFF
   \<and> pumpCommand (snd (checkPumpTrigger FLT_MAX ABS_ZERO_C 30 0 0 (snd (isValidUserConfig
       (setDeploymentConfig (Finite True 0 (-149)) float_zero float_zero ABS_ZERO_C float_zero 0 0
       0 TICKS_PER_L (setDiveStartTime START_TIME test_sampler))))) \<lparr> m_startConditions :=
       (m_startConditions (snd (checkPumpTrigger FLT_MAX ABS_ZERO_C 30 0 0 (snd (isValidUserConfig
       (setDeploymentConfig (Finite True 0 (-149)) float_zero float_zero ABS_ZERO_C float_zero 0 0
       0 TICKS_PER_L (setDiveStartTime START_TIME test_sampler)))))))[0 := 0] \<rparr>) = PUMP_OFF
   \<and> pumpCommand (snd (checkPumpTrigger FLT_MAX ABS_ZERO_C 30 0 0 (snd (isValidUserConfig
       (setDeploymentConfig (Finite True 0 (-149)) float_zero float_zero ABS_ZERO_C float_zero 0 0
       0 TICKS_PER_L (setDiveStartTime START_TIME test_sampler))))) \<lparr> m_startConditions :=
       (m_startConditions (snd (checkPumpTrigger FLT_MAX ABS_ZERO_C 30 0 0 (snd (isValidUserConfig
       (setDeploymentConfig (Finite True 0 (-149)) float_zero float_zero ABS_ZERO_C float_zero 0 0
       0 TICKS_PER_L (setDiveStartTime START_TIME test_sampler)))))))[1 := 0] \<rparr>) = PUMP_OFF
   \<and> pumpCommand (snd (checkPumpTrigger FLT_MAX ABS_ZERO_C 30 0 0 (snd (isValidUserConfig
       (setDeploymentConfig (Finite True 0 (-149)) float_zero float_zero ABS_ZERO_C float_zero 0 0
       0 TICKS_PER_L (setDiveStartTime START_TIME test_sampler))))) \<lparr> m_startConditions :=
       (m_startConditions (snd (checkPumpTrigger FLT_MAX ABS_ZERO_C 30 0 0 (snd (isValidUserConfig
       (setDeploymentConfig (Finite True 0 (-149)) float_zero float_zero ABS_ZERO_C float_zero 0 0
       0 TICKS_PER_L (setDiveStartTime START_TIME test_sampler)))))))[2 := 0] \<rparr>) = PUMP_OFF
   \<and> m_endConditionMask (snd (isValidUserConfig (setDeploymentConfig (Finite True 0 (-149))
       (Finite False 10485760 (-19)) (Finite False 10485760 (-21)) ABS_ZERO_C float_zero 0 0 0
       TICKS_PER_L (setDiveStartTime START_TIME test_sampler)))) = [0, 0, 0]
   \<and> m_endConditions (snd (checkPumpTrigger (Finite False 10485760 (-19)) ABS_ZERO_C 30 UINT_MAX
       UINT_MAX (computeMaxFlowrate 5 (setPumpStartTime 0 (snd (isValidUserConfig
       (setDeploymentConfig (Finite True 0 (-149)) (Finite False 10485760 (-19)) (Finite False
       10485760 (-21)) ABS_ZERO_C float_zero 0 0 0 TICKS_PER_L (setDiveStartTime START_TIME
       test_sampler)))))))) = [1, 1, 1]
   \<and> fst (checkPumpTrigger (Finite False 10485760 (-19)) ABS_ZERO_C 30 UINT_MAX UINT_MAX
       (computeMaxFlowrate 5 (setPumpStartTime 0 (snd (isValidUserConfig (setDeploymentConfig
       (Finite True 0 (-149)) (Finite False 10485760 (-19)) (Finite False 10485760 (-21))
       ABS_ZERO_C float_zero 0 0 0 TICKS_PER_L (setDiveStartTime START_TIME test_sampler))))))) =
       PUMP_ON
   \<and> pumpCommand (snd (checkPumpTrigger (Finite False 10485760 (-19)) ABS_ZERO_C 30 UINT_MAX
       UINT_MAX (computeMaxFlowrate 5 (setPumpStartTime 0 (snd (isValidUserConfig
       (setDeploymentConfig (Finite True 0 (-149)) (Finite False 10485760 (-19)) (Finite False
       10485760 (-21)) ABS_ZERO_C float_zero 0 0 0 TICKS_PER_L (setDiveStartTime START_TIME
       test_sampler))))))) \<lparr> m_endConditions := (m_endConditions (snd (checkPumpTrigger
       (Finite False 10485760 (-19)) ABS_ZERO_C 30 UINT_MAX UINT_MAX (computeMaxFlowrate 5
       (setPumpStartTime 0 (snd (isValidUserConfig (setDeploymentConfig (Finite True 0 (-149))
       (Finite False 10485760 (-19)) (Finite False 10485760 (-21)) ABS_ZERO_C float_zero 0 0 0
       TICKS_PER_L (setDiveStartTime START_TIME test_sampler)))))))))[0 := 0] \<rparr>) = PUMP_ON
   \<and> pumpCommand (snd (checkPumpTrigger (Finite False 10485760 (-19)) ABS_ZERO_C 30 UINT_MAX
       UINT_MAX (computeMaxFlowrate 5 (setPumpStartTime 0 (snd (isValidUserConfig
       (setDeploymentConfig (Finite True 0 (-149)) (Finite False 10485760 (-19)) (Finite False
       10485760 (-21)) ABS_ZERO_C float_zero 0 0 0 TICKS_PER_L (setDiveStartTime START_TIME
       test_sampler))))))) \<lparr> m_endConditions := (m_endConditions (snd (checkPumpTrigger
       (Finite False 10485760 (-19)) ABS_ZERO_C 30 UINT_MAX UINT_MAX (computeMaxFlowrate 5
       (setPumpStartTime 0 (snd (isValidUserConfig (setDeploymentConfig (Finite True 0 (-149))
       (Finite False 10485760 (-19)) (Finite False 10485760 (-21)) ABS_ZERO_C float_zero 0 0 0
       TICKS_PER_L (setDiveStartTime START_TIME test_sampler)))))))))[1 := 0] \<rparr>) = PUMP_ON
   \<and> pumpCommand (snd (checkPumpTrigger (Finite False 10485760 (-19)) ABS_ZERO_C 30 UINT_MAX
       UINT_MAX (computeMaxFlowrate 5 (setPumpStartTime 0 (snd (isValidUserConfig
       (setDeploymentConfig (Finite True 0 (-149)) (Finite False 10485760 (-19)) (Finite False
       10485760 (-21)) ABS_ZERO_C float_zero 0 0 0 TICKS_PER_L (setDiveStartTime START_TIME
       test_sampler))))))) \<lparr> m_endConditions := (m_endConditions (snd (checkPumpTrigger
       (Finite False 10485760 (-19)) ABS_ZERO_C 30 UINT_MAX UINT_MAX (computeMaxFlowrate 5
       (setPumpStartTime 0 (snd (isValidUserConfig (setDeploymentConfig (Finite True 0 (-149))
       (Finite False 10485760 (-19)) (Finite False 10485760 (-21)) ABS_ZERO_C float_zero 0 0 0
       TICKS_PER_L (setDiveStartTime START_TIME test_sampler)))))))))[2 := 0] \<rparr>) = PUMP_ON"
proof -
  let ?a = "setDeploymentConfig (Finite True 0 (-149)) float_zero float_zero ABS_ZERO_C float_zero 0 0 0
          TICKS_PER_L (setDiveStartTime START_TIME test_sampler)"
  let ?av = "snd (isValidUserConfig ?a)"
  let ?ac = "checkPumpTrigger FLT_MAX ABS_ZERO_C 30 0 0 ?av"
  let ?b = "setDeploymentConfig (Finite True 0 (-149)) (Finite False 10485760 (-19)) (Finite False
          10485760 (-21)) ABS_ZERO_C float_zero 0 0 0 TICKS_PER_L (setDiveStartTime START_TIME
          test_sampler)"
  let ?bv = "snd (isValidUserConfig ?b)"
  let ?bw = "computeMaxFlowrate 5 (setPumpStartTime 0 ?bv)"
  let ?bc = "checkPumpTrigger (Finite False 10485760 (-19)) ABS_ZERO_C 30 UINT_MAX UINT_MAX ?bw"
  have base: "sampler_inv (setDiveStartTime START_TIME test_sampler)"
    by (simp add: sampler_inv_setDiveStartTime sampler_inv_test_sampler)
  have h: "feq (Finite True 0 (-149)) float_zero" "fle float_zero float_zero" "fle ABS_ZERO_C ABS_ZERO_C"
    "0 < TICKS_PER_L"
    by (simp_all add: feq_def float_zero_def ABS_ZERO_C_def TICKS_PER_L_def sval_def)
  have f: "fle (fabs (fsub FLT_MAX FLT_MAX)) float_zero"
    "fle (fabs (fsub ABS_ZERO_C ABS_ZERO_C)) float_zero"
    "fle (fabs (fsub (Finite False 10485760 (-19)) (Finite False 10485760 (-19)))) (Finite False 10485760 (-21))"
    "fgt (Finite False 10485760 (-19)) float_zero"
    "\<not> fgt float_zero float_zero"
    "fgt (Finite False 15728640 (-18)) float_zero"
    "fle float_zero (Finite True 0 (-149))"
    "fmul (Finite True 0 (-149)) (Finite False 9420800 (-11)) = (Finite True 0 (-149))"
    "\<not> fge (Finite True 0 (-149)) (Finite False 15073280 (-14))"
    "fge (Finite False 10485760 (-19)) MIN_DEPTH" "flt (Finite False 10485760 (-19)) MAX_DEPTH" "fgt (Finite False 10485760 (-21)) float_zero"
    "u32_to_float 60 = Finite False 15728640 (-18)"
    by (simp_all add: FLT_MAX_def ABS_ZERO_C_def float_zero_def fgt_def fge_def sval_def
        MIN_DEPTH_def MAX_DEPTH_def u32_to_float_def round_float_def bitlen_numeral_simps)
  have inva: "sampler_inv ?a" and invb: "sampler_inv ?b"
    using base by (simp_all add: sampler_inv_setDeploymentConfig)
  have invav: "sampler_inv ?av" and invbv: "sampler_inv ?bv"
    using inva invb by (simp_all add: isValidUserConfig_snd sampler_inv_recomputeMasks)
  have invbw: "sampler_inv ?bw"
    using invbv by (simp add: sampler_inv_computeMaxFlowrate sampler_inv_setPumpStartTime)
  have pa: "isValidUserConfig ?a = (fst (isValidUserConfig ?a), ?av)"
    and pb: "isValidUserConfig ?b = (fst (isValidUserConfig ?b), ?bv)"
    and pac: "?ac = (fst ?ac, snd ?ac)" and pbc: "?bc = (fst ?bc, snd ?bc)"
    by simp_all
  have a: "m_targetDepth ?a = FLT_MAX" "m_depthBand ?a = float_zero"
    "m_targetTemperature ?a = ABS_ZERO_C" "m_temperatureBand ?a = float_zero"
    "m_waitPumpStart ?a = 0" "m_diveStartTime ?a = 0"
    "m_targetFlowVol ?a = UINT_MAX" "m_waitPumpEnd ?a = UINT_MAX"
    "m_pumpStartTime ?a = UINT_MAX" "m_maxFlowrate ?a = float_zero"
    "m_minFlowrate ?a = (Finite True 0 (-149))" "m_ticksPerLiter ?a = 4600"
    by (simp_all add: setDeploymentConfig_def setDiveStartTime_def START_TIME_def
        test_sampler_def Sampler_def TICKS_PER_L_def f u32_to_float_4600 ABS_ZERO_C_not_above
        round_float_def)
  have av: "m_targetDepth ?av = FLT_MAX" "m_depthBand ?av = float_zero"
    "m_targetTemperature ?av = ABS_ZERO_C" "m_temperatureBand ?av = float_zero"
    "m_waitPumpStart ?av = 0" "m_diveStartTime ?av = 0"
    "m_targetFlowVol ?av = UINT_MAX" "m_waitPumpEnd ?av = UINT_MAX"
    "m_pumpStartTime ?av = UINT_MAX" "m_maxFlowrate ?av = float_zero"
    by (simp_all add: isValidUserConfig_snd recomputeMasks_def Let_def a)
  have asm: "m_startConditionMask ?av = [0, 0, 0]"
    unfolding isValidUserConfig_snd recomputeMasks_start [OF inva] a
    by (simp add: FLT_MAX_not_below_MAX_DEPTH ABS_ZERO_C_not_above)
  have aem: "m_endConditionMask ?av = [0, 0, 0]"
    unfolding isValidUserConfig_snd recomputeMasks_end [OF inva] a
    by (simp add: u32_to_float_4600 min_flow_ticks f)
  have ea: "elapsedSinceDive 30 ?av = Some 30"
    by (simp add: elapsedSinceDive_def av)
  have asc: "m_startConditions (snd ?ac) = [1, 1, 1]"
    unfolding checkPumpTrigger_start [OF invav] av ea by (simp add: f)
  have "\<forall>j < N_START_COND. m_startConditionMask ?av ! j = 0"
    by (simp add: asm N_START_COND_def less_three)
  then have "\<forall>j \<in> set [0..<N_START_COND].
      m_startConditionMask (evalConditions FLT_MAX ABS_ZERO_C 30 0 0 ?av) ! j = 0"
    by (simp add: evalConditions_masks)
  then have "startLoop (evalConditions FLT_MAX ABS_ZERO_C 30 0 0 ?av) [0..<N_START_COND] 0 = 0"
    by (rule startLoop_no_mask)
  then have aoff: "fst ?ac = PUMP_OFF"
    by (simp add: checkPumpTrigger_def Let_def endLoop_zero)
  have b: "m_targetDepth ?b = (Finite False 10485760 (-19))" "m_depthBand ?b = (Finite False 10485760 (-21))"
    "m_targetTemperature ?b = ABS_ZERO_C" "m_temperatureBand ?b = float_zero"
    "m_waitPumpStart ?b = 0" "m_diveStartTime ?b = 0"
    "m_targetFlowVol ?b = UINT_MAX" "m_waitPumpEnd ?b = UINT_MAX"
    "m_maxFlowrate ?b = float_zero" "m_curFlowrate ?b = float_zero"
    "m_minFlowrate ?b = (Finite True 0 (-149))" "m_ticksPerLiter ?b = 4600"
    "m_flowLog ?b = [0, 0, 0, 0, 0]" "m_curFlowIdx ?b = 0"
    by (simp_all add: setDeploymentConfig_def setDiveStartTime_def START_TIME_def
        test_sampler_def Sampler_def TICKS_PER_L_def f u32_to_float_4600 ABS_ZERO_C_not_above
        round_float_def)
  have bsm: "m_startConditionMask ?bv = [1, 0, 0]"
    unfolding isValidUserConfig_snd recomputeMasks_start [OF invb] b
    by (simp add: f ABS_ZERO_C_not_above)
  have bem: "m_endConditionMask ?bv = [0, 0, 0]"
    unfolding isValidUserConfig_snd recomputeMasks_end [OF invb] b
    by (simp add: u32_to_float_4600 min_flow_ticks f)
  have bw: "m_startConditionMask ?bw = [1, 0, 0]" "m_endConditionMask ?bw = [0, 0, 0]"
    "m_targetDepth ?bw = (Finite False 10485760 (-19))" "m_depthBand ?bw = (Finite False 10485760 (-21))"
    "m_targetTemperature ?bw = ABS_ZERO_C" "m_temperatureBand ?bw = float_zero"
    "m_waitPumpStart ?bw = 0" "m_diveStartTime ?bw = 0"
    "m_targetFlowVol ?bw = UINT_MAX" "m_waitPumpEnd ?bw = UINT_MAX"
    "m_pumpStartTime ?bw = 0" "m_maxFlowrate ?bw = Finite False 15728640 (-18)"
    "m_curFlowrate ?bw = float_zero" "m_minFlowrate ?bw = (Finite True 0 (-149))"
    by (simp_all add: computeMaxFlowrate_def setPumpStartTime_def bsm bem f
        isValidUserConfig_snd [of ?b, symmetric])
      (simp_all add: isValidUserConfig_snd recomputeMasks_def Let_def b f)
  have eb: "elapsedSinceDive 30 ?bw = Some 30"
    by (simp add: elapsedSinceDive_def bw)
  have bec: "m_endConditions (snd ?bc) = [1, 1, 1]"
    by (simp add: checkPumpTrigger_def Let_def evalConditions_eq [OF invbw] bw f)
  have bsc: "m_startConditions (snd ?bc) = [1, 1, 1]"
    unfolding checkPumpTrigger_start [OF invbw] bw eb by (simp add: f sval_def)
  have bm: "m_startConditionMask (snd ?bc) = [1, 0, 0]" "m_endConditionMask (snd ?bc) = [0, 0, 0]"
    by (simp_all add: checkPumpTrigger_pumpCommand evalConditions_masks bw)
  define t where "t = snd ?bc"
  have "pumpCommand t = PUMP_ON"
    using bsc bec bm unfolding t_def [symmetric]
    by (simp add: pumpCommand_def upt_N_START_COND upt_N_END_COND PUMP_ON_def PUMP_OFF_def)
  then have bon: "fst ?bc = PUMP_ON"
    by (simp add: t_def checkPumpTrigger_pumpCommand)
  note ia = setDeploymentConfig_sentinels [OF base refl pa invav refl refl pac]
  note ib = setDeploymentConfig_sentinels [OF base refl pb invbw bw(1) [unfolded bsm [symmetric]]
    bw(2) [unfolded bem [symmetric]] pbc]
  from ia h have st: "m_waitPumpEnd ?a = UINT_MAX" "m_targetFlowVol ?a = UINT_MAX"
    "m_targetDepth ?a = FLT_MAX" "m_targetTemperature ?a = ABS_ZERO_C"
    "feq (m_minFlowrate ?a) float_zero"
    by simp_all
  from ia h have i0: "pumpCommand (snd ?ac \<lparr> m_startConditions := (m_startConditions (snd ?ac))[0 := 0] \<rparr>) = fst ?ac"
    by simp
  from ia h have i1: "pumpCommand (snd ?ac \<lparr> m_startConditions := (m_startConditions (snd ?ac))[1 := 0] \<rparr>) = fst ?ac"
    by simp
  from ia h have i2: "pumpCommand (snd ?ac \<lparr> m_startConditions := (m_startConditions (snd ?ac))[2 := 0] \<rparr>) = fst ?ac"
    by simp
  from ib h have j0: "pumpCommand (snd ?bc \<lparr> m_endConditions := (m_endConditions (snd ?bc))[0 := 0] \<rparr>) = fst ?bc"
    by simp
  from ib h have j1: "pumpCommand (snd ?bc \<lparr> m_endConditions := (m_endConditions (snd ?bc))[1 := 0] \<rparr>) = fst ?bc"
    by simp
  from ib h have j2: "pumpCommand (snd ?bc \<lparr> m_endConditions := (m_endConditions (snd ?bc))[2 := 0] \<rparr>) = fst ?bc"
    by simp
  from h st asm aem asc aoff i0 [unfolded aoff] i1 [unfolded aoff] i2 [unfolded aoff] bem bec bon
    j0 [unfolded bon] j1 [unfolded bon] j2 [unfolded bon]
  show ?thesis
    by (intro conjI)
qed

text \<open>
  The claim as stated fails on the configuration of \<^verbatim>\<open>testDepth1\<close> (no wait after the
  dive, no minimum flow rate): the stored wait time and the stored minimum flow rate are 0,
  not maximal. And the minimum-flow condition is not inert when \<^verbatim>\<open>ticksPerLiter\<close> is 0: with
  a start at \<open>20 \<plusminus> 5\<close> m, every stop input zero and 0 ticks per litre, after
  \<^verbatim>\<open>computeMaxFlowrate(5)\<close> and at 20 m, its mask entry is 1, it evaluates true, and the
  command is \<^verbatim>\<open>PUMP_OFF\<close>, while it would be \<^verbatim>\<open>PUMP_ON\<close> with the condition false.
\<close>

theorem setDeploymentConfig_sentinels_counterexample:
  "m_waitPumpStart (setDeploymentConfig float_zero (Finite False 10485760 (-19)) (Finite False
       10485760 (-21)) ABS_ZERO_C float_zero 5 0 0 TICKS_PER_L test_sampler) = 0
   \<and> m_waitPumpStart (setDeploymentConfig float_zero (Finite False 10485760 (-19)) (Finite False
       10485760 (-21)) ABS_ZERO_C float_zero 5 0 0 TICKS_PER_L test_sampler) \<noteq> UINT_MAX
   \<and> m_minFlowrate (setDeploymentConfig float_zero (Finite False 10485760 (-19)) (Finite False
       10485760 (-21)) ABS_ZERO_C float_zero 5 0 0 TICKS_PER_L test_sampler) = float_zero
   \<and> m_minFlowrate (setDeploymentConfig float_zero (Finite False 10485760 (-19)) (Finite False
       10485760 (-21)) ABS_ZERO_C float_zero 5 0 0 TICKS_PER_L test_sampler) \<noteq> FLT_MAX
   \<and> m_endConditionMask (snd (isValidUserConfig (setDeploymentConfig float_zero (Finite False
       10485760 (-19)) (Finite False 10485760 (-21)) ABS_ZERO_C float_zero 0 0 0 0 test_sampler)))
       ! 2 = 1
   \<and> m_endConditions (snd (checkPumpTrigger (Finite False 10485760 (-19)) ABS_ZERO_C 30 0 0
       (computeMaxFlowrate 5 (snd (isValidUserConfig (setDeploymentConfig float_zero (Finite False
       10485760 (-19)) (Finite False 10485760 (-21)) ABS_ZERO_C float_zero 0 0 0 0
       test_sampler)))))) ! 2 = 1
   \<and> fst (checkPumpTrigger (Finite False 10485760 (-19)) ABS_ZERO_C 30 0 0 (computeMaxFlowrate 5
       (snd (isValidUserConfig (setDeploymentConfig float_zero (Finite False 10485760 (-19))
       (Finite False 10485760 (-21)) ABS_ZERO_C float_zero 0 0 0 0 test_sampler))))) = PUMP_OFF
   \<and> pumpCommand (snd (checkPumpTrigger (Finite False 10485760 (-19)) ABS_ZERO_C 30 0 0
       (computeMaxFlowrate 5 (snd (isValidUserConfig (setDeploymentConfig float_zero (Finite False
       10485760 (-19)) (Finite False 10485760 (-21)) ABS_ZERO_C float_zero 0 0 0 0
       test_sampler))))) \<lparr> m_endConditions := (m_endConditions (snd (checkPumpTrigger
       (Finite False 10485760 (-19)) ABS_ZERO_C 30 0 0 (computeMaxFlowrate 5 (snd
       (isValidUserConfig (setDeploymentConfig float_zero (Finite False 10485760 (-19)) (Finite
       False 10485760 (-21)) ABS_ZERO_C float_zero 0 0 0 0 test_sampler)))))))[2 := 0] \<rparr>) =
       PUMP_ON"
proof -
  let ?t = "setDeploymentConfig float_zero (Finite False 10485760 (-19)) (Finite False 10485760 (-21))
          ABS_ZERO_C float_zero 5 0 0 TICKS_PER_L test_sampler"
  let ?u = "setDeploymentConfig float_zero (Finite False 10485760 (-19)) (Finite False 10485760 (-21))
          ABS_ZERO_C float_zero 0 0 0 0 test_sampler"
  let ?uv = "snd (isValidUserConfig ?u)"
  let ?uw = "computeMaxFlowrate 5 ?uv"
  let ?uc = "checkPumpTrigger (Finite False 10485760 (-19)) ABS_ZERO_C 30 0 0 ?uw"
  have t: "m_waitPumpStart ?t = 0" "m_waitPumpStart ?t \<noteq> UINT_MAX"
    "m_minFlowrate ?t = float_zero" "m_minFlowrate ?t \<noteq> FLT_MAX"
    by (simp_all add: setDeploymentConfig_def UINT_MAX_def TICKS_PER_L_def u32_to_float_4600
        float_zero_def FLT_MAX_def round_float_def)
  have f: "fle (fabs (fsub (Finite False 10485760 (-19)) (Finite False 10485760 (-19)))) (Finite False 10485760 (-21))"
    "fle (fabs (fsub ABS_ZERO_C ABS_ZERO_C)) float_zero"
    "fgt (Finite False 10485760 (-19)) float_zero"
    "fgt (Finite False 15728640 (-18)) float_zero"
    "fle float_zero float_zero"
    "fge float_zero (fmul MIN_FLOWRATE (Finite False 0 (-149)))"
    "fmul float_zero (Finite False 0 (-149)) = float_zero"
    "fge (Finite False 10485760 (-19)) MIN_DEPTH" "flt (Finite False 10485760 (-19)) MAX_DEPTH" "fgt (Finite False 10485760 (-21)) float_zero"
    "\<not> fgt float_zero float_zero"
    "u32_to_float 60 = Finite False 15728640 (-18)"
    "u32_to_float 0 = Finite False 0 (-149)"
    by (simp_all add: ABS_ZERO_C_def float_zero_def fgt_def fge_def sval_def MIN_FLOWRATE_def
        MIN_DEPTH_def MAX_DEPTH_def u32_to_float_def round_float_def bitlen_numeral_simps)
  have invu: "sampler_inv ?u"
    using sampler_inv_test_sampler by (rule setDeploymentConfig_inv)
  then have invuv: "sampler_inv ?uv"
    by (simp add: isValidUserConfig_snd sampler_inv_recomputeMasks)
  then have invuw: "sampler_inv ?uw"
    by (simp add: sampler_inv_computeMaxFlowrate)
  have u: "m_targetDepth ?u = (Finite False 10485760 (-19))" "m_depthBand ?u = (Finite False 10485760 (-21))"
    "m_targetTemperature ?u = ABS_ZERO_C" "m_temperatureBand ?u = float_zero"
    "m_waitPumpStart ?u = 0" "m_diveStartTime ?u = UINT_MAX"
    "m_targetFlowVol ?u = UINT_MAX" "m_waitPumpEnd ?u = UINT_MAX"
    "m_pumpStartTime ?u = UINT_MAX" "m_curFlowrate ?u = float_zero"
    "m_minFlowrate ?u = float_zero" "m_ticksPerLiter ?u = 0"
    "m_flowLog ?u = [0, 0, 0, 0, 0]" "m_curFlowIdx ?u = 0"
    by (simp_all add: setDeploymentConfig_def test_sampler_def Sampler_def f
        ABS_ZERO_C_not_above)
  have usm: "m_startConditionMask ?uv = [1, 0, 0]"
    unfolding isValidUserConfig_snd recomputeMasks_start [OF invu] u
    by (simp add: f ABS_ZERO_C_not_above)
  have uem: "m_endConditionMask ?uv = [0, 0, 1]"
    unfolding isValidUserConfig_snd recomputeMasks_end [OF invu] u
    by (simp add: f)
  have uw: "m_startConditionMask ?uw = [1, 0, 0]" "m_endConditionMask ?uw = [0, 0, 1]"
    "m_targetDepth ?uw = (Finite False 10485760 (-19))" "m_depthBand ?uw = (Finite False 10485760 (-21))"
    "m_targetTemperature ?uw = ABS_ZERO_C" "m_temperatureBand ?uw = float_zero"
    "m_waitPumpStart ?uw = 0" "m_diveStartTime ?uw = UINT_MAX"
    "m_targetFlowVol ?uw = UINT_MAX" "m_waitPumpEnd ?uw = UINT_MAX"
    "m_pumpStartTime ?uw = UINT_MAX" "m_maxFlowrate ?uw = Finite False 15728640 (-18)"
    "m_curFlowrate ?uw = float_zero" "m_minFlowrate ?uw = float_zero"
    by (simp_all add: computeMaxFlowrate_def usm uem f
        isValidUserConfig_snd [of ?u, symmetric])
      (simp_all add: isValidUserConfig_snd recomputeMasks_def Let_def u f)
  have eu: "elapsedSinceDive 30 ?uw = None"
    by (simp add: elapsedSinceDive_def uw UINT_MAX_def)
  have usc: "m_startConditions (snd ?uc) = [1, 1, 0]"
    unfolding checkPumpTrigger_start [OF invuw] uw eu by (simp add: f sval_def)
  have "m_endConditions (snd ?uc) =
      [of_bool (UINT_MAX \<le> (0 :: u32)), of_bool (UINT_MAX \<le> (30 :: u32) \<and> UINT_MAX \<le> (0 :: u32)),
       of_bool (fgt (Finite False 15728640 (-18)) float_zero \<and> fle float_zero float_zero)]"
    by (simp add: checkPumpTrigger_def Let_def evalConditions_eq [OF invuw] uw)
  then have uec: "m_endConditions (snd ?uc) = [0, 0, 1]"
    by (simp add: f UINT_MAX_def)
  have um: "m_startConditionMask (snd ?uc) = [1, 0, 0]" "m_endConditionMask (snd ?uc) = [0, 0, 1]"
    by (simp_all add: checkPumpTrigger_pumpCommand evalConditions_masks uw)
  define r where "r = snd ?uc"
  have "pumpCommand r = PUMP_OFF"
    "pumpCommand (r \<lparr> m_endConditions := (m_endConditions r)[2 := 0] \<rparr>) = PUMP_ON"
    using usc uec um unfolding r_def [symmetric]
    by (simp_all add: pumpCommand_def upt_N_START_COND upt_N_END_COND PUMP_ON_def PUMP_OFF_def)
  then have off: "fst ?uc = PUMP_OFF"
    and on: "pumpCommand (snd ?uc \<lparr> m_endConditions := (m_endConditions (snd ?uc))[2 := 0] \<rparr>)
      = PUMP_ON"
    by (simp_all add: r_def checkPumpTrigger_pumpCommand)
  from uem have m2: "m_endConditionMask ?uv ! 2 = 1"
    by simp
  from uec have e2: "m_endConditions (snd ?uc) ! 2 = 1"
    by simp
  from t m2 e2 off on show ?thesis
    by (intro conjI)
qed

text \<open>
  C3. Stop dominates: for every stored configuration, mask state and input, if a call of
  \<^verbatim>\<open>checkPumpTrigger\<close> returns the command \<open>cmd\<close> and leaves the state \<open>s'\<close>, and some stop
  condition \<open>k\<close> is enabled (\<^verbatim>\<open>_endConditionMask[k]\<close> is non-zero) and evaluates true on
  these inputs (the entry \<^verbatim>\<open>_endConditions[k]\<close> that the call has computed is non-zero),
  then \<open>cmd\<close> is \<^verbatim>\<open>PUMP_OFF\<close>, whatever the start conditions are.
\<close>

theorem checkPumpTrigger_stop_dominates:
  assumes "checkPumpTrigger depth temperature time_now ticks pumpDuration s = (cmd, s')"
    and "k < N_END_COND"
    and "m_endConditionMask s ! k \<noteq> 0"
    and "m_endConditions s' ! k \<noteq> 0"
  shows "cmd = PUMP_OFF"
proof -
  let ?e = "evalConditions depth temperature time_now ticks pumpDuration s"
  from assms(1) have s': "s' = ?e"
    by (simp add: checkPumpTrigger_def Let_def)
  have "k \<in> set [0..<N_END_COND]"
    using assms(2) by simp
  moreover have "m_endConditionMask ?e ! k \<noteq> 0"
    using assms(3) by (simp add: evalConditions_masks)
  moreover have "m_endConditions ?e ! k \<noteq> 0"
    using assms(4) by (simp add: s')
  ultimately have "endLoop ?e [0..<N_END_COND] (startLoop ?e [0..<N_START_COND] 0) = 0"
    by (rule endLoop_stop)
  with assms(1) show ?thesis
    by (simp add: checkPumpTrigger_def Let_def)
qed

text \<open>
  Case 4 of \<^verbatim>\<open>testVolume1\<close>: 80 s after the dive (the enabled dive-wait start condition
  holds) with 20 litres pumped, the enabled volume stop condition holds: PUMP_OFF.
\<close>

theorem checkPumpTrigger_stop_dominates_witness:
  "0 < N_END_COND
   \<and> m_endConditionMask testVolume1 ! 0 \<noteq> 0
   \<and> m_endConditions (snd (checkPumpTrigger (Finite False 13074432 (-16))
         (Finite False 13631488 (-20)) 80 92000 20 testVolume1)) ! 0 \<noteq> 0
   \<and> m_startConditionMask testVolume1 ! 2 \<noteq> 0
   \<and> m_startConditions (snd (checkPumpTrigger (Finite False 13074432 (-16))
         (Finite False 13631488 (-20)) 80 92000 20 testVolume1)) ! 2 \<noteq> 0
   \<and> fst (checkPumpTrigger (Finite False 13074432 (-16))
         (Finite False 13631488 (-20)) 80 92000 20 testVolume1) = PUMP_OFF"
proof -
  let ?c = "checkPumpTrigger (Finite False 13074432 (-16)) (Finite False 13631488 (-20))
              80 92000 20 testVolume1"
  have p: "?c = (fst ?c, snd ?c)"
    by simp
  have k: "0 < N_END_COND"
    by (simp add: N_END_COND_def)
  have mask: "m_endConditionMask testVolume1 ! 0 \<noteq> 0"
    by (simp add: testVolume1_fields)
  have cond: "m_endConditions (snd ?c) ! 0 \<noteq> 0"
    by (simp add: checkPumpTrigger_def Let_def evalConditions_end [OF sampler_inv_testVolume1]
        testVolume1_fields)
  have start: "m_startConditionMask testVolume1 ! 2 \<noteq> 0 \<and> m_startConditions (snd ?c) ! 2 \<noteq> 0"
    by (simp add: checkPumpTrigger_def Let_def evalConditions_start [OF sampler_inv_testVolume1]
        testVolume1_fields elapsedSinceDive_def)
  have "fst ?c = PUMP_OFF"
    using p k mask cond by (rule checkPumpTrigger_stop_dominates)
  with k mask cond start show ?thesis
    by (intro conjI) simp_all
qed

text \<open>
  C4. \<^verbatim>\<open>isValidUserConfig\<close> returns true (a non-zero value, in fact 1) if and only if
  \<^verbatim>\<open>_ticksPerLiter\<close> is positive, at least one of the three recomputed start-mask entries is
  true and at least one of the three recomputed stop-mask entries is true. In particular it
  returns false (0) when \<^verbatim>\<open>_ticksPerLiter\<close> is 0, when all three start-mask entries are
  false, and when all three stop-mask entries are false. Below, \<open>valid\<close> is the returned
  value and \<open>s'\<close> the state with the recomputed masks.
\<close>

theorem isValidUserConfig_iff:
  assumes "sampler_inv s"
    and "isValidUserConfig s = (valid, s')"
  shows "((valid \<noteq> 0) =
           (0 < m_ticksPerLiter s
            \<and> (\<exists>i < N_START_COND. m_startConditionMask s' ! i \<noteq> 0)
            \<and> (\<exists>i < N_END_COND. m_endConditionMask s' ! i \<noteq> 0)))
    \<and> (valid = 0 \<or> valid = 1)
    \<and> (m_ticksPerLiter s = 0 \<longrightarrow> valid = 0)
    \<and> ((\<forall>i < N_START_COND. m_startConditionMask s' ! i = 0) \<longrightarrow> valid = 0)
    \<and> ((\<forall>i < N_END_COND. m_endConditionMask s' ! i = 0) \<longrightarrow> valid = 0)"
proof -
  from assms(2) have valid: "valid = fst (isValidUserConfig s)"
    and s': "s' = recomputeMasks s"
    using isValidUserConfig_snd [of s] by simp_all
  have iff: "(valid \<noteq> 0) =
           (0 < m_ticksPerLiter s
            \<and> (\<exists>i < N_START_COND. m_startConditionMask s' ! i \<noteq> 0)
            \<and> (\<exists>i < N_END_COND. m_endConditionMask s' ! i \<noteq> 0))"
    unfolding valid s'
    by (simp add: isValidUserConfig_fst recomputeMasks_start [OF assms(1)]
        recomputeMasks_end [OF assms(1)] N_START_COND_def N_END_COND_def ex_less_three valid_bits(1)
        del: of_bool_eq_0_iff)
  have bit: "valid = 0 \<or> valid = 1"
    unfolding valid
    by (simp only: isValidUserConfig_fst recomputeMasks_start [OF assms(1)]
        recomputeMasks_end [OF assms(1)] nth_Cons_0 nth_Cons_Suc One_nat_def numeral_2_eq_2
        valid_bits(2))
  have tpl: "m_ticksPerLiter s = 0 \<longrightarrow> valid = 0"
    using iff by auto
  have nostart: "(\<forall>i < N_START_COND. m_startConditionMask s' ! i = 0) \<longrightarrow> valid = 0"
    using iff by auto
  have nostop: "(\<forall>i < N_END_COND. m_endConditionMask s' ! i = 0) \<longrightarrow> valid = 0"
    using iff by auto
  from iff bit tpl nostart nostop show ?thesis
    by (intro conjI)
qed

text \<open>
  The default-constructed sampler is invalid (\<^verbatim>\<open>_ticksPerLiter\<close> is 0 and no start
  condition is enabled); the deployment of \<^verbatim>\<open>testVolume1\<close> is valid.
\<close>

theorem isValidUserConfig_iff_witness:
  "sampler_inv test_sampler \<and> m_ticksPerLiter test_sampler = 0
   \<and> m_startConditionMask (snd (isValidUserConfig test_sampler)) ! 0 = 0
   \<and> m_startConditionMask (snd (isValidUserConfig test_sampler)) ! 1 = 0
   \<and> m_startConditionMask (snd (isValidUserConfig test_sampler)) ! 2 = 0
   \<and> fst (isValidUserConfig test_sampler) = 0
   \<and> sampler_inv testVolume1_deployment \<and> 0 < m_ticksPerLiter testVolume1_deployment
   \<and> m_startConditionMask (snd (isValidUserConfig testVolume1_deployment)) ! 0 \<noteq> 0
   \<and> m_endConditionMask (snd (isValidUserConfig testVolume1_deployment)) ! 0 \<noteq> 0
   \<and> fst (isValidUserConfig testVolume1_deployment) = 1"
proof -
  have pa: "isValidUserConfig test_sampler =
      (fst (isValidUserConfig test_sampler), snd (isValidUserConfig test_sampler))"
    by simp
  have pb: "isValidUserConfig testVolume1_deployment =
      (fst (isValidUserConfig testVolume1_deployment),
       snd (isValidUserConfig testVolume1_deployment))"
    by simp
  note a = isValidUserConfig_iff [OF sampler_inv_test_sampler pa]
  note b = isValidUserConfig_iff [OF sampler_inv_testVolume1_deployment pb]
  have tpl0: "m_ticksPerLiter test_sampler = 0"
    by (simp add: test_sampler_def Sampler_def)
  with a have zero: "fst (isValidUserConfig test_sampler) = 0"
    by blast
  have sm0: "m_startConditionMask (snd (isValidUserConfig test_sampler)) ! 0 = 0"
    "m_startConditionMask (snd (isValidUserConfig test_sampler)) ! 1 = 0"
    "m_startConditionMask (snd (isValidUserConfig test_sampler)) ! 2 = 0"
    unfolding isValidUserConfig_snd recomputeMasks_start [OF sampler_inv_test_sampler]
    by (simp_all add: test_sampler_def Sampler_def FLT_MAX_not_below_MAX_DEPTH ABS_ZERO_C_not_above)
  have tpl: "0 < m_ticksPerLiter testVolume1_deployment"
    by (simp add: testVolume1_deployment_fields)
  have sm: "m_startConditionMask (snd (isValidUserConfig testVolume1_deployment)) ! 0 \<noteq> 0"
    and em: "m_endConditionMask (snd (isValidUserConfig testVolume1_deployment)) ! 0 \<noteq> 0"
    by (simp_all add: testVolume1_config_masks [unfolded testVolume1_config_def])
  have "\<exists>i < N_START_COND.
      m_startConditionMask (snd (isValidUserConfig testVolume1_deployment)) ! i \<noteq> 0"
    using sm by (intro exI [of _ 0]) (simp add: N_START_COND_def)
  moreover have "\<exists>i < N_END_COND.
      m_endConditionMask (snd (isValidUserConfig testVolume1_deployment)) ! i \<noteq> 0"
    using em by (intro exI [of _ 0]) (simp add: N_END_COND_def)
  ultimately have "fst (isValidUserConfig testVolume1_deployment) \<noteq> 0"
    using b tpl by blast
  with b have one: "fst (isValidUserConfig testVolume1_deployment) = 1"
    by blast
  from sampler_inv_test_sampler tpl0 sm0 zero sampler_inv_testVolume1_deployment tpl sm em one
  show ?thesis
    by (intro conjI)
qed

text \<open>
  C5. For every state in which all three entries of \<^verbatim>\<open>_startConditionMask\<close> are false,
  \<^verbatim>\<open>checkPumpTrigger\<close> returns \<^verbatim>\<open>PUMP_OFF\<close> for every input.
\<close>

theorem checkPumpTrigger_no_start_enabled:
  assumes "\<forall>j < N_START_COND. m_startConditionMask s ! j = 0"
  shows "fst (checkPumpTrigger depth temperature time_now ticks pumpDuration s) = PUMP_OFF"
proof -
  let ?s' = "evalConditions depth temperature time_now ticks pumpDuration s"
  have "\<forall>j \<in> set [0..<N_START_COND]. m_startConditionMask ?s' ! j = 0"
    using assms by (simp add: evalConditions_masks)
  then have "startLoop ?s' [0..<N_START_COND] 0 = 0"
    by (rule startLoop_no_mask)
  then show ?thesis
    by (simp add: checkPumpTrigger_def Let_def endLoop_zero)
qed

text \<open>
  A deployment with every condition switched off, after \<^verbatim>\<open>setDiveStartTime(START_TIME)\<close>
  and \<^verbatim>\<open>isValidUserConfig()\<close>: the three start masks are 0. At the depth \<^verbatim>\<open>FLT_MAX\<close> and the
  temperature \<^verbatim>\<open>ABS_ZERO_C\<close>, 30 s after the dive, all three start conditions evaluate true
  and no stop condition does; the command is \<^verbatim>\<open>PUMP_OFF\<close>.
\<close>

theorem checkPumpTrigger_no_start_enabled_witness:
  "m_startConditionMask (snd (isValidUserConfig (setDeploymentConfig float_zero float_zero
       float_zero ABS_ZERO_C float_zero 0 0 0 TICKS_PER_L
       (setDiveStartTime START_TIME test_sampler)))) ! 0 = 0
   \<and> m_startConditionMask (snd (isValidUserConfig (setDeploymentConfig float_zero float_zero
       float_zero ABS_ZERO_C float_zero 0 0 0 TICKS_PER_L
       (setDiveStartTime START_TIME test_sampler)))) ! 1 = 0
   \<and> m_startConditionMask (snd (isValidUserConfig (setDeploymentConfig float_zero float_zero
       float_zero ABS_ZERO_C float_zero 0 0 0 TICKS_PER_L
       (setDiveStartTime START_TIME test_sampler)))) ! 2 = 0
   \<and> m_startConditions (snd (checkPumpTrigger FLT_MAX ABS_ZERO_C 30 0 0
       (snd (isValidUserConfig (setDeploymentConfig float_zero float_zero
          float_zero ABS_ZERO_C float_zero 0 0 0 TICKS_PER_L
          (setDiveStartTime START_TIME test_sampler)))))) = [1, 1, 1]
   \<and> m_endConditions (snd (checkPumpTrigger FLT_MAX ABS_ZERO_C 30 0 0
       (snd (isValidUserConfig (setDeploymentConfig float_zero float_zero
          float_zero ABS_ZERO_C float_zero 0 0 0 TICKS_PER_L
          (setDiveStartTime START_TIME test_sampler)))))) = [0, 0, 0]
   \<and> fst (checkPumpTrigger FLT_MAX ABS_ZERO_C 30 0 0
       (snd (isValidUserConfig (setDeploymentConfig float_zero float_zero
          float_zero ABS_ZERO_C float_zero 0 0 0 TICKS_PER_L
          (setDiveStartTime START_TIME test_sampler))))) = PUMP_OFF"
proof -
  let ?d = "setDeploymentConfig float_zero float_zero float_zero ABS_ZERO_C float_zero
       0 0 0 TICKS_PER_L (setDiveStartTime START_TIME test_sampler)"
  let ?v = "snd (isValidUserConfig ?d)"
  let ?c = "checkPumpTrigger FLT_MAX ABS_ZERO_C 30 0 0 ?v"
  have invd: "sampler_inv ?d"
    by (simp add: sampler_inv_setDeploymentConfig sampler_inv_setDiveStartTime
        sampler_inv_test_sampler)
  then have invv: "sampler_inv ?v"
    by (simp add: isValidUserConfig_snd sampler_inv_recomputeMasks)
  have d: "m_targetDepth ?d = FLT_MAX" "m_depthBand ?d = float_zero"
    "m_targetTemperature ?d = ABS_ZERO_C" "m_temperatureBand ?d = float_zero"
    "m_waitPumpStart ?d = 0" "m_diveStartTime ?d = 0"
    "m_targetFlowVol ?d = UINT_MAX" "m_pumpStartTime ?d = UINT_MAX"
    "m_maxFlowrate ?d = float_zero"
    by (simp_all add: setDeploymentConfig_def setDiveStartTime_def START_TIME_def
        test_sampler_def Sampler_def fgt_def float_zero_def ABS_ZERO_C_def sval_def)
  have v: "m_targetDepth ?v = FLT_MAX" "m_depthBand ?v = float_zero"
    "m_targetTemperature ?v = ABS_ZERO_C" "m_temperatureBand ?v = float_zero"
    "m_waitPumpStart ?v = 0" "m_diveStartTime ?v = 0"
    "m_targetFlowVol ?v = UINT_MAX" "m_pumpStartTime ?v = UINT_MAX"
    "m_maxFlowrate ?v = float_zero"
    by (simp_all add: isValidUserConfig_snd recomputeMasks_def Let_def d)
  have sm: "m_startConditionMask ?v = [0, 0, 0]"
    unfolding isValidUserConfig_snd recomputeMasks_start [OF invd] d
    by (simp add: FLT_MAX_not_below_MAX_DEPTH ABS_ZERO_C_not_above)
  have e: "elapsedSinceDive 30 ?v = Some 30"
    by (simp add: elapsedSinceDive_def v)
  have f: "fle (fabs (fsub FLT_MAX FLT_MAX)) float_zero"
    "fle (fabs (fsub ABS_ZERO_C ABS_ZERO_C)) float_zero"
    "\<not> fgt float_zero float_zero"
    by (simp_all add: FLT_MAX_def ABS_ZERO_C_def float_zero_def fgt_def sval_def)
  have sc: "m_startConditions (snd ?c) = [1, 1, 1]"
    unfolding checkPumpTrigger_start [OF invv] v e by (simp add: f)
  have "m_endConditions (snd ?c) =
      [of_bool (UINT_MAX \<le> (0 :: u32)), of_bool (UINT_MAX \<le> (30 :: u32) \<and> m_waitPumpEnd ?v \<le> 0),
       of_bool (fgt float_zero float_zero \<and> fle (m_curFlowrate ?v) (m_minFlowrate ?v))]"
    by (simp add: checkPumpTrigger_def Let_def evalConditions_eq [OF invv] v)
  then have ec: "m_endConditions (snd ?c) = [0, 0, 0]"
    by (simp add: f UINT_MAX_def)
  have h: "\<forall>j < N_START_COND. m_startConditionMask ?v ! j = 0"
    by (simp add: sm N_START_COND_def less_three)
  have off: "fst ?c = PUMP_OFF"
    using h by (rule checkPumpTrigger_no_start_enabled)
  from sm have sm0: "m_startConditionMask ?v ! 0 = 0" and sm1: "m_startConditionMask ?v ! 1 = 0"
    and sm2: "m_startConditionMask ?v ! 2 = 0"
    by simp_all
  from sm0 sm1 sm2 sc ec off show ?thesis
    by (intro conjI)
qed

text \<open>
  C6, as amended. \<^verbatim>\<open>UINT_MAX\<close> is both the "unset" sentinel of the two timestamps and a
  value of the clock. For every call of \<^verbatim>\<open>checkPumpTrigger\<close>: if \<^verbatim>\<open>_diveStartTime\<close> is
  unset, the dive-wait start condition (index 2) evaluates false, except when \<^verbatim>\<open>time_now\<close> is
  \<^verbatim>\<open>UINT_MAX\<close> and \<^verbatim>\<open>_waitPumpStart\<close> is 0, where it evaluates true; if \<^verbatim>\<open>_pumpStartTime\<close>
  is unset, the pump-duration stop condition (index 1) evaluates false, except when
  \<^verbatim>\<open>time_now\<close> is \<^verbatim>\<open>UINT_MAX\<close> and \<^verbatim>\<open>pumpDuration >= _waitPumpEnd\<close>, where it evaluates true.
  So with an unset timestamp the condition is false at every \<^verbatim>\<open>time_now\<close> other than
  \<^verbatim>\<open>UINT_MAX\<close>, whatever \<^verbatim>\<open>pumpDuration\<close> is.
\<close>

theorem unset_timestamps:
  assumes "sampler_inv s"
    and "checkPumpTrigger depth temperature time_now ticks pumpDuration s = (cmd, s')"
  shows "(m_diveStartTime s = UINT_MAX \<longrightarrow>
            (m_startConditions s' ! 2 = 0) = (time_now \<noteq> UINT_MAX \<or> m_waitPumpStart s \<noteq> 0))
       \<and> (m_pumpStartTime s = UINT_MAX \<longrightarrow>
            (m_endConditions s' ! 1 = 0)
              = (time_now \<noteq> UINT_MAX \<or> pumpDuration < m_waitPumpEnd s))"
proof -
  from assms(2) have s': "s' = evalConditions depth temperature time_now ticks pumpDuration s"
    by (simp add: checkPumpTrigger_def Let_def)
  have le: "UINT_MAX \<le> time_now \<longleftrightarrow> time_now = UINT_MAX"
    using UINT_MAX_le [of time_now] by auto
  have z: "m_waitPumpStart s \<le> 0 \<longleftrightarrow> m_waitPumpStart s = 0"
    by simp
  show ?thesis
    unfolding s' evalConditions_eq [OF assms(1)]
    by (auto simp: elapsedSinceDive_def le z not_le)
qed

text \<open>
  The deployment of \<^verbatim>\<open>testDepth1\<close> (no wait after the dive, five minutes of pumping), both
  timestamps unset, at \<^verbatim>\<open>time_now = 30\<close> with \<^verbatim>\<open>pumpDuration = 300\<close>. The right operands of
  both \<^verbatim>\<open>&&\<close> would hold (the unsigned difference \<^verbatim>\<open>30 - UINT_MAX\<close> is 31, and 300 s of
  pumping reach the stored duration); the two conditions evaluate false.
\<close>

theorem unset_timestamps_witness:
  "sampler_inv (setDeploymentConfig float_zero (Finite False 10485760 (-19))
        (Finite False 10485760 (-21)) ABS_ZERO_C float_zero 5 0 0 TICKS_PER_L test_sampler)
   \<and> m_diveStartTime (setDeploymentConfig float_zero (Finite False 10485760 (-19))
        (Finite False 10485760 (-21)) ABS_ZERO_C float_zero 5 0 0 TICKS_PER_L test_sampler)
       = UINT_MAX
   \<and> m_pumpStartTime (setDeploymentConfig float_zero (Finite False 10485760 (-19))
        (Finite False 10485760 (-21)) ABS_ZERO_C float_zero 5 0 0 TICKS_PER_L test_sampler)
       = UINT_MAX
   \<and> (30 :: u32) \<noteq> UINT_MAX
   \<and> m_waitPumpStart (setDeploymentConfig float_zero (Finite False 10485760 (-19))
        (Finite False 10485760 (-21)) ABS_ZERO_C float_zero 5 0 0 TICKS_PER_L test_sampler)
       \<le> 30 - UINT_MAX
   \<and> m_waitPumpEnd (setDeploymentConfig float_zero (Finite False 10485760 (-19))
        (Finite False 10485760 (-21)) ABS_ZERO_C float_zero 5 0 0 TICKS_PER_L test_sampler)
       \<le> 300
   \<and> m_startConditions (snd (checkPumpTrigger MIN_DEPTH MAX_TEMPERATURE 30 0 300
        (setDeploymentConfig float_zero (Finite False 10485760 (-19))
           (Finite False 10485760 (-21)) ABS_ZERO_C float_zero 5 0 0 TICKS_PER_L
           test_sampler))) ! 2 = 0
   \<and> m_endConditions (snd (checkPumpTrigger MIN_DEPTH MAX_TEMPERATURE 30 0 300
        (setDeploymentConfig float_zero (Finite False 10485760 (-19))
           (Finite False 10485760 (-21)) ABS_ZERO_C float_zero 5 0 0 TICKS_PER_L
           test_sampler))) ! 1 = 0"
proof -
  let ?s = "setDeploymentConfig float_zero (Finite False 10485760 (-19))
        (Finite False 10485760 (-21)) ABS_ZERO_C float_zero 5 0 0 TICKS_PER_L test_sampler"
  let ?c = "checkPumpTrigger MIN_DEPTH MAX_TEMPERATURE 30 0 300 ?s"
  have p: "?c = (fst ?c, snd ?c)"
    by simp
  have inv: "sampler_inv ?s"
    using sampler_inv_test_sampler by (rule setDeploymentConfig_inv)
  have ne: "(30 :: u32) \<noteq> UINT_MAX"
    by (simp add: UINT_MAX_def)
  have dive: "m_diveStartTime ?s = UINT_MAX" and pump: "m_pumpStartTime ?s = UINT_MAX"
    by (simp_all add: setDeploymentConfig_def test_sampler_def Sampler_def)
  have ws: "m_waitPumpStart ?s \<le> 30 - UINT_MAX" and we: "m_waitPumpEnd ?s \<le> 300"
    by (simp_all add: setDeploymentConfig_def)
  note inst = unset_timestamps [OF inv p]
  from inst dive ne have sc: "m_startConditions (snd ?c) ! 2 = 0"
    by simp
  from inst pump ne have ec: "m_endConditions (snd ?c) ! 1 = 0"
    by simp
  from inv dive pump ne ws we sc ec show ?thesis
    by (intro conjI)
qed

text \<open>
  The claim as stated (false for every value of \<^verbatim>\<open>time_now\<close>) fails when the clock reads
  \<^verbatim>\<open>UINT_MAX\<close>: in the same state, with the same \<^verbatim>\<open>pumpDuration\<close>, the dive-wait start
  condition and the pump-duration stop condition both evaluate true.
\<close>

theorem unset_timestamps_counterexample:
  "m_diveStartTime
     (setDeploymentConfig float_zero (Finite False 10485760 (-19)) (Finite False 10485760 (-21))
        ABS_ZERO_C float_zero 5 0 0 TICKS_PER_L test_sampler) = UINT_MAX
   \<and> m_pumpStartTime
     (setDeploymentConfig float_zero (Finite False 10485760 (-19)) (Finite False 10485760 (-21))
        ABS_ZERO_C float_zero 5 0 0 TICKS_PER_L test_sampler) = UINT_MAX
   \<and> m_startConditions (snd (checkPumpTrigger MIN_DEPTH MAX_TEMPERATURE UINT_MAX 0 300
     (setDeploymentConfig float_zero (Finite False 10485760 (-19)) (Finite False 10485760 (-21))
        ABS_ZERO_C float_zero 5 0 0 TICKS_PER_L test_sampler))) ! 2 = 1
   \<and> m_endConditions (snd (checkPumpTrigger MIN_DEPTH MAX_TEMPERATURE UINT_MAX 0 300
     (setDeploymentConfig float_zero (Finite False 10485760 (-19)) (Finite False 10485760 (-21))
        ABS_ZERO_C float_zero 5 0 0 TICKS_PER_L test_sampler))) ! 1 = 1"
  by (simp add: checkPumpTrigger_def Let_def evalConditions_def elapsedSinceDive_def
      setDeploymentConfig_def test_sampler_def Sampler_def)

text \<open>
  C7. The third start condition of \<^verbatim>\<open>checkPumpTrigger\<close> is
  \<^verbatim>\<open>(_diveStartTime <= time_now) && ((time_now - _diveStartTime) >= _waitPumpStart)\<close>. The
  value that the call stores for it is that of the same test on the integers, where nothing
  wraps around: the unsigned subtraction is evaluated only when \<^verbatim>\<open>_diveStartTime <= time_now\<close>
  (otherwise the condition is false without it), and then its \<^verbatim>\<open>uint32_t\<close> value is the
  mathematical difference of the two numbers.
\<close>

theorem checkPumpTrigger_elapsed_no_wrap:
  assumes "sampler_inv s"
    and "checkPumpTrigger depth temperature time_now ticks pumpDuration s = (cmd, s')"
  shows "m_startConditions s' ! 2 =
           of_bool (uint (m_diveStartTime s) \<le> uint time_now
                    \<and> uint (m_waitPumpStart s) \<le> uint time_now - uint (m_diveStartTime s))
       \<and> (case elapsedSinceDive time_now s of
             None \<Rightarrow> time_now < m_diveStartTime s \<and> m_startConditions s' ! 2 = 0
           | Some d \<Rightarrow> m_diveStartTime s \<le> time_now
                       \<and> uint d = uint time_now - uint (m_diveStartTime s))"
proof -
  from assms(2) have s': "s' = evalConditions depth temperature time_now ticks pumpDuration s"
    by (simp add: checkPumpTrigger_def Let_def)
  have sc: "m_startConditions s' ! 2 =
      of_bool (case elapsedSinceDive time_now s of None \<Rightarrow> False
               | Some d \<Rightarrow> m_waitPumpStart s \<le> d)"
    unfolding s' evalConditions_eq [OF assms(1)] by simp
  show ?thesis
  proof (cases "m_diveStartTime s \<le> time_now")
    case True
    then have d: "uint (time_now - m_diveStartTime s) = uint time_now - uint (m_diveStartTime s)"
      by (simp add: uint_minus_simple_alt)
    from True have e: "elapsedSinceDive time_now s = Some (time_now - m_diveStartTime s)"
      by (simp add: elapsedSinceDive_def)
    from True have le: "uint (m_diveStartTime s) \<le> uint time_now"
      by (simp add: word_le_def)
    have "m_waitPumpStart s \<le> time_now - m_diveStartTime s
        \<longleftrightarrow> uint (m_waitPumpStart s) \<le> uint time_now - uint (m_diveStartTime s)"
      unfolding d [symmetric] by (simp add: word_le_def)
    with True d le show ?thesis
      unfolding sc e by simp
  next
    case False
    then have e: "elapsedSinceDive time_now s = None"
      by (simp add: elapsedSinceDive_def)
    from False have lt: "time_now < m_diveStartTime s"
      by (simp add: not_le)
    from False have "\<not> uint (m_diveStartTime s) \<le> uint time_now"
      by (simp add: word_le_def)
    with lt show ?thesis
      unfolding sc e by simp
  qed
qed

text \<open>
  \<^verbatim>\<open>testVolume1\<close> (dive at 0, one minute of wait) at \<^verbatim>\<open>time_now = 80\<close>: the difference is 80
  and the condition holds. The same sampler with the dive at 100: the subtraction is not
  evaluated and the condition is false, although the unsigned difference \<^verbatim>\<open>80 - 100\<close>
  exceeds the wait.
\<close>

theorem checkPumpTrigger_elapsed_no_wrap_witness:
  "sampler_inv testVolume1
   \<and> elapsedSinceDive 80 testVolume1 = Some 80
   \<and> m_startConditions (snd (checkPumpTrigger MIN_DEPTH MAX_TEMPERATURE 80 0 0 testVolume1)) ! 2 = 1
   \<and> sampler_inv (setDiveStartTime 100 testVolume1)
   \<and> elapsedSinceDive 80 (setDiveStartTime 100 testVolume1) = None
   \<and> m_waitPumpStart (setDiveStartTime 100 testVolume1)
       \<le> 80 - m_diveStartTime (setDiveStartTime 100 testVolume1)
   \<and> m_startConditions (snd (checkPumpTrigger MIN_DEPTH MAX_TEMPERATURE 80 0 0
        (setDiveStartTime 100 testVolume1))) ! 2 = 0"
proof -
  let ?a = "checkPumpTrigger MIN_DEPTH MAX_TEMPERATURE 80 0 0 testVolume1"
  let ?t = "setDiveStartTime 100 testVolume1"
  let ?b = "checkPumpTrigger MIN_DEPTH MAX_TEMPERATURE 80 0 0 ?t"
  have pa: "?a = (fst ?a, snd ?a)" and pb: "?b = (fst ?b, snd ?b)"
    by simp_all
  have invt: "sampler_inv ?t"
    by (simp add: sampler_inv_setDiveStartTime sampler_inv_testVolume1)
  have ea: "elapsedSinceDive 80 testVolume1 = Some 80"
    by (simp add: elapsedSinceDive_def testVolume1_fields)
  have t: "m_diveStartTime ?t = 100" "m_waitPumpStart ?t = 60"
    by (simp_all add: setDiveStartTime_def testVolume1_fields)
  have eb: "elapsedSinceDive 80 ?t = None"
    by (simp add: elapsedSinceDive_def t)
  have w: "m_waitPumpStart ?t \<le> 80 - m_diveStartTime ?t"
    unfolding t by simp
  have a: "m_startConditions (snd ?a) ! 2 = 1"
    using checkPumpTrigger_elapsed_no_wrap [OF sampler_inv_testVolume1 pa]
    by (simp add: testVolume1_fields)
  have b: "m_startConditions (snd ?b) ! 2 = 0"
    using checkPumpTrigger_elapsed_no_wrap [OF invt pb]
    by (simp add: t)
  from sampler_inv_testVolume1 ea a invt eb w b show ?thesis
    by (intro conjI)
qed

text \<open>
  C8, as amended. The depth and temperature start conditions compare the single-precision
  difference \<^verbatim>\<open>fabs(v - t)\<close> with the band. For a finite live value \<open>v\<close>, target \<open>t\<close> and
  band \<open>b\<close>: a value whose exact distance \<open>\<bar>v - t\<bar>\<close> from the target is at most the band,
  the boundary \<open>\<bar>v - t\<bar> = b\<close> included, is in band; a value whose exact distance is at least
  some float above the band is out of band, and so is in particular a value whose exact
  distance exceeds the band when the difference \<open>v - t\<close> is itself a float; and in every
  case a value is out of band when the computed difference exceeds the band. Below, \<open>s'\<close>
  is the state that the call leaves, with the depth condition at index 0 and the
  temperature condition at index 1.
\<close>

theorem band_checks:
  assumes "sampler_inv s"
    and "checkPumpTrigger depth temperature time_now ticks pumpDuration s = (cmd, s')"
  shows
   "(is_finite depth \<and> is_finite (m_targetDepth s) \<and> is_finite (m_depthBand s)
       \<and> is_float32 (m_depthBand s) \<and> \<bar>valof depth - valof (m_targetDepth s)\<bar> \<le> valof (m_depthBand s)
     \<longrightarrow> m_startConditions s' ! 0 = 1)
  \<and> (is_finite depth \<and> is_finite (m_targetDepth s) \<and> is_finite (m_depthBand s)
       \<and> (\<exists>f. is_finite f \<and> is_float32 f \<and> valof (m_depthBand s) < valof f
                \<and> valof f \<le> \<bar>valof depth - valof (m_targetDepth s)\<bar>)
     \<longrightarrow> m_startConditions s' ! 0 = 0)
  \<and> (is_finite depth \<and> is_finite (m_targetDepth s) \<and> is_finite (m_depthBand s)
       \<and> (\<exists>f. is_finite f \<and> is_float32 f \<and> valof f = valof depth - valof (m_targetDepth s))
       \<and> valof (m_depthBand s) < \<bar>valof depth - valof (m_targetDepth s)\<bar>
     \<longrightarrow> m_startConditions s' ! 0 = 0)
  \<and> (flt (m_depthBand s) (fabs (fsub depth (m_targetDepth s)))
     \<longrightarrow> m_startConditions s' ! 0 = 0)
  \<and> (is_finite temperature \<and> is_finite (m_targetTemperature s) \<and> is_finite (m_temperatureBand s)
       \<and> is_float32 (m_temperatureBand s) \<and> \<bar>valof temperature - valof (m_targetTemperature s)\<bar> \<le> valof (m_temperatureBand s)
     \<longrightarrow> m_startConditions s' ! 1 = 1)
  \<and> (is_finite temperature \<and> is_finite (m_targetTemperature s) \<and> is_finite (m_temperatureBand s)
       \<and> (\<exists>f. is_finite f \<and> is_float32 f \<and> valof (m_temperatureBand s) < valof f
                \<and> valof f \<le> \<bar>valof temperature - valof (m_targetTemperature s)\<bar>)
     \<longrightarrow> m_startConditions s' ! 1 = 0)
  \<and> (is_finite temperature \<and> is_finite (m_targetTemperature s) \<and> is_finite (m_temperatureBand s)
       \<and> (\<exists>f. is_finite f \<and> is_float32 f \<and> valof f = valof temperature - valof (m_targetTemperature s))
       \<and> valof (m_temperatureBand s) < \<bar>valof temperature - valof (m_targetTemperature s)\<bar>
     \<longrightarrow> m_startConditions s' ! 1 = 0)
  \<and> (flt (m_temperatureBand s) (fabs (fsub temperature (m_targetTemperature s)))
     \<longrightarrow> m_startConditions s' ! 1 = 0)"
proof -
  from assms(2) have "s' = snd (checkPumpTrigger depth temperature time_now ticks pumpDuration s)"
    by simp
  then have sc: "m_startConditions s' =
      [of_bool (fle (fabs (fsub depth (m_targetDepth s))) (m_depthBand s)),
       of_bool (fle (fabs (fsub temperature (m_targetTemperature s))) (m_temperatureBand s)),
       of_bool (case elapsedSinceDive time_now s of None \<Rightarrow> False
                | Some d \<Rightarrow> m_waitPumpStart s \<le> d)]"
    by (simp only: checkPumpTrigger_start [OF assms(1)])
  have within: "fle (fabs (fsub v t)) b"
    if "is_finite v \<and> is_finite t \<and> is_finite b \<and> is_float32 b \<and> \<bar>valof v - valof t\<bar> \<le> valof b"
    for v t b
    using that by (intro band_test_within) simp_all
  have above: "\<not> fle (fabs (fsub v t)) b"
    if "is_finite v \<and> is_finite t \<and> is_finite b
        \<and> (\<exists>f. is_finite f \<and> is_float32 f \<and> valof b < valof f \<and> valof f \<le> \<bar>valof v - valof t\<bar>)"
    for v t b
  proof -
    from that obtain f where "is_finite f" "is_float32 f" "valof b < valof f"
      "valof f \<le> \<bar>valof v - valof t\<bar>"
      by blast
    with that show ?thesis
      by (intro band_test_above [where f = f]) simp_all
  qed
  have exact: "\<not> fle (fabs (fsub v t)) b"
    if "is_finite v \<and> is_finite t \<and> is_finite b
        \<and> (\<exists>f. is_finite f \<and> is_float32 f \<and> valof f = valof v - valof t)
        \<and> valof b < \<bar>valof v - valof t\<bar>"
    for v t b
    using that by (intro band_test_beyond) simp_all
  have computed: "\<not> fle (fabs (fsub v t)) b" if "flt b (fabs (fsub v t))" for v t b
    using that by (rule flt_not_fle)
  show ?thesis
    unfolding sc using within above exact computed by simp
qed

text \<open>
  In \<^verbatim>\<open>testVolume1\<close> (depth \<open>200 \<plusminus> 5\<close> m, temperature target \<^verbatim>\<open>ABS_ZERO_C\<close> with band 0):
  205 m and \<^verbatim>\<open>ABS_ZERO_C\<close> are on the boundary and in band; 206 m and 13 \<degree>C are beyond it,
  with the exact differences 6 and \<open>9376563 / 2\<^sup>1\<^sup>5\<close>, and out of band. With the target 3 m
  and the band 3 m the subtraction rounds: at \<open>2\<^sup>-\<^sup>3\<^sup>0\<close> m the distance is below the band,
  and the depth is in band; at \<open>-(1/2 + 2\<^sup>-\<^sup>2\<^sup>4)\<close> m the distance is above the float 3.5, and
  the depth is out of band.
\<close>

theorem band_checks_witness:
  "sampler_inv testVolume1
   \<and> \<bar>valof (Finite False 13434880 (-16)) - valof (m_targetDepth testVolume1)\<bar> \<le>
       valof (m_depthBand testVolume1)
   \<and> m_startConditions (snd (checkPumpTrigger (Finite False 13434880 (-16)) ABS_ZERO_C 80 0 0
       testVolume1)) ! 0 = 1
   \<and> \<bar>valof ABS_ZERO_C - valof (m_targetTemperature testVolume1)\<bar> \<le> valof
       (m_temperatureBand testVolume1)
   \<and> m_startConditions (snd (checkPumpTrigger (Finite False 13434880 (-16)) ABS_ZERO_C 80 0 0
       testVolume1)) ! 1 = 1
   \<and> valof (Finite False 12582912 (-21)) = valof (Finite False 13500416 (-16)) - valof
       (m_targetDepth testVolume1)
   \<and> valof (m_depthBand testVolume1) < valof (Finite False 12582912 (-21))
   \<and> valof (Finite False 12582912 (-21)) \<le> \<bar>valof (Finite False 13500416 (-16)) - valof
       (m_targetDepth testVolume1)\<bar>
   \<and> flt (m_depthBand testVolume1) (fabs (fsub (Finite False 13500416 (-16)) (m_targetDepth
       testVolume1)))
   \<and> m_startConditions (snd (checkPumpTrigger (Finite False 13500416 (-16)) (Finite False
       13631488 (-20)) 80 0 0 testVolume1)) ! 0 = 0
   \<and> valof (Finite False 9376563 (-15)) = valof (Finite False 13631488 (-20)) - valof
       (m_targetTemperature testVolume1)
   \<and> valof (m_temperatureBand testVolume1) < valof (Finite False 9376563 (-15))
   \<and> valof (Finite False 9376563 (-15)) \<le> \<bar>valof (Finite False 13631488 (-20)) - valof
       (m_targetTemperature testVolume1)\<bar>
   \<and> flt (m_temperatureBand testVolume1) (fabs (fsub (Finite False 13631488 (-20))
       (m_targetTemperature testVolume1)))
   \<and> m_startConditions (snd (checkPumpTrigger (Finite False 13500416 (-16)) (Finite False
       13631488 (-20)) 80 0 0 testVolume1)) ! 1 = 0
   \<and> sampler_inv (setDeploymentConfig float_zero (Finite False 12582912 (-22)) (Finite False
       12582912 (-22)) ABS_ZERO_C float_zero 5 0 0 TICKS_PER_L test_sampler)
   \<and> m_targetDepth (setDeploymentConfig float_zero (Finite False 12582912 (-22)) (Finite False
       12582912 (-22)) ABS_ZERO_C float_zero 5 0 0 TICKS_PER_L test_sampler) = (Finite False
       12582912 (-22))
   \<and> m_depthBand (setDeploymentConfig float_zero (Finite False 12582912 (-22)) (Finite False
       12582912 (-22)) ABS_ZERO_C float_zero 5 0 0 TICKS_PER_L test_sampler) = (Finite False
       12582912 (-22))
   \<and> \<bar>valof (Finite False 8388608 (-53)) - valof (Finite False 12582912 (-22))\<bar> \<le>
       valof (Finite False 12582912 (-22))
   \<and> \<bar>valof (Finite False 8388608 (-53)) - valof (Finite False 12582912 (-22))\<bar>
       \<noteq> valof (Finite False 12582912 (-22))
   \<and> m_startConditions (snd (checkPumpTrigger (Finite False 8388608 (-53)) (Finite False 13631488
       (-20)) 80 0 0 (setDeploymentConfig float_zero (Finite False 12582912 (-22)) (Finite False
       12582912 (-22)) ABS_ZERO_C float_zero 5 0 0 TICKS_PER_L test_sampler))) ! 0 = 1
   \<and> valof (Finite False 12582912 (-22)) < valof (Finite False 14680064 (-22))
   \<and> valof (Finite False 14680064 (-22)) \<le> \<bar>valof (Finite True 8388609 (-24)) - valof
       (Finite False 12582912 (-22))\<bar>
   \<and> valof (Finite False 14680064 (-22)) \<noteq> \<bar>valof (Finite True 8388609 (-24)) - valof
       (Finite False 12582912 (-22))\<bar>
   \<and> m_startConditions (snd (checkPumpTrigger (Finite True 8388609 (-24)) (Finite False 13631488
       (-20)) 80 0 0 (setDeploymentConfig float_zero (Finite False 12582912 (-22)) (Finite False
       12582912 (-22)) ABS_ZERO_C float_zero 5 0 0 TICKS_PER_L test_sampler))) ! 0 = 0"
proof -
  let ?a = "checkPumpTrigger (Finite False 13434880 (-16)) ABS_ZERO_C 80 0 0 testVolume1"
  let ?b = "checkPumpTrigger (Finite False 13500416 (-16)) (Finite False 13631488 (-20))
              80 0 0 testVolume1"
  let ?s = "setDeploymentConfig float_zero (Finite False 12582912 (-22)) (Finite False 12582912 (-22))
          ABS_ZERO_C float_zero 5 0 0 TICKS_PER_L test_sampler"
  let ?c = "checkPumpTrigger (Finite False 8388608 (-53)) (Finite False 13631488 (-20)) 80 0 0 ?s"
  let ?d = "checkPumpTrigger (Finite True 8388609 (-24)) (Finite False 13631488 (-20)) 80 0 0 ?s"
  have pa: "?a = (fst ?a, snd ?a)" and pb: "?b = (fst ?b, snd ?b)"
    and pc: "?c = (fst ?c, snd ?c)" and pd: "?d = (fst ?d, snd ?d)"
    by simp_all
  note fields = testVolume1_fields
  have d1: "\<bar>valof (Finite False 13434880 (-16)) - valof (m_targetDepth testVolume1)\<bar>
       \<le> valof (m_depthBand testVolume1)"
    by (simp add: fields pow2_def)
  have t1: "\<bar>valof ABS_ZERO_C - valof (m_targetTemperature testVolume1)\<bar>
       \<le> valof (m_temperatureBand testVolume1)"
    by (simp add: fields float_zero_def)
  have d2: "valof (Finite False 12582912 (-21))
       = valof (Finite False 13500416 (-16)) - valof (m_targetDepth testVolume1)"
    by (simp add: fields pow2_def)
  have d3: "valof (m_depthBand testVolume1) < valof (Finite False 12582912 (-21))"
    by (simp add: fields pow2_def)
  have d4: "flt (m_depthBand testVolume1)
         (fabs (fsub (Finite False 13500416 (-16)) (m_targetDepth testVolume1)))"
    by (simp add: fields sval_def round_float_def bitlen_numeral_simps)
  have d5: "valof (Finite False 12582912 (-21)) \<le> \<bar>valof (Finite False 13500416 (-16)) - valof (m_targetDepth testVolume1)\<bar>"
    by (simp add: fields pow2_def)
  have t2: "valof (Finite False 9376563 (-15))
       = valof (Finite False 13631488 (-20)) - valof (m_targetTemperature testVolume1)"
    by (simp add: fields ABS_ZERO_C_def pow2_def)
  have t3: "valof (m_temperatureBand testVolume1) < valof (Finite False 9376563 (-15))"
    by (simp add: fields float_zero_def pow2_def)
  have t4: "flt (m_temperatureBand testVolume1)
         (fabs (fsub (Finite False 13631488 (-20)) (m_targetTemperature testVolume1)))"
    by (simp add: fields ABS_ZERO_C_def float_zero_def sval_def round_float_def
        bitlen_numeral_simps)
  have t5: "valof (Finite False 9376563 (-15))
       \<le> \<bar>valof (Finite False 13631488 (-20)) - valof (m_targetTemperature testVolume1)\<bar>"
    by (simp add: fields ABS_ZERO_C_def pow2_def)
  have fin: "is_finite (m_targetDepth testVolume1)" "is_finite (m_depthBand testVolume1)"
    "is_float32 (m_depthBand testVolume1)" "is_finite (m_targetTemperature testVolume1)"
    "is_finite (m_temperatureBand testVolume1)" "is_float32 (m_temperatureBand testVolume1)"
    "is_finite ABS_ZERO_C" "is_float32 (Finite False 12582912 (-21))"
    "is_float32 (Finite False 9376563 (-15))"
    by (simp_all add: fields ABS_ZERO_C_def float_zero_def)
  have ex1: "\<exists>f. is_finite f \<and> is_float32 f \<and> valof (m_depthBand testVolume1) < valof f
      \<and> valof f \<le> \<bar>valof (Finite False 13500416 (-16)) - valof (m_targetDepth testVolume1)\<bar>"
    using d3 d5 fin(8) by (intro exI [of _ "Finite False 12582912 (-21)"]) simp
  have ex2: "\<exists>f. is_finite f \<and> is_float32 f \<and> valof (m_temperatureBand testVolume1) < valof f
      \<and> valof f \<le> \<bar>valof (Finite False 13631488 (-20)) - valof (m_targetTemperature testVolume1)\<bar>"
    using t3 t5 fin(9) by (intro exI [of _ "Finite False 9376563 (-15)"]) simp
  have invs: "sampler_inv ?s"
    using sampler_inv_test_sampler by (rule setDeploymentConfig_inv)
  have td: "m_targetDepth ?s = (Finite False 12582912 (-22))"
    by (simp add: setDeploymentConfig_def fgt_def float_zero_def sval_def)
  have db: "m_depthBand ?s = (Finite False 12582912 (-22))"
    by (simp add: setDeploymentConfig_def)
  have c1: "\<bar>valof (Finite False 8388608 (-53)) - valof (Finite False 12582912 (-22))\<bar> \<le> valof (Finite False 12582912 (-22))"
    and c2: "\<bar>valof (Finite False 8388608 (-53)) - valof (Finite False 12582912 (-22))\<bar> \<noteq> valof (Finite False 12582912 (-22))"
    and e1: "valof (Finite False 12582912 (-22)) < valof (Finite False 14680064 (-22))"
    and e2: "valof (Finite False 14680064 (-22)) \<le> \<bar>valof (Finite True 8388609 (-24)) - valof (Finite False 12582912 (-22))\<bar>"
    and e3: "valof (Finite False 14680064 (-22)) \<noteq> \<bar>valof (Finite True 8388609 (-24)) - valof (Finite False 12582912 (-22))\<bar>"
    by (simp_all add: pow2_def)
  have ex3: "\<exists>f. is_finite f \<and> is_float32 f \<and> valof (m_depthBand ?s) < valof f
      \<and> valof f \<le> \<bar>valof (Finite True 8388609 (-24)) - valof (m_targetDepth ?s)\<bar>"
    unfolding td db using e1 e2 by (intro exI [of _ "Finite False 14680064 (-22)"]) simp
  have c1': "\<bar>valof (Finite False 8388608 (-53)) - valof (m_targetDepth ?s)\<bar> \<le> valof (m_depthBand ?s)"
    unfolding td db by (rule c1)
  have fins: "is_finite (m_targetDepth ?s)" "is_finite (m_depthBand ?s)"
    "is_float32 (m_depthBand ?s)"
    unfolding td db by simp_all
  note a = band_checks [OF sampler_inv_testVolume1 pa]
  note b = band_checks [OF sampler_inv_testVolume1 pb]
  note c = band_checks [OF invs pc]
  note d = band_checks [OF invs pd]
  have a0: "m_startConditions (snd ?a) ! 0 = 1"
    using a d1 fin by simp
  have a1: "m_startConditions (snd ?a) ! 1 = 1"
    using a t1 fin by simp
  have b0: "m_startConditions (snd ?b) ! 0 = 0"
    using b ex1 fin by simp
  have b1: "m_startConditions (snd ?b) ! 1 = 0"
    using b ex2 fin by simp
  have c0: "m_startConditions (snd ?c) ! 0 = 1"
    using c c1' fins by simp
  have d0: "m_startConditions (snd ?d) ! 0 = 0"
    using d ex3 fins by simp
  from sampler_inv_testVolume1 d1 a0 t1 a1 d2 d3 d5 d4 b0 t2 t3 t5 t4 b1 invs td db c1 c2 c0
    e1 e2 e3 d0
  show ?thesis
    by (intro conjI)
qed

text \<open>
  The claim as stated fails when the subtraction rounds: target 3 m, band 2 m, depth
  0.99999994 m (the float below 1). The exact distance \<open>2 + 2\<^sup>-\<^sup>2\<^sup>4\<close> exceeds the band, the
  single-precision difference is \<open>-2\<close>, and the depth condition holds.
\<close>

theorem band_checks_counterexample:
  "is_float32 (Finite False 16777215 (-24))
   \<and> m_targetDepth (setDeploymentConfig float_zero (Finite False 12582912 (-22))
        (Finite False 8388608 (-22)) ABS_ZERO_C float_zero 5 0 0 TICKS_PER_L test_sampler)
       = Finite False 12582912 (-22)
   \<and> m_depthBand (setDeploymentConfig float_zero (Finite False 12582912 (-22))
        (Finite False 8388608 (-22)) ABS_ZERO_C float_zero 5 0 0 TICKS_PER_L test_sampler)
       = Finite False 8388608 (-22)
   \<and> valof (Finite False 8388608 (-22))
       < \<bar>valof (Finite False 16777215 (-24)) - valof (Finite False 12582912 (-22))\<bar>
   \<and> m_startConditions (snd (checkPumpTrigger (Finite False 16777215 (-24)) MAX_TEMPERATURE 30 0 0
        (setDeploymentConfig float_zero (Finite False 12582912 (-22))
           (Finite False 8388608 (-22)) ABS_ZERO_C float_zero 5 0 0 TICKS_PER_L test_sampler))) ! 0 = 1"
proof -
  let ?s = "setDeploymentConfig float_zero (Finite False 12582912 (-22))
        (Finite False 8388608 (-22)) ABS_ZERO_C float_zero 5 0 0 TICKS_PER_L test_sampler"
  have inv: "sampler_inv ?s"
    using sampler_inv_test_sampler by (rule setDeploymentConfig_inv)
  have td: "m_targetDepth ?s = Finite False 12582912 (-22)"
    by (simp add: setDeploymentConfig_def fgt_def float_zero_def sval_def)
  have db: "m_depthBand ?s = Finite False 8388608 (-22)"
    by (simp add: setDeploymentConfig_def)
  have v: "valof (Finite False 8388608 (-22))
       < \<bar>valof (Finite False 16777215 (-24)) - valof (Finite False 12582912 (-22))\<bar>"
    by (simp add: pow2_def)
  have "fsub (Finite False 16777215 (-24)) (Finite False 12582912 (-22)) = Finite True 8388608 (-22)"
    by (simp add: sval_def round_float_def bitlen_numeral_simps)
  then have c: "m_startConditions (snd (checkPumpTrigger (Finite False 16777215 (-24))
      MAX_TEMPERATURE 30 0 0 ?s)) ! 0 = 1"
    by (simp add: checkPumpTrigger_start [OF inv] td db sval_def)
  have f: "is_float32 (Finite False 16777215 (-24))"
    by simp
  from f td db v c show ?thesis
    by (intro conjI)
qed

text \<open>
  C9. \<^verbatim>\<open>checkPumpTrigger\<close> writes only the two cached arrays \<^verbatim>\<open>_startConditions\<close> and
  \<^verbatim>\<open>_endConditions\<close>: the state \<open>s'\<close> after the call is the state \<open>s\<close> before it with these
  two fields replaced, so the configuration, the masks, the two timestamps, the flow log, its
  index and the two flow rates are unchanged. The returned command (and the state after the
  call) is a function of the five inputs and of the rest of the state: it does not depend
  on what the two cached arrays held before the call.
\<close>

theorem checkPumpTrigger_frame:
  assumes "sampler_inv s"
    and "checkPumpTrigger depth temperature time_now ticks pumpDuration s = (cmd, s')"
    and "length a = N_START_COND" and "length b = N_END_COND"
  shows "s' = s \<lparr> m_startConditions := m_startConditions s',
                   m_endConditions := m_endConditions s' \<rparr>
       \<and> checkPumpTrigger depth temperature time_now ticks pumpDuration
           (s \<lparr> m_startConditions := a, m_endConditions := b \<rparr>) = (cmd, s')"
proof -
  let ?e = "evalConditions depth temperature time_now ticks pumpDuration"
  from assms(2) have s': "s' = ?e s"
    by (simp add: checkPumpTrigger_def Let_def)
  have frame: "s' = s \<lparr> m_startConditions := m_startConditions s',
                        m_endConditions := m_endConditions s' \<rparr>"
    unfolding s' by (rule evalConditions_frame)
  have inv': "sampler_inv (s \<lparr> m_startConditions := a, m_endConditions := b \<rparr>)"
    using assms(1,3,4) by (rule sampler_inv_caches)
  have "?e (s \<lparr> m_startConditions := a, m_endConditions := b \<rparr>) = ?e s"
    by (simp add: evalConditions_eq [OF inv'] evalConditions_eq [OF assms(1)]
        elapsedSinceDive_def)
  then have "checkPumpTrigger depth temperature time_now ticks pumpDuration
           (s \<lparr> m_startConditions := a, m_endConditions := b \<rparr>) =
         checkPumpTrigger depth temperature time_now ticks pumpDuration s"
    by (simp add: checkPumpTrigger_def)
  with assms(2) frame show ?thesis
    by simp
qed

text \<open>
  \<^verbatim>\<open>testVolume1\<close> at \<^verbatim>\<open>time_now = 80\<close> with 92000 ticks after 20 s of pumping, from the
  caches as they are in that state and from caches that all hold 1.
\<close>

theorem checkPumpTrigger_frame_witness:
  "sampler_inv testVolume1 \<and> length [1, 1, 1 :: u8] = N_START_COND
   \<and> length [1, 1, 1 :: u8] = N_END_COND
   \<and> snd (checkPumpTrigger MIN_DEPTH MAX_TEMPERATURE 80 92000 20 testVolume1) =
       testVolume1 \<lparr> m_startConditions := m_startConditions
                        (snd (checkPumpTrigger MIN_DEPTH MAX_TEMPERATURE 80 92000 20 testVolume1)),
                     m_endConditions := m_endConditions
                        (snd (checkPumpTrigger MIN_DEPTH MAX_TEMPERATURE 80 92000 20 testVolume1)) \<rparr>
   \<and> checkPumpTrigger MIN_DEPTH MAX_TEMPERATURE 80 92000 20
        (testVolume1 \<lparr> m_startConditions := [1, 1, 1], m_endConditions := [1, 1, 1] \<rparr>) =
      checkPumpTrigger MIN_DEPTH MAX_TEMPERATURE 80 92000 20 testVolume1"
proof -
  let ?c = "checkPumpTrigger MIN_DEPTH MAX_TEMPERATURE 80 92000 20 testVolume1"
  have p: "?c = (fst ?c, snd ?c)"
    by simp
  have a: "length [1, 1, 1 :: u8] = N_START_COND" and b: "length [1, 1, 1 :: u8] = N_END_COND"
    by (simp_all add: N_START_COND_def N_END_COND_def)
  note inst = checkPumpTrigger_frame [OF sampler_inv_testVolume1 p a b]
  from inst have f: "snd ?c = testVolume1 \<lparr> m_startConditions := m_startConditions (snd ?c),
                     m_endConditions := m_endConditions (snd ?c) \<rparr>" ..
  from inst have d: "checkPumpTrigger MIN_DEPTH MAX_TEMPERATURE 80 92000 20
        (testVolume1 \<lparr> m_startConditions := [1, 1, 1], m_endConditions := [1, 1, 1] \<rparr>) = ?c"
    by simp
  from sampler_inv_testVolume1 a b f d show ?thesis
    by (intro conjI)
qed

text \<open>
  C10. \<^verbatim>\<open>computeMaxFlowrate\<close> reads \<^verbatim>\<open>_flowLog[_curFlowIdx]\<close> inside the array and writes
  only \<^verbatim>\<open>_maxFlowrate\<close>, which becomes the \<^verbatim>\<open>uint32_t\<close> value
  \<^verbatim>\<open>(flowData - _flowLog[_curFlowIdx]) * 12\<close> converted to \<^verbatim>\<open>float\<close>. The flow log, its
  index and \<^verbatim>\<open>_curFlowrate\<close> are unchanged, so the estimates of every later sequence of
  \<^verbatim>\<open>updateCurrentFlowrate\<close> calls are the same as without the call.
\<close>

theorem computeMaxFlowrate_frame:
  assumes "sampler_inv s"
  shows "unat (m_curFlowIdx s) < length (m_flowLog s)
     \<and> computeMaxFlowrate flowData s =
         s \<lparr> m_maxFlowrate := u32_to_float ((flowData - m_flowLog s ! unat (m_curFlowIdx s)) * 12) \<rparr>
     \<and> m_flowLog (computeMaxFlowrate flowData s) = m_flowLog s
     \<and> m_curFlowIdx (computeMaxFlowrate flowData s) = m_curFlowIdx s
     \<and> m_curFlowrate (computeMaxFlowrate flowData s) = m_curFlowrate s
     \<and> m_curFlowrate (updateMany xs (computeMaxFlowrate flowData s)) =
         m_curFlowrate (updateMany xs s)
     \<and> m_flowLog (updateMany xs (computeMaxFlowrate flowData s)) = m_flowLog (updateMany xs s)"
  using assms
  by (simp add: computeMaxFlowrate_def updateMany_maxFlowrate sampler_inv_def)

theorem computeMaxFlowrate_frame_witness:
  "sampler_inv test_sampler
   \<and> computeMaxFlowrate 5 test_sampler =
       test_sampler \<lparr> m_maxFlowrate := u32_to_float ((5 - m_flowLog test_sampler ! unat (m_curFlowIdx test_sampler)) * 12) \<rparr>
   \<and> m_curFlowrate (updateMany [6, 7] (computeMaxFlowrate 5 test_sampler)) =
       m_curFlowrate (updateMany [6, 7] test_sampler)"
  using computeMaxFlowrate_frame [OF sampler_inv_test_sampler, of 5 "[6, 7]"] sampler_inv_test_sampler
  by blast

end
